theory Spec2Isabelle
  imports Main
begin

section \<open>Retry with exponential backoff (lib/utils.js)\<close>

text \<open>
  \<^verbatim>\<open>retryWithBackoff(fn, options)\<close> calls the operation \<open>fn\<close> up to \<open>maxRetries\<close> times.
  The operation is effectful, so its outcome may differ from call to call: it is modelled
  by the outcome of its \<open>k\<close>-th invocation, \<open>Inl err\<close> for a thrown error and \<open>Inr v\<close> for
  a returned value.  Delays and counters are integral JavaScript numbers.  Everything the
  loop does besides returning is recorded, in order, in a list of events.
\<close>

record retry_options =
  maxRetries :: int
  initialDelay :: int
  maxDelay :: int
  factor :: int
  hasOnRetry :: bool

definition default_retry_options :: retry_options where
  "default_retry_options =
     \<lparr>maxRetries = 3, initialDelay = 1000, maxDelay = 10000, factor = 2, hasOnRetry = False\<rparr>"

datatype 'e retry_event =
    Attempt nat
  | OnRetry int int int 'e
  | LoggerWarn int int int 'e
  | Sleep int

text \<open>The expression bound to \<open>delay\<close> in the catch block.\<close>

definition backoffDelay :: "retry_options \<Rightarrow> nat \<Rightarrow> int" where
  "backoffDelay opts attempt = min (initialDelay opts * factor opts ^ attempt) (maxDelay opts)"

text \<open>The \<open>if (onRetry) ... else logger.warn(...)\<close> statement of the catch block.\<close>

definition notifyRetry :: "retry_options \<Rightarrow> nat \<Rightarrow> int \<Rightarrow> 'e \<Rightarrow> 'e retry_event" where
  "notifyRetry opts attempt delay err =
     (if hasOnRetry opts
      then OnRetry (int attempt + 1) (maxRetries opts) delay err
      else LoggerWarn (int attempt + 1) (maxRetries opts) delay err)"

text \<open>
  The \<open>for\<close> loop, entered at \<open>attempt\<close> with the current \<open>lastError\<close> (\<open>None\<close> is
  JavaScript's \<open>undefined\<close>).  The result is \<open>Inr v\<close> for \<open>return v\<close> and \<open>Inl e\<close> for
  \<open>throw e\<close>.
\<close>

function retry_loop ::
  "(nat \<Rightarrow> 'e + 'a) \<Rightarrow> retry_options \<Rightarrow> nat \<Rightarrow> 'e option \<Rightarrow> 'e retry_event list
     \<Rightarrow> ('e option + 'a) \<times> 'e retry_event list" where
  "retry_loop fn opts attempt lastError tr =
     (if int attempt < maxRetries opts then
        (case fn attempt of
           Inr v \<Rightarrow> (Inr v, tr @ [Attempt attempt])
         | Inl err \<Rightarrow>
             if int attempt = maxRetries opts - 1 then (Inl (Some err), tr @ [Attempt attempt])
             else
               let delay = backoffDelay opts attempt
               in retry_loop fn opts (Suc attempt) (Some err)
                    (tr @ [Attempt attempt, notifyRetry opts attempt delay err, Sleep delay]))
      else (Inl lastError, tr))"
  by pat_completeness auto
termination
  by (relation "measure (\<lambda>(fn, opts, attempt, lastError, tr). nat (maxRetries opts - int attempt))")
     auto

definition retryWithBackoff ::
  "(nat \<Rightarrow> 'e + 'a) \<Rightarrow> retry_options \<Rightarrow> ('e option + 'a) \<times> 'e retry_event list" where
  "retryWithBackoff fn opts = retry_loop fn opts 0 None []"

fun sleeps :: "'e retry_event list \<Rightarrow> int list" where
  "sleeps [] = []"
| "sleeps (Sleep d # evs) = d # sleeps evs"
| "sleeps (_ # evs) = sleeps evs"

fun attempts :: "'e retry_event list \<Rightarrow> nat list" where
  "attempts [] = []"
| "attempts (Attempt k # evs) = k # attempts evs"
| "attempts (_ # evs) = attempts evs"


section \<open>JavaScript strings\<close>

text \<open>
  Strings are lists of characters.  \<open>isWhiteSpace\<close> holds of the characters that
  \<^verbatim>\<open>String.prototype.trim\<close> removes and that the regular expression class \<^verbatim>\<open>\s\<close> matches:
  TAB, LF, VT, FF, CR, space and the no-break space (the members of that class outside
  Latin-1 are not characters of the model).
\<close>

definition isWhiteSpace :: "char \<Rightarrow> bool" where
  "isWhiteSpace c =
     (c = CHR 0x09 \<or> c = CHR 0x0A \<or> c = CHR 0x0B \<or> c = CHR 0x0C \<or> c = CHR 0x0D
      \<or> c = CHR 0x20 \<or> c = CHR 0xA0)"

definition trim :: "string \<Rightarrow> string" where
  "trim s = rev (dropWhile isWhiteSpace (rev (dropWhile isWhiteSpace s)))"

text \<open>\<^verbatim>\<open>s.split('\n')\<close>: never empty, \<^verbatim>\<open>''.split('\n')\<close> is \<^verbatim>\<open>['']\<close>.\<close>

fun splitLines :: "string \<Rightarrow> string list" where
  "splitLines [] = [[]]"
| "splitLines (c # cs) =
     (if c = CHR 0x0A then [] # splitLines cs
      else (case splitLines cs of l # ls \<Rightarrow> (c # l) # ls | [] \<Rightarrow> [[c]]))"

definition startsWith :: "string \<Rightarrow> string \<Rightarrow> bool" where
  "startsWith s p = (take (length p) s = p)"

text \<open>\<^verbatim>\<open>xs.join(sep)\<close>.\<close>

fun joinWith :: "string \<Rightarrow> string list \<Rightarrow> string" where
  "joinWith sep [] = []"
| "joinWith sep [x] = x"
| "joinWith sep (x # y # ys) = x @ sep @ joinWith sep (y # ys)"

text \<open>
  An optional string stands for a value that may be \<^verbatim>\<open>null\<close> or \<^verbatim>\<open>undefined\<close>; it is
  falsy when it is absent or empty.
\<close>

text \<open>\<^verbatim>\<open>String(n)\<close> for a natural number.\<close>

function showNat :: "nat \<Rightarrow> string" where
  "showNat n = (if n < 10 then [''0123456789'' ! n] else showNat (n div 10) @ [''0123456789'' ! (n mod 10)])"
  by pat_completeness auto
termination
  by (relation "measure id") auto

definition falsy :: "string option \<Rightarrow> bool" where
  "falsy v = (case v of None \<Rightarrow> True | Some s \<Rightarrow> s = [])"

section \<open>Errors (lib/errors.js)\<close>

text \<open>
  The error classes that the modelled code throws, with the arguments of their
  constructors.  \<open>JsError\<close> is a plain \<^verbatim>\<open>Error\<close>, as thrown by \<^verbatim>\<open>execSync\<close>.
\<close>

datatype error =
    ConfigError string
  | TunnelError string string
  | SSHDError string
  | PermissionError string
  | NetworkError string
  | JsError string

text \<open>The \<^verbatim>\<open>message\<close> property that each constructor computes.\<close>

fun message :: "error \<Rightarrow> string" where
  "message (ConfigError m) = m"
| "message (TunnelError tunnelType m) = tunnelType @ '' tunnel error: '' @ m"
| "message (SSHDError m) = ''SSHD error: '' @ m"
| "message (PermissionError m) = ''Permission error: '' @ m"
| "message (NetworkError m) = ''Network error: '' @ m"
| "message (JsError m) = m"

section \<open>The process and its environment\<close>

text \<open>
  What the program changes is a \<open>world\<close>: the files it writes, the directories it
  creates, the clock, and the list of everything else it does (log lines, commands,
  spawned processes, exported variables), oldest first.  File permissions are not part
  of the model.
\<close>

datatype level = Section | Info | Success | Warn | Err | Debug | Console

datatype event =
    Log level string
  | Command string
  | Spawned string "string list" "string option"
  | PipelineVar string string
  | SshSetupReturned string string
  | TunnelStartInvoked string
  | ProcessExit int

record world =
  files :: "string \<rightharpoonup> string"
  dirs :: "string set"
  clock :: int
  events :: "event list"

text \<open>
  What the program only reads is an \<open>env\<close>: the platform, the user, and the answers
  of the operating system to the questions the code asks: whether a command exists,
  whether a command fails, which pid a spawned process gets, whether a port is open at a
  given time, what a log file holds at a given time, how late a timer fires, and how the
  \<open>k\<close>-th attempt to download a binary ends.  Four computations of the repository whose
  results depend on that environment alone and on which no property below depends are
  taken from it as well: the rendering of a configuration template, the namespace and
  device that \<^verbatim>\<open>buildDefaults\<close> derives from the CI variables, the generated Cloudflare
  tunnel name, and the outcome of listing and creating Cloudflare tunnels
  (\<^verbatim>\<open>findTunnelId\<close>, and \<^verbatim>\<open>createTunnel\<close> with \<open>Inl\<close> for the message of its failure); so are
  the pair of flags that \<^verbatim>\<open>persistence.persist\<close> returns and the directory that
  \<^verbatim>\<open>hostrunner.detectDefaultCwd\<close> finds.
\<close>

datatype log_view = Missing | Unreadable string | Content string

record env =
  platform :: string
  homedir :: string
  username :: string
  isoTimestamp :: string
  isRoot :: bool
  commandExists :: "string \<Rightarrow> bool"
  commandFails :: "string \<Rightarrow> bool"
  spawnPid :: "string \<Rightarrow> string list \<Rightarrow> nat option"
  portOpenAt :: "string \<Rightarrow> int \<Rightarrow> bool"
  logAt :: "string \<Rightarrow> int \<Rightarrow> log_view"
  sleepLag :: "int \<Rightarrow> nat"
  downloadAttempt :: "nat \<Rightarrow> error + unit"
  renderTemplate :: "string \<Rightarrow> (string \<times> string) list \<Rightarrow> string"
  sshjDefaults :: "string \<times> string"
  cfDefaultTunnelName :: string
  cfExistingTunnel :: "string \<Rightarrow> string option"
  cfCreateTunnel :: "string \<Rightarrow> string + string"
  persistResult :: "bool \<times> bool"
  detectDefaultCwd :: string

definition isWindows :: "env \<Rightarrow> bool" where
  "isWindows e = (platform e = ''win32'')"

definition isLinux :: "env \<Rightarrow> bool" where
  "isLinux e = (platform e = ''linux'')"

text \<open>
  \<^verbatim>\<open>path.join\<close> and \<^verbatim>\<open>path.dirname\<close> on POSIX paths whose components need no
  normalisation.
\<close>

definition pathJoin :: "string \<Rightarrow> string \<Rightarrow> string" where
  "pathJoin d f = d @ ''/'' @ f"

definition dirname :: "string \<Rightarrow> string" where
  "dirname p =
     (if CHR ''/'' \<notin> set p then ''.''
      else let d = rev (drop 1 (dropWhile (\<lambda>c. c \<noteq> CHR ''/'') (rev p)))
           in if d = [] then ''/'' else d)"

text \<open>
  A computation that may throw: the result is \<open>Inl err\<close> for \<^verbatim>\<open>throw err\<close>, and the
  world is the one reached when it returned or threw.
\<close>

type_synonym 'a io = "world \<Rightarrow> (error + 'a) \<times> world"

definition andThen :: "'a io \<Rightarrow> ('a \<Rightarrow> 'b io) \<Rightarrow> 'b io" where
  "andThen m f w = (case m w of (Inl err, w') \<Rightarrow> (Inl err, w') | (Inr v, w') \<Rightarrow> f v w')"

definition ret :: "'a \<Rightarrow> 'a io" where
  "ret v w = (Inr v, w)"

definition throw :: "error \<Rightarrow> 'a io" where
  "throw err w = (Inl err, w)"

definition emit :: "event \<Rightarrow> unit io" where
  "emit ev w = (Inr (), w\<lparr>events := events w @ [ev]\<rparr>)"

subsection \<open>lib/utils.js\<close>

text \<open>
  \<^verbatim>\<open>run(cmd, opts)\<close>: the command is logged and executed; a failing command throws
  unless \<^verbatim>\<open>opts.ignoreError\<close> is set.
\<close>

definition run_cmd :: "env \<Rightarrow> string \<Rightarrow> bool \<Rightarrow> unit io" where
  "run_cmd e cmd ignoreError =
     andThen (emit (Command cmd)) (\<lambda>_.
       if commandFails e cmd then
         (if ignoreError then emit (Log Warn (''Command failed (ignored): '' @ cmd))
          else throw (JsError (''Command failed: '' @ cmd)))
       else ret ())"

definition ensureDir :: "string \<Rightarrow> unit io" where
  "ensureDir dirPath w =
     (if dirPath \<notin> dirs w
      then (Inr (), w\<lparr>dirs := insert dirPath (dirs w),
                      events := events w @ [Log Debug (''Created directory: '' @ dirPath)]\<rparr>)
      else (Inr (), w))"

definition writeFileSync :: "string \<Rightarrow> string \<Rightarrow> unit io" where
  "writeFileSync filePath content w = (Inr (), w\<lparr>files := (files w)(filePath \<mapsto> content)\<rparr>)"

definition writeFileSafe :: "string \<Rightarrow> string \<Rightarrow> unit io" where
  "writeFileSafe filePath content =
     andThen (ensureDir (dirname filePath)) (\<lambda>_.
     andThen (writeFileSync filePath content) (\<lambda>_.
       emit (Log Debug (''Written file: '' @ filePath))))"

subsection \<open>A concrete environment\<close>

text \<open>
  A Linux runner on which every command exists and succeeds; used to evaluate the
  model on concrete inputs.
\<close>

definition demo_env :: env where
  "demo_env = \<lparr>platform = ''linux'', homedir = ''/home/ci'', username = ''ci'',
     isoTimestamp = ''2024-01-28T00:00:00.000Z'', isRoot = False,
     commandExists = (\<lambda>c. True), commandFails = (\<lambda>c. False),
     spawnPid = (\<lambda>c a. Some 4242), portOpenAt = (\<lambda>p t. True),
     logAt = (\<lambda>p t. Missing), sleepLag = (\<lambda>t. 0),
     downloadAttempt = (\<lambda>k. Inr ()), renderTemplate = (\<lambda>t vars. t),
     sshjDefaults = (''repo-42'', ''repo-ci''), cfDefaultTunnelName = ''repo-42'',
     cfExistingTunnel = (\<lambda>n. None), cfCreateTunnel = (\<lambda>n. Inr ''0a1b-2c3d''),
     persistResult = (False, False), detectDefaultCwd = ''/home/ci/work''\<rparr>"

definition demo_world :: world where
  "demo_world = \<lparr>files = Map.empty, dirs = {}, clock = 0, events = []\<rparr>"

section \<open>SSH server bring-up (lib/setup-ssh.js)\<close>

text \<open>The \<^verbatim>\<open>PATHS\<close> of the constructor.\<close>

definition ssh_dir :: "env \<Rightarrow> string" where
  "ssh_dir e = pathJoin (homedir e) ''.ssh''"

definition authorized_keys :: "env \<Rightarrow> string" where
  "authorized_keys e = pathJoin (pathJoin (homedir e) ''.ssh'') ''authorized_keys''"

text \<open>The expression bound to \<^verbatim>\<open>keys\<close> in \<^verbatim>\<open>writeAuthorizedKeys\<close>.\<close>

definition parseKeys :: "string \<Rightarrow> string list" where
  "parseKeys pubkey =
     filter (\<lambda>k. startsWith k ''ssh-'')
       (filter (\<lambda>k. k \<noteq> [] \<and> \<not> startsWith k ''#'')
         (map trim (splitLines pubkey)))"

text \<open>The expression bound to \<^verbatim>\<open>content\<close>.\<close>

definition keysContent :: "string \<Rightarrow> string list \<Rightarrow> string" where
  "keysContent timestamp keys =
     joinWith [CHR 0x0A] (map (\<lambda>k. k @ '' # Added by setup-ssh at '' @ timestamp) keys)
       @ [CHR 0x0A]"

definition quoted :: "string \<Rightarrow> string" where
  "quoted s = [CHR 0x22] @ s @ [CHR 0x22]"

definition writeAuthorizedKeys :: "env \<Rightarrow> string option \<Rightarrow> unit io" where
  "writeAuthorizedKeys e pubkey =
     (case pubkey of
        None \<Rightarrow> throw (SSHDError ''PIPELINE_SSH_PUBKEY is required'')
      | Some pk \<Rightarrow>
          if pk = [] \<or> trim pk = [] then throw (SSHDError ''PIPELINE_SSH_PUBKEY is required'')
          else
            andThen (emit (Log Section ''Writing SSH Authorized Keys'')) (\<lambda>_.
            andThen (ensureDir (ssh_dir e)) (\<lambda>_.
              let keys = parseKeys pk in
              if length keys = 0
              then throw (SSHDError ''No valid SSH keys found in PIPELINE_SSH_PUBKEY'')
              else
                andThen (emit (Log Info (''Found '' @ showNat (length keys) @ '' valid SSH key(s)''))) (\<lambda>_.
                andThen (writeFileSafe (authorized_keys e) (keysContent (isoTimestamp e) keys)) (\<lambda>_.
                andThen (emit (Log Success (''Authorized keys written: '' @ authorized_keys e))) (\<lambda>_.
                  if isLinux e then
                    andThen (run_cmd e (''chmod 700 '' @ quoted (ssh_dir e)) True) (\<lambda>_.
                    andThen (run_cmd e (''chmod 600 '' @ quoted (authorized_keys e)) True) (\<lambda>_.
                      run_cmd e (''chown -R '' @ username e @ '':'' @ username e @ '' ''
                                   @ quoted (ssh_dir e)) True))
                  else ret ()))))))"


section \<open>Tunnel plugins (lib/tunnels)\<close>

subsection \<open>lib/tunnels/base.js\<close>

text \<open>The fields of a \<^verbatim>\<open>BaseTunnel\<close> instance.\<close>

record tunnel =
  t_name :: string
  t_pid :: "nat option"
  t_endpoint :: "string option"
  t_logFile :: "string option"

text \<open>The constructor.\<close>

definition newTunnel :: "string \<Rightarrow> tunnel" where
  "newTunnel n = \<lparr>t_name = n, t_pid = None, t_endpoint = None, t_logFile = None\<rparr>"

text \<open>
  \<^verbatim>\<open>utils.sleep(ms)\<close> resumes after \<open>ms\<close> milliseconds or later; only sleeping takes
  time in the model.  \<^verbatim>\<open>Date.now()\<close> is the clock of the world.
\<close>

definition sleep :: "env \<Rightarrow> int \<Rightarrow> world \<Rightarrow> world" where
  "sleep e ms w = w\<lparr>clock := clock w + ms + int (sleepLag e (clock w))\<rparr>"

text \<open>
  The \<^verbatim>\<open>while\<close> loop of \<^verbatim>\<open>parseEndpointFromLog\<close>.  A pattern is the function that
  \<^verbatim>\<open>content.match(pattern)\<close> computes: \<open>None\<close> when nothing matches, and otherwise the
  matched substring \<^verbatim>\<open>match[0]\<close> of the first match.  \<open>logAt e file t\<close> is what
  \<^verbatim>\<open>existsSync\<close> and \<^verbatim>\<open>readFileSync\<close> find at time \<open>t\<close>: no file, a file that cannot be
  read, or the whole content of the file.
\<close>

function probe_loop ::
  "env \<Rightarrow> string \<Rightarrow> (string \<Rightarrow> string option) \<Rightarrow> int \<Rightarrow> int \<Rightarrow> world \<Rightarrow> string option \<times> world"
  where
  "probe_loop e logFile pattern timeoutMs start w =
     (if clock w - start < timeoutMs then
        (case logAt e logFile (clock w) of
           Content content \<Rightarrow>
             (case pattern content of
                Some m \<Rightarrow> (Some m, w)
              | None \<Rightarrow> probe_loop e logFile pattern timeoutMs start (sleep e 250 w))
         | Missing \<Rightarrow> probe_loop e logFile pattern timeoutMs start (sleep e 250 w)
         | Unreadable msg \<Rightarrow>
             probe_loop e logFile pattern timeoutMs start
               (sleep e 250 (w\<lparr>events := events w @ [Log Debug (''Error reading log file: '' @ msg)]\<rparr>)))
      else (None, w))"
  by pat_completeness auto
termination
  by (relation "measure (\<lambda>(e, logFile, pattern, timeoutMs, start, w). nat (start + timeoutMs - clock w))")
     (auto simp: sleep_def)

definition parseEndpointFromLog ::
  "env \<Rightarrow> tunnel \<Rightarrow> (string \<Rightarrow> string option) \<Rightarrow> int \<Rightarrow> (string option) io" where
  "parseEndpointFromLog e t pattern timeoutMs w =
     (case t_logFile t of
        None \<Rightarrow> (Inl (TunnelError (t_name t) ''No log file configured''), w)
      | Some logFile \<Rightarrow>
          if logFile = [] then (Inl (TunnelError (t_name t) ''No log file configured''), w)
          else (case probe_loop e logFile pattern timeoutMs (clock w) w of
                  (found, w') \<Rightarrow> (Inr found, w')))"

text \<open>
  The times at which the loop tests the log when it starts at time \<open>t\<close>, and what the
  pattern finds in the log at a given time.
\<close>

fun pollTime :: "env \<Rightarrow> int \<Rightarrow> nat \<Rightarrow> int" where
  "pollTime e t 0 = t"
| "pollTime e t (Suc k) = pollTime e t k + 250 + int (sleepLag e (pollTime e t k))"

definition matchAt :: "env \<Rightarrow> string \<Rightarrow> (string \<Rightarrow> string option) \<Rightarrow> int \<Rightarrow> string option" where
  "matchAt e logFile pattern t =
     (case logAt e logFile t of Content content \<Rightarrow> pattern content | _ \<Rightarrow> None)"

text \<open>\<^verbatim>\<open>logInfo\<close>, \<^verbatim>\<open>logSuccess\<close>, \<^verbatim>\<open>logWarn\<close> and \<^verbatim>\<open>logError\<close> of a tunnel.\<close>

definition tlog :: "level \<Rightarrow> tunnel \<Rightarrow> string \<Rightarrow> world \<Rightarrow> world" where
  "tlog l t msg w = w\<lparr>events := events w @ [Log l (''['' @ t_name t @ ''] '' @ msg)]\<rparr>"

text \<open>\<^verbatim>\<open>getConnectCommand\<close> of the base class.\<close>

definition base_getConnectCommand :: "tunnel \<Rightarrow> string option" where
  "base_getConnectCommand t = None"


subsection \<open>Configuration (lib/config.js)\<close>

record ssh_config =
  ssh_port :: string
  ssh_mode :: string
  ssh_allowUsers :: "string list"
  ssh_defaultCwd :: "string option"
  ssh_disableForceCwd :: bool
  ssh_listenAddress :: string
  ssh_publicKey :: "string option"

record pinggy_config =
  pg_enabled :: bool
  pg_foreground :: bool
  pg_targetHost :: string
  pg_targetPort :: "string option"
  pg_regionHost :: string

record sshj_config =
  sj_enabled :: bool
  sj_foreground :: bool
  sj_host :: string
  sj_namespace :: "string option"
  sj_device :: "string option"
  sj_devicePort :: string
  sj_localHost :: string
  sj_localPort :: "string option"

record cloudflare_config =
  cf_enabled :: bool
  cf_foreground :: bool
  cf_apiKey :: "string option"
  cf_tunnelName :: "string option"
  cf_targetHost :: string
  cf_targetPort :: "string option"

record timeouts =
  to_portWait :: int
  to_cfEndpoint :: int
  to_httpRequest :: int
  to_tunnelStartup :: int
  to_downloadTimeout :: int

record rtdb_config =
  rtdb_enabled :: bool
  rtdb_url :: "string option"
  rtdb_id :: "string option"

record config =
  cfg_ssh :: ssh_config
  cfg_pinggy :: pinggy_config
  cfg_sshj :: sshj_config
  cfg_cloudflare :: cloudflare_config
  cfg_timeouts :: timeouts
  cfg_rtdb :: rtdb_config
  cfg_sshdTemplate :: string
  cfg_cloudflaredTemplate :: string
  cfg_sshdPath :: string
  cfg_cloudflaredUrl :: string
  cfg_cloudflaredPath :: string

text \<open>The configuration that an empty environment yields, with a public key set.\<close>

definition demo_config :: config where
  "demo_config =
     \<lparr>cfg_ssh = \<lparr>ssh_port = ''2222'', ssh_mode = ''auto'', ssh_allowUsers = [],
                  ssh_defaultCwd = None, ssh_disableForceCwd = False,
                  ssh_listenAddress = ''127.0.0.1'', ssh_publicKey = Some ''ssh-ed25519 AAAA ci''\<rparr>,
      cfg_pinggy = \<lparr>pg_enabled = False, pg_foreground = False, pg_targetHost = ''localhost'',
                     pg_targetPort = None, pg_regionHost = ''a.pinggy.io''\<rparr>,
      cfg_sshj = \<lparr>sj_enabled = False, sj_foreground = False, sj_host = ''ssh-j.com'',
                   sj_namespace = None, sj_device = None, sj_devicePort = ''22'',
                   sj_localHost = ''localhost'', sj_localPort = None\<rparr>,
      cfg_cloudflare = \<lparr>cf_enabled = False, cf_foreground = False, cf_apiKey = None,
                         cf_tunnelName = None, cf_targetHost = ''localhost'', cf_targetPort = None\<rparr>,
      cfg_timeouts = \<lparr>to_portWait = 8000, to_cfEndpoint = 15000, to_httpRequest = 8000,
                       to_tunnelStartup = 10000, to_downloadTimeout = 30000\<rparr>,
      cfg_rtdb = \<lparr>rtdb_enabled = False, rtdb_url = None, rtdb_id = None\<rparr>,
      cfg_sshdTemplate = ''Port {{PORT}}'',
      cfg_cloudflaredTemplate = ''tunnel: {{TUNNEL_ID}}'',
      cfg_sshdPath = ''/usr/sbin/sshd'',
      cfg_cloudflaredUrl = ''https://github.com/cloudflare/cloudflared/releases/latest/download/cloudflared-linux-amd64'',
      cfg_cloudflaredPath = ''/usr/local/bin/cloudflared''\<rparr>"

subsection \<open>The endpoint patterns\<close>

text \<open>
  A regular expression without anchors matches at the leftmost position of the text at
  which it matches at all: \<open>firstMatch here\<close> tries \<open>here\<close>, the match at the start of a
  text, on every suffix in turn.  Each of the three expressions below consists of a fixed
  prefix, one greedy character class, and a fixed character that is not in the class, so
  backtracking finds nothing that the greedy match misses.
\<close>

fun firstMatch :: "(string \<Rightarrow> 'a option) \<Rightarrow> string \<Rightarrow> 'a option" where
  "firstMatch here [] = here []"
| "firstMatch here (c # cs) =
     (case here (c # cs) of Some m \<Rightarrow> Some m | None \<Rightarrow> firstMatch here cs)"

text \<open>\<^verbatim>\<open>/tcp:\/\/[^\s]+/\<close>, the endpoint in the log of Pinggy.\<close>

definition tcpUrlHere :: "string \<Rightarrow> string option" where
  "tcpUrlHere s =
     (if startsWith s ''tcp://'' then
        (let rest = takeWhile (\<lambda>c. \<not> isWhiteSpace c) (drop 6 s)
         in if rest = [] then None else Some (''tcp://'' @ rest))
      else None)"

definition pinggyPattern :: "string \<Rightarrow> string option" where
  "pinggyPattern = firstMatch tcpUrlHere"

text \<open>\<^verbatim>\<open>/tcp:\/\/([^:]+):(\d+)/\<close>, with the two groups as the result.\<close>

definition isDigit :: "char \<Rightarrow> bool" where
  "isDigit c = (c \<in> set ''0123456789'')"

definition hostPortHere :: "string \<Rightarrow> (string \<times> string) option" where
  "hostPortHere s =
     (if startsWith s ''tcp://'' then
        (let host = takeWhile (\<lambda>c. c \<noteq> CHR '':'') (drop 6 s);
             after = dropWhile (\<lambda>c. c \<noteq> CHR '':'') (drop 6 s);
             port = takeWhile isDigit (drop 1 after)
         in if host \<noteq> [] \<and> after \<noteq> [] \<and> port \<noteq> [] then Some (host, port) else None)
      else None)"

text \<open>
  \<^verbatim>\<open>/https:\/\/[a-f0-9-]+\.cfargotunnel\.com/i\<close>, the endpoint in the log of cloudflared.
  The flag \<^verbatim>\<open>i\<close> makes the letters match in either case.
\<close>

definition toLowerAscii :: "char \<Rightarrow> char" where
  "toLowerAscii c =
     (case map_of (zip ''ABCDEFGHIJKLMNOPQRSTUVWXYZ'' ''abcdefghijklmnopqrstuvwxyz'') c of
        Some l \<Rightarrow> l | None \<Rightarrow> c)"

definition startsWithCI :: "string \<Rightarrow> string \<Rightarrow> bool" where
  "startsWithCI s p = (map toLowerAscii (take (length p) s) = p)"

definition isHexDash :: "char \<Rightarrow> bool" where
  "isHexDash c = (toLowerAscii c \<in> set ''abcdef0123456789-'')"

definition cfUrlHere :: "string \<Rightarrow> string option" where
  "cfUrlHere s =
     (if startsWithCI s ''https://'' then
        (let ident = takeWhile isHexDash (drop 8 s);
             after = dropWhile isHexDash (drop 8 s)
         in if ident \<noteq> [] \<and> startsWithCI after ''.cfargotunnel.com''
            then Some (take 8 s @ ident @ take 17 after) else None)
      else None)"

definition cloudflarePattern :: "string \<Rightarrow> string option" where
  "cloudflarePattern = firstMatch cfUrlHere"

subsection \<open>Spawning processes (lib/utils.js)\<close>

text \<open>\<^verbatim>\<open>String(pid)\<close>, where the pid of a process that could not be spawned is \<^verbatim>\<open>undefined\<close>.\<close>

definition showPid :: "nat option \<Rightarrow> string" where
  "showPid pid = (case pid of None \<Rightarrow> ''undefined'' | Some n \<Rightarrow> showNat n)"

definition say :: "level \<Rightarrow> string \<Rightarrow> world \<Rightarrow> world" where
  "say l msg w = w\<lparr>events := events w @ [Log l msg]\<rparr>"

definition spawnDetached :: "env \<Rightarrow> string \<Rightarrow> string list \<Rightarrow> string \<Rightarrow> world \<Rightarrow> nat option \<times> world" where
  "spawnDetached e cmd args logFile w =
     (let w1 = say Debug (''Spawning detached: '' @ cmd @ '' '' @ joinWith '' '' args) w;
          w2 = snd (ensureDir (dirname logFile) w1);
          pid = spawnPid e cmd args;
          w3 = w2\<lparr>events := events w2 @ [Spawned cmd args (Some logFile)]\<rparr>
      in (pid, say Success (''Spawned process (PID: '' @ showPid pid @ '')'') w3))"

text \<open>
  \<^verbatim>\<open>spawn(cmd, args, {stdio: 'inherit'})\<close> of the foreground mode: the child runs
  attached, and the process exits when the child does.
\<close>

definition spawnForeground :: "string \<Rightarrow> string list \<Rightarrow> world \<Rightarrow> world" where
  "spawnForeground cmd args w = w\<lparr>events := events w @ [Spawned cmd args None]\<rparr>"

definition setPipelineVar :: "string \<Rightarrow> string \<Rightarrow> world \<Rightarrow> world" where
  "setPipelineVar n v w = w\<lparr>events := events w @ [PipelineVar n v]\<rparr>"

text \<open>What \<^verbatim>\<open>start\<close> returns; a field that the returned object lacks is \<open>None\<close>.\<close>

record start_result =
  sr_started :: bool
  sr_foreground :: bool
  sr_pid :: "nat option"
  sr_endpoint :: "string option"
  sr_logFile :: "string option"
  sr_connectCommand :: "string option"
  sr_tunnelId :: "string option"
  sr_namespace :: "string option"
  sr_device :: "string option"

definition foregroundResult :: start_result where
  "foregroundResult =
     \<lparr>sr_started = True, sr_foreground = True, sr_pid = None, sr_endpoint = None,
      sr_logFile = None, sr_connectCommand = None, sr_tunnelId = None, sr_namespace = None,
      sr_device = None\<rparr>"

text \<open>
  A method of a tunnel that may change the fields of the instance returns the instance
  next to its result.
\<close>

type_synonym 'a tunnel_method = "tunnel \<Rightarrow> world \<Rightarrow> ((error + 'a) \<times> tunnel) \<times> world"

subsection \<open>lib/tunnels/pinggy.js\<close>

definition pinggy_isAvailable :: "config \<Rightarrow> bool" where
  "pinggy_isAvailable cfg = pg_enabled (cfg_pinggy cfg)"

definition pinggy_args :: "string \<Rightarrow> string \<Rightarrow> string \<Rightarrow> string list" where
  "pinggy_args targetHost targetPort regionHost =
     [''-p'', ''443'', ''-o'', ''StrictHostKeyChecking=no'', ''-o'', ''UserKnownHostsFile=/dev/null'',
      ''-o'', ''BatchMode=yes'', ''-o'', ''ServerAliveInterval=30'', ''-o'', ''ServerAliveCountMax=3'',
      ''-o'', ''ExitOnForwardFailure=yes'', ''-R0:'' @ targetHost @ '':'' @ targetPort,
      ''tcp@'' @ regionHost]"

definition pinggy_start :: "env \<Rightarrow> config \<Rightarrow> string \<Rightarrow> string \<Rightarrow> start_result tunnel_method" where
  "pinggy_start e cfg sshPort logDir t w =
     (let pinggy = cfg_pinggy cfg;
          targetHost = (if pg_targetHost pinggy = [] then ''localhost'' else pg_targetHost pinggy);
          targetPort = (case pg_targetPort pinggy of
                          None \<Rightarrow> sshPort | Some p \<Rightarrow> if p = [] then sshPort else p);
          logFile = pathJoin logDir ''pinggy.log'';
          t1 = t\<lparr>t_logFile := Some logFile\<rparr>;
          pidFile = pathJoin logDir ''pinggy.pid'';
          args = pinggy_args targetHost targetPort (pg_regionHost pinggy);
          w1 = tlog Info t1 ''Starting tunnel...'' w;
          w2 = tlog Info t1 (''Target: '' @ targetHost @ '':'' @ targetPort) w1;
          w3 = tlog Info t1 ''Expect endpoint like: tcp://*.pinggy.link:PORT'' w2
      in if pg_foreground pinggy then ((Inr foregroundResult, t1), spawnForeground ''ssh'' args w3)
         else
           (case spawnDetached e ''ssh'' args logFile w3 of
              (pid, w4) \<Rightarrow>
                (let t2 = t1\<lparr>t_pid := pid\<rparr>;
                     w5 = snd (writeFileSync pidFile (showPid pid) w4);
                     w6 = tlog Success t2 (''Started in background (PID: '' @ showPid pid @ '')'') w5;
                     w7 = tlog Info t2 (''Log file: '' @ logFile) w6
                 in case parseEndpointFromLog e t2 pinggyPattern (to_tunnelStartup (cfg_timeouts cfg)) w7 of
                      (Inl err, w8) \<Rightarrow> ((Inl err, t2), w8)
                    | (Inr found, w8) \<Rightarrow>
                        (let t3 = t2\<lparr>t_endpoint := found\<rparr>;
                             w9 = (case found of
                                     None \<Rightarrow> tlog Warn t3 ''Endpoint not detected yet. Check pinggy.log for the tcp:// URL'' w8
                                   | Some endpoint \<Rightarrow>
                                       if endpoint = []
                                       then tlog Warn t3 ''Endpoint not detected yet. Check pinggy.log for the tcp:// URL'' w8
                                       else tlog Success t3 (''Endpoint: '' @ endpoint) w8)
                         in ((Inr \<lparr>sr_started = True, sr_foreground = False, sr_pid = pid,
                                    sr_endpoint = found, sr_logFile = Some logFile,
                                    sr_connectCommand = None, sr_tunnelId = None,
                                    sr_namespace = None, sr_device = None\<rparr>, t3), w9)))))"

text \<open>
  The statements of \<^verbatim>\<open>start\<close> that follow the probe, on their own: \<open>pinggy_start\<close> in the
  background is \<open>pinggy_finish\<close> applied to what the probe returned.
\<close>

definition pinggy_finish ::
  "string \<Rightarrow> nat option \<Rightarrow> tunnel \<Rightarrow> (error + string option) \<times> world
     \<Rightarrow> ((error + start_result) \<times> tunnel) \<times> world" where
  "pinggy_finish logFile pid t2 probed =
     (case probed of
        (Inl err, w8) \<Rightarrow> ((Inl err, t2), w8)
      | (Inr found, w8) \<Rightarrow>
          (let t3 = t2\<lparr>t_endpoint := found\<rparr>;
               w9 = (case found of
                       None \<Rightarrow> tlog Warn t3 ''Endpoint not detected yet. Check pinggy.log for the tcp:// URL'' w8
                     | Some endpoint \<Rightarrow>
                         if endpoint = []
                         then tlog Warn t3 ''Endpoint not detected yet. Check pinggy.log for the tcp:// URL'' w8
                         else tlog Success t3 (''Endpoint: '' @ endpoint) w8)
           in ((Inr \<lparr>sr_started = True, sr_foreground = False, sr_pid = pid,
                      sr_endpoint = found, sr_logFile = Some logFile,
                      sr_connectCommand = None, sr_tunnelId = None,
                      sr_namespace = None, sr_device = None\<rparr>, t3), w9)))"

definition pinggy_getConnectCommand :: "env \<Rightarrow> tunnel \<Rightarrow> string option" where
  "pinggy_getConnectCommand e t =
     (case t_endpoint t of
        None \<Rightarrow> None
      | Some endpoint \<Rightarrow>
          if endpoint = [] then None
          else (case firstMatch hostPortHere endpoint of
                  None \<Rightarrow> None
                | Some (host, port) \<Rightarrow>
                    Some (''ssh -p '' @ port @ '' '' @ username e @ ''@'' @ host
                            @ '' -i <your-private-key>'')))"


subsection \<open>lib/tunnels/sshj.js\<close>

definition sshj_isAvailable :: "config \<Rightarrow> bool" where
  "sshj_isAvailable cfg = sj_enabled (cfg_sshj cfg)"

text \<open>\<^verbatim>\<open>a || b\<close> for an optional string \<open>a\<close>.\<close>

definition orElse :: "string option \<Rightarrow> string \<Rightarrow> string" where
  "orElse a b = (case a of None \<Rightarrow> b | Some s \<Rightarrow> if s = [] then b else s)"

definition sshj_start :: "env \<Rightarrow> config \<Rightarrow> string \<Rightarrow> string \<Rightarrow> start_result tunnel_method" where
  "sshj_start e cfg sshPort logDir t w =
     (let sshj = cfg_sshj cfg;
          sshjHost = sj_host sshj;
          namespace = orElse (sj_namespace sshj) (fst (sshjDefaults e));
          device = orElse (sj_device sshj) (snd (sshjDefaults e));
          devicePort = sj_devicePort sshj;
          localHost = sj_localHost sshj;
          localPort = orElse (sj_localPort sshj) sshPort;
          logFile = pathJoin logDir ''sshj.log'';
          t1 = t\<lparr>t_logFile := Some logFile\<rparr>;
          pidFile = pathJoin logDir ''sshj.pid'';
          publishArgs =
            [namespace @ ''@'' @ sshjHost, ''-N'', ''-o'', ''StrictHostKeyChecking=no'',
             ''-o'', ''UserKnownHostsFile=/dev/null'', ''-o'', ''BatchMode=yes'',
             ''-o'', ''ServerAliveInterval=30'', ''-o'', ''ServerAliveCountMax=3'',
             ''-o'', ''ExitOnForwardFailure=yes'', ''-R'',
             device @ '':'' @ devicePort @ '':'' @ localHost @ '':'' @ localPort];
          w1 = tlog Info t1 ''Starting tunnel...'' w;
          w2 = tlog Info t1 (''Publishing: '' @ device @ '':'' @ devicePort @ '' -> ''
                               @ localHost @ '':'' @ localPort) w1;
          w3 = setPipelineVar ''SSHJ_HOST'' sshjHost w2;
          w4 = setPipelineVar ''SSHJ_NAMESPACE'' namespace w3;
          w5 = setPipelineVar ''SSHJ_DEVICE'' device w4;
          w6 = setPipelineVar ''SSHJ_DEVICE_PORT'' devicePort w5
      in if sj_foreground sshj
         then ((Inr foregroundResult, t1), spawnForeground ''ssh'' publishArgs w6)
         else
           (case spawnDetached e ''ssh'' publishArgs logFile w6 of
              (pid, w7) \<Rightarrow>
                (let t2 = t1\<lparr>t_pid := pid\<rparr>;
                     w8 = snd (writeFileSync pidFile (showPid pid) w7);
                     w9 = tlog Success t2 (''Started in background (PID: '' @ showPid pid @ '')'') w8;
                     w10 = tlog Info t2 (''Log file: '' @ logFile) w9;
                     connectCmd1 = ''ssh -J '' @ namespace @ ''@'' @ sshjHost @ '' ''
                                     @ username e @ ''@'' @ device;
                     connectCmd2 = ''ssh -i <private-key> -J '' @ namespace @ ''@'' @ sshjHost @ '' ''
                                     @ username e @ ''@'' @ device;
                     w11 = tlog Info t2 ''Connect from your PC:'' w10;
                     w12 = tlog Info t2 (''  '' @ connectCmd1) w11;
                     w13 = tlog Info t2 (''  '' @ connectCmd2) w12;
                     w14 = setPipelineVar ''SSHJ_CONNECT'' connectCmd1 w13
                 in ((Inr \<lparr>sr_started = True, sr_foreground = False, sr_pid = pid,
                            sr_endpoint = None, sr_logFile = Some logFile,
                            sr_connectCommand = Some connectCmd1, sr_tunnelId = None,
                            sr_namespace = Some namespace, sr_device = Some device\<rparr>, t2), w14))))"

definition sshj_getConnectCommand :: "env \<Rightarrow> config \<Rightarrow> tunnel \<Rightarrow> string option" where
  "sshj_getConnectCommand e cfg t =
     (let sshj = cfg_sshj cfg;
          host = sj_host sshj
      in case (sj_namespace sshj, sj_device sshj) of
           (Some namespace, Some device) \<Rightarrow>
             if namespace = [] \<or> device = [] then None
             else Some (''ssh -J '' @ namespace @ ''@'' @ host @ '' '' @ username e @ ''@'' @ device)
         | _ \<Rightarrow> None)"

subsection \<open>lib/tunnels/cloudflare.js\<close>

definition cloudflare_isAvailable :: "config \<Rightarrow> bool" where
  "cloudflare_isAvailable cfg =
     (cf_enabled (cfg_cloudflare cfg) \<and> \<not> falsy (cf_apiKey (cfg_cloudflare cfg)))"

definition cloudflare_getConnectCommand :: "env \<Rightarrow> tunnel \<Rightarrow> string option" where
  "cloudflare_getConnectCommand e t =
     (case t_endpoint t of
        None \<Rightarrow> None
      | Some endpoint \<Rightarrow>
          if endpoint = [] then None
          else Some (''ssh -o ProxyCommand='' @ quoted (''cloudflared access tcp --hostname '' @ endpoint)
                       @ '' '' @ username e @ ''@'' @ endpoint))"

text \<open>
  \<^verbatim>\<open>utils.downloadBinary\<close>: the download is retried by \<open>retryWithBackoff\<close> with the default
  bounds and its own \<^verbatim>\<open>onRetry\<close>; the delays it sleeps pass on the clock.
\<close>

definition downloadBinary :: "env \<Rightarrow> unit io" where
  "downloadBinary e w =
     (case retryWithBackoff (downloadAttempt e) (default_retry_options\<lparr>hasOnRetry := True\<rparr>) of
        (r, tr) \<Rightarrow>
          (let w' = foldl (\<lambda>v d. sleep e d v) w (sleeps tr)
           in case r of
                Inr _ \<Rightarrow> (Inr (), w')
              | Inl (Some err) \<Rightarrow> (Inl err, w')
              | Inl None \<Rightarrow> (Inl (JsError ''undefined''), w')))"

definition cloudflare_install :: "env \<Rightarrow> config \<Rightarrow> tunnel \<Rightarrow> bool io" where
  "cloudflare_install e cfg t w =
     (if commandExists e ''cloudflared'' then (Inr True, tlog Info t ''cloudflared already installed'' w)
      else
        (let w1 = tlog Info t ''Installing cloudflared...'' w
         in if isLinux e then
              andThen (downloadBinary e) (\<lambda>_.
              andThen (run_cmd e (''sudo install -m 755 /tmp/cloudflared '' @ cfg_cloudflaredPath cfg) False) (\<lambda>_.
              andThen (run_cmd e ''rm -f /tmp/cloudflared'' True) (\<lambda>_ v.
                (Inr True, tlog Success t ''cloudflared installed successfully'' v)))) w1
            else if isWindows e then
              (Inr False,
               tlog Info t ''Download from: https://github.com/cloudflare/cloudflared/releases''
                 (tlog Err t ''Auto-install on Windows not supported'' w1))
            else (Inl (TunnelError (t_name t) ''Unsupported platform: undefined''), w1)))"

text \<open>
  The part of \<^verbatim>\<open>start\<close> after the process is in the background: the endpoint is looked
  for in the log, and exported when it is found.
\<close>

definition cloudflare_discover ::
  "env \<Rightarrow> config \<Rightarrow> string \<Rightarrow> string \<Rightarrow> nat option \<Rightarrow> start_result tunnel_method" where
  "cloudflare_discover e cfg logFile tunnelId pid t w =
     (case parseEndpointFromLog e t cloudflarePattern (to_cfEndpoint (cfg_timeouts cfg)) w of
        (Inl err, w1) \<Rightarrow> ((Inl err, t), w1)
      | (Inr found, w1) \<Rightarrow>
          (let t1 = t\<lparr>t_endpoint := found\<rparr>;
               w2 = (case found of
                       None \<Rightarrow> tlog Warn t1 ''Endpoint not detected yet. Check cloudflared.log'' w1
                     | Some endpoint \<Rightarrow>
                         if endpoint = []
                         then tlog Warn t1 ''Endpoint not detected yet. Check cloudflared.log'' w1
                         else
                           (let v1 = tlog Success t1 (''Endpoint: '' @ endpoint) w1;
                                v2 = setPipelineVar ''CF_TUNNEL_URL'' endpoint v1
                            in case cloudflare_getConnectCommand e t1 of
                                 None \<Rightarrow> v2
                               | Some connectCmd \<Rightarrow>
                                   if connectCmd = [] then v2
                                   else tlog Info t1 (''  '' @ connectCmd)
                                          (tlog Info t1 ''Connect command:''
                                            (setPipelineVar ''CF_SSH_COMMAND'' connectCmd v2))))
           in ((Inr \<lparr>sr_started = True, sr_foreground = False, sr_pid = pid,
                      sr_endpoint = found, sr_logFile = Some logFile,
                      sr_connectCommand = None, sr_tunnelId = Some tunnelId,
                      sr_namespace = None, sr_device = None\<rparr>, t1), w2)))"

text \<open>
  The part of \<^verbatim>\<open>start\<close> from the configuration file on, once the tunnel id is known.  An
  API key that is \<^verbatim>\<open>null\<close> makes \<^verbatim>\<open>spawn\<close> throw a \<^verbatim>\<open>TypeError\<close>.
\<close>

definition cloudflare_launch ::
  "env \<Rightarrow> config \<Rightarrow> string \<Rightarrow> string \<Rightarrow> string \<Rightarrow> start_result tunnel_method" where
  "cloudflare_launch e cfg sshPort logDir tunnelId t w =
     (let cloudflare = cfg_cloudflare cfg;
          targetHost = (if cf_targetHost cloudflare = [] then ''localhost'' else cf_targetHost cloudflare);
          targetPort = orElse (cf_targetPort cloudflare) sshPort;
          logFile = pathJoin logDir ''cloudflared.log'';
          pidFile = pathJoin logDir ''cloudflared.pid'';
          cfConfigPath = pathJoin (pathJoin (homedir e) ''.cloudflared'') ''config.yml'';
          w1 = tlog Success t (''Tunnel ID: '' @ tunnelId) w;
          cfConfig = renderTemplate e (cfg_cloudflaredTemplate cfg)
                       [(''TUNNEL_ID'', tunnelId), (''TARGET_HOST'', targetHost),
                        (''TARGET_PORT'', targetPort)];
          w2 = snd (writeFileSafe cfConfigPath (cfConfig @ [CHR 0x0A]) w1);
          w3 = tlog Info t (''Config written: '' @ cfConfigPath) w2;
          w4 = tlog Info t ''Starting tunnel...'' w3
      in case cf_apiKey cloudflare of
           None \<Rightarrow> ((Inl (JsError ''TypeError [ERR_INVALID_ARG_TYPE]''), t), w4)
         | Some apiKey \<Rightarrow>
             (let args = [''tunnel'', ''--config'', cfConfigPath, ''run'', ''--token'', apiKey]
              in if cf_foreground cloudflare
                 then ((Inr foregroundResult, t), spawnForeground ''cloudflared'' args w4)
                 else
                   (case spawnDetached e ''cloudflared'' args logFile w4 of
                      (pid, w5) \<Rightarrow>
                        (let t1 = t\<lparr>t_pid := pid\<rparr>;
                             w6 = snd (writeFileSync pidFile (showPid pid) w5);
                             w7 = tlog Success t1 (''Started in background (PID: '' @ showPid pid @ '')'') w6;
                             w8 = tlog Info t1 (''Log file: '' @ logFile) w7
                         in cloudflare_discover e cfg logFile tunnelId pid t1 w8))))"

text \<open>
  The get-or-create step of \<^verbatim>\<open>start\<close>: the id of the tunnel of that name when
  \<^verbatim>\<open>findTunnelId\<close> finds one, and the id of a newly created tunnel otherwise.
\<close>

definition cloudflare_tunnelId :: "env \<Rightarrow> tunnel \<Rightarrow> string \<Rightarrow> string io" where
  "cloudflare_tunnelId e t tunnelName w =
     (let w1 = tlog Info t (''Checking tunnel: '' @ tunnelName) w;
          found = cfExistingTunnel e tunnelName
      in if falsy found then
           (let w2 = tlog Info t (''Creating tunnel: '' @ tunnelName) w1
            in case cfCreateTunnel e tunnelName of
                 Inl msg \<Rightarrow> (Inl (TunnelError (t_name t) (''Failed to create tunnel: '' @ msg)), w2)
               | Inr created \<Rightarrow>
                   if created = [] then (Inl (TunnelError (t_name t) ''Failed to create tunnel''), w2)
                   else (Inr created, w2))
         else (Inr (orElse found []), w1))"

text \<open>
  \<^verbatim>\<open>start\<close>: install, authenticate, find the tunnel or create it, then launch.  Writing
  an API key that is \<^verbatim>\<open>null\<close> to the certificate file throws a \<^verbatim>\<open>TypeError\<close>.
\<close>

definition cloudflare_start :: "env \<Rightarrow> config \<Rightarrow> string \<Rightarrow> string \<Rightarrow> start_result tunnel_method" where
  "cloudflare_start e cfg sshPort logDir t w =
     (case cloudflare_install e cfg t w of
        (Inl err, w1) \<Rightarrow> ((Inl err, t), w1)
      | (Inr installed, w1) \<Rightarrow>
          if \<not> installed then ((Inl (TunnelError (t_name t) ''Installation failed''), t), w1)
          else
            (let cloudflare = cfg_cloudflare cfg;
                 tunnelName = orElse (cf_tunnelName cloudflare) (cfDefaultTunnelName e);
                 t1 = t\<lparr>t_logFile := Some (pathJoin logDir ''cloudflared.log'')\<rparr>;
                 cfDir = pathJoin (homedir e) ''.cloudflared'';
                 w2 = snd (ensureDir cfDir w1);
                 certPath = pathJoin cfDir ''cert.pem''
             in case (if files w2 certPath = None
                      then (case cf_apiKey cloudflare of
                              None \<Rightarrow> (Inl (JsError ''TypeError [ERR_INVALID_ARG_TYPE]''),
                                        tlog Info t1 ''Setting up authentication...'' w2)
                            | Some apiKey \<Rightarrow>
                                writeFileSync certPath apiKey
                                  (tlog Info t1 ''Setting up authentication...'' w2))
                      else (Inr (), w2)) of
                  (Inl err, w3) \<Rightarrow> ((Inl err, t1), w3)
                | (Inr _, w3) \<Rightarrow>
                    (case cloudflare_tunnelId e t1 tunnelName w3 of
                       (Inl err, w4) \<Rightarrow> ((Inl err, t1), w4)
                     | (Inr tunnelId, w4) \<Rightarrow> cloudflare_launch e cfg sshPort logDir tunnelId t1 w4)))"

subsection \<open>Waiting for the port (lib/utils.js)\<close>

text \<open>
  One test of \<^verbatim>\<open>waitPortLocalhost\<close>: \<^verbatim>\<open>nc\<close>, else \<^verbatim>\<open>ss\<close>, else \<^verbatim>\<open>netstat\<close>, whichever
  exists first; with none of them the port is never seen open.
\<close>

definition portCheck :: "env \<Rightarrow> string \<Rightarrow> int \<Rightarrow> bool" where
  "portCheck e port t =
     (if commandExists e ''nc'' then portOpenAt e port t
      else if commandExists e ''ss'' then portOpenAt e port t
      else if commandExists e ''netstat'' then portOpenAt e port t
      else False)"

function waitPort_loop :: "env \<Rightarrow> string \<Rightarrow> int \<Rightarrow> int \<Rightarrow> world \<Rightarrow> bool \<times> world" where
  "waitPort_loop e port timeoutMs start w =
     (if clock w - start < timeoutMs then
        (if portCheck e port (clock w) then (True, w)
         else waitPort_loop e port timeoutMs start (sleep e 250 w))
      else (False, w))"
  by pat_completeness auto
termination
  by (relation "measure (\<lambda>(e, port, timeoutMs, start, w). nat (start + timeoutMs - clock w))")
     (auto simp: sleep_def)

definition waitPortLocalhost :: "env \<Rightarrow> string \<Rightarrow> int \<Rightarrow> world \<Rightarrow> bool \<times> world" where
  "waitPortLocalhost e port timeoutMs w = waitPort_loop e port timeoutMs (clock w) w"

subsection \<open>The three modes (lib/setup-ssh.js)\<close>

text \<open>What a mode returns; a field that the returned object lacks is \<open>None\<close>.\<close>

record ssh_result =
  sshr_mode :: string
  sshr_port :: string
  sshr_baseDir :: "string option"
  sshr_logPath :: "string option"
  sshr_pid :: "nat option"

definition shSingleQuote :: "string \<Rightarrow> string" where
  "shSingleQuote s =
     [CHR 0x27] @ concat (map (\<lambda>c. if c = CHR 0x27
                                   then [CHR 0x27, CHR 0x22, CHR 0x27, CHR 0x22, CHR 0x27]
                                   else [c]) s) @ [CHR 0x27]"

fun forEach :: "('a \<Rightarrow> unit io) \<Rightarrow> 'a list \<Rightarrow> unit io" where
  "forEach f [] = ret ()"
| "forEach f (x # xs) = andThen (f x) (\<lambda>_. forEach f xs)"

text \<open>\<^verbatim>\<open>setting.split(' ')[0]\<close>.\<close>

definition firstWord :: "string \<Rightarrow> string" where
  "firstWord s = takeWhile (\<lambda>c. c \<noteq> CHR '' '') s"

definition waitReady :: "env \<Rightarrow> config \<Rightarrow> string \<Rightarrow> string \<Rightarrow> unit io" where
  "waitReady e cfg sshPort failure w =
     (case waitPortLocalhost e sshPort (to_portWait (cfg_timeouts cfg)) w of
        (ready, w') \<Rightarrow>
          if \<not> ready then (Inl (SSHDError (''Port '' @ sshPort @ failure)), w')
          else (Inr (), say Success (''SSH server is ready on port '' @ sshPort) w'))"

definition generateHostKey :: "env \<Rightarrow> string \<Rightarrow> string \<Rightarrow> string \<Rightarrow> unit io" where
  "generateHostKey e label keygen hostKey w =
     (if files w hostKey = None
      then andThen (emit (Log Info (''Generating '' @ label @ '' host key...''))) (\<lambda>_.
             run_cmd e (keygen @ quoted hostKey @ '' -N '' @ quoted []) False) w
      else (Inr (), w))"

definition linuxUserMode :: "env \<Rightarrow> config \<Rightarrow> string \<Rightarrow> string \<Rightarrow> bool \<Rightarrow> ssh_result io" where
  "linuxUserMode e cfg sshPort sshDefaultCwd disableForceCwd =
     andThen (emit (Log Section ''Setting up SSH (Linux User Mode)'')) (\<lambda>_.
     andThen
       (if \<not> commandExists e ''sshd'' then
          andThen (emit (Log Warn ''sshd not found, attempting to install openssh-server...'')) (\<lambda>_.
            if commandExists e ''apt-get'' then
              andThen (run_cmd e ''sudo -n apt-get update'' True) (\<lambda>_.
                run_cmd e ''sudo -n apt-get install -y openssh-server'' True)
            else if commandExists e ''yum'' then
              run_cmd e ''sudo -n yum install -y openssh-server'' True
            else throw (SSHDError ''sshd not found and cannot auto-install''))
        else ret ()) (\<lambda>_.
       let baseDir = pathJoin (pathJoin (homedir e) ''.ssh'') ''ci-sshd'';
           cfgPath = pathJoin baseDir ''sshd_config'';
           pidPath = pathJoin baseDir ''sshd.pid'';
           logPath = pathJoin baseDir ''sshd.log'';
           hostKeyEd = pathJoin baseDir ''ssh_host_ed25519_key'';
           hostKeyRsa = pathJoin baseDir ''ssh_host_rsa_key'';
           forceCwdBlock =
             (if disableForceCwd then []
              else trim ([CHR 0x0A] @ ''Match User '' @ username e @ [CHR 0x0A]
                     @ ''  ForceCommand /bin/bash -lc ''
                     @ shSingleQuote (''cd '' @ sshDefaultCwd @ '' && if [ -n ''
                         @ quoted ''$SSH_ORIGINAL_COMMAND'' @ '' ]; then exec /bin/bash -lc ''
                         @ quoted ''$SSH_ORIGINAL_COMMAND'' @ ''; else exec /bin/bash -l; fi'')
                     @ [CHR 0x0A]));
           sshdCfg = renderTemplate e (cfg_sshdTemplate cfg)
                   [(''PORT'', sshPort), (''LISTEN_ADDRESS'', ssh_listenAddress (cfg_ssh cfg)),
                    (''AUTHORIZED_KEYS_FILE'', authorized_keys e), (''ALLOW_USERS'', username e),
                    (''PID_FILE'', pidPath), (''HOSTKEY_ED25519'', hostKeyEd),
                    (''HOSTKEY_RSA'', hostKeyRsa), (''FORCE_CWD_BLOCK'', forceCwdBlock)]
       in
       andThen (ensureDir baseDir) (\<lambda>_.
       andThen (generateHostKey e ''ED25519'' ''ssh-keygen -t ed25519 -f '' hostKeyEd) (\<lambda>_.
       andThen (generateHostKey e ''RSA'' ''ssh-keygen -t rsa -b 2048 -f '' hostKeyRsa) (\<lambda>_.
       andThen (run_cmd e (''chmod 600 '' @ quoted hostKeyEd @ '' '' @ quoted hostKeyRsa) True) (\<lambda>_.
       andThen (run_cmd e (''chmod 644 '' @ quoted (hostKeyEd @ ''.pub'') @ '' ''
                             @ quoted (hostKeyRsa @ ''.pub'')) True) (\<lambda>_.
       andThen (writeFileSafe cfgPath sshdCfg) (\<lambda>_.
       andThen (emit (Log Success (''SSHD config written: '' @ cfgPath))) (\<lambda>_.
       andThen (emit (Log Info ''Starting SSHD in user mode...'')) (\<lambda>_ w.
         case spawnDetached e (cfg_sshdPath cfg) [''-f'', cfgPath, ''-D''] logPath w of
           (pid, w1) \<Rightarrow>
             andThen (writeFileSync pidPath (showPid pid)) (\<lambda>_.
             andThen (emit (Log Success (''SSHD started (PID: '' @ showPid pid @ '')''))) (\<lambda>_.
             andThen (emit (Log Info (''Log file: '' @ logPath))) (\<lambda>_.
             andThen (emit (Log Info (''Waiting for port '' @ sshPort @ '' to be ready...''))) (\<lambda>_.
             andThen (waitReady e cfg sshPort '' is not listening after timeout'') (\<lambda>_.
               ret \<lparr>sshr_mode = ''user'', sshr_port = sshPort, sshr_baseDir = Some baseDir,
                    sshr_logPath = Some logPath, sshr_pid = pid\<rparr>))))) w1))))))))))"

definition sshd_config_path :: "env \<Rightarrow> string" where
  "sshd_config_path e =
     (if isWindows e then ''C:'' @ [CHR 0x5C] @ ''ProgramData'' @ [CHR 0x5C] @ ''ssh'' @ [CHR 0x5C]
                            @ ''sshd_config''
      else ''/etc/ssh/sshd_config'')"

definition isRootOnLinux :: "env \<Rightarrow> bool" where
  "isRootOnLinux e = (isLinux e \<and> isRoot e)"

definition hasSudoNoPass :: "env \<Rightarrow> bool" where
  "hasSudoNoPass e = (if \<not> isLinux e then False else \<not> commandFails e ''sudo -n true'')"

definition linuxRootMode ::
  "env \<Rightarrow> config \<Rightarrow> string \<Rightarrow> string \<Rightarrow> bool \<Rightarrow> string list \<Rightarrow> ssh_result io" where
  "linuxRootMode e cfg sshPort sshDefaultCwd disableForceCwd allowUsers =
     andThen (emit (Log Section ''Setting up SSH (Linux Root Mode)'')) (\<lambda>_.
       if \<not> isRootOnLinux e \<and> \<not> hasSudoNoPass e
       then throw (PermissionError ''Root mode requires root user or sudo without password'')
       else
         andThen (\<lambda>w.
           let backupPath = sshd_config_path e @ ''.backup-'' @ showNat (nat (clock w))
           in if files w (sshd_config_path e) \<noteq> None
              then andThen (run_cmd e (''sudo cp '' @ quoted (sshd_config_path e) @ '' ''
                                         @ quoted backupPath) True) (\<lambda>_.
                     emit (Log Info (''Backed up config to: '' @ backupPath))) w
              else (Inr (), w)) (\<lambda>_.
         andThen (emit (Log Info ''Modifying system sshd_config...'')) (\<lambda>_.
           let settings =
                 [''Port '' @ sshPort, ''PubkeyAuthentication yes'', ''PasswordAuthentication no'',
                  ''PermitRootLogin '' @ (if username e = ''root'' then ''yes'' else ''no'')]
                 @ (if length allowUsers > 0 then [''AllowUsers '' @ joinWith '' '' allowUsers] else [])
           in
           andThen (forEach (\<lambda>setting.
                      run_cmd e (''sudo sed -i '' @ [CHR 0x27] @ ''s/^#*'' @ firstWord setting @ ''.*/''
                                   @ setting @ ''/'' @ [CHR 0x27] @ '' '' @ quoted (sshd_config_path e))
                        True) settings) (\<lambda>_.
           andThen
             (if \<not> disableForceCwd then
                run_cmd e (''echo '' @ quoted (''Match User '' @ username e @ [CHR 0x0A]
                             @ ''  ForceCommand /bin/bash -lc ''
                             @ shSingleQuote (''cd '' @ sshDefaultCwd @ '' && exec /bin/bash -l''))
                           @ '' | sudo tee -a '' @ quoted (sshd_config_path e)) True
              else ret ()) (\<lambda>_.
           andThen (emit (Log Info ''Restarting SSHD service...'')) (\<lambda>_.
           andThen (run_cmd e ''sudo systemctl restart sshd'' True) (\<lambda>_.
           andThen (run_cmd e ''sudo service sshd restart'' True) (\<lambda>_.
           andThen (waitReady e cfg sshPort '' is not listening after restart'') (\<lambda>_.
             ret \<lparr>sshr_mode = ''root'', sshr_port = sshPort, sshr_baseDir = None,
                  sshr_logPath = None, sshr_pid = None\<rparr>)))))))))"

definition windowsSetup :: "env \<Rightarrow> config \<Rightarrow> string \<Rightarrow> string list \<Rightarrow> ssh_result io" where
  "windowsSetup e cfg sshPort allowUsers =
     andThen (emit (Log Section ''Setting up SSH (Windows)'')) (\<lambda>_.
     andThen
       (if \<not> commandExists e ''sshd'' then
          andThen (emit (Log Info ''Installing OpenSSH Server...'')) (\<lambda>_.
            run_cmd e (''powershell -Command ''
                         @ quoted ''Add-WindowsCapability -Online -Name OpenSSH.Server~~~~0.0.1.0'') False)
        else ret ()) (\<lambda>_.
     andThen (emit (Log Info ''Starting SSHD service...'')) (\<lambda>_.
     andThen (run_cmd e (''powershell -Command '' @ quoted ''Start-Service sshd'') True) (\<lambda>_.
     andThen (run_cmd e (''powershell -Command ''
                           @ quoted ''Set-Service -Name sshd -StartupType Automatic'') True) (\<lambda>_.
     andThen (emit (Log Info ''Configuring SSHD...'')) (\<lambda>_.
     andThen (forEach (\<lambda>setting.
                run_cmd e (''powershell -Command ''
                             @ quoted (''(Get-Content '' @ [CHR 0x27] @ sshd_config_path e @ [CHR 0x27]
                                 @ '') -replace '' @ [CHR 0x27] @ ''^#*'' @ firstWord setting @ ''.*''
                                 @ [CHR 0x27] @ '', '' @ [CHR 0x27] @ setting @ [CHR 0x27]
                                 @ '' | Set-Content '' @ [CHR 0x27] @ sshd_config_path e @ [CHR 0x27]))
                  True)
                [''Port '' @ sshPort, ''PubkeyAuthentication yes'', ''PasswordAuthentication no'']) (\<lambda>_.
     andThen (emit (Log Info ''Restarting SSHD service...'')) (\<lambda>_.
     andThen (run_cmd e (''powershell -Command '' @ quoted ''Restart-Service sshd'') False) (\<lambda>_.
     andThen (waitReady e cfg sshPort '' is not listening after restart'') (\<lambda>_.
       ret \<lparr>sshr_mode = ''windows'', sshr_port = sshPort, sshr_baseDir = None,
            sshr_logPath = None, sshr_pid = None\<rparr>))))))))))"

text \<open>
  The method \<^verbatim>\<open>setup\<close> of \<^verbatim>\<open>SetupSSH\<close>: the keys first, then the mode that platform and
  configuration select.
\<close>

definition setup_ssh :: "env \<Rightarrow> config \<Rightarrow> ssh_result io" where
  "setup_ssh e cfg =
     (let sshPort = ssh_port (cfg_ssh cfg);
          sshMode = ssh_mode (cfg_ssh cfg);
          sshDefaultCwd = orElse (ssh_defaultCwd (cfg_ssh cfg)) (detectDefaultCwd e);
          disableForceCwd = ssh_disableForceCwd (cfg_ssh cfg);
          allowUsers = ssh_allowUsers (cfg_ssh cfg)
      in andThen (writeAuthorizedKeys e (ssh_publicKey (cfg_ssh cfg))) (\<lambda>_.
           if isWindows e then windowsSetup e cfg sshPort allowUsers
           else if isLinux e then
             (if sshMode = ''root''
              then linuxRootMode e cfg sshPort sshDefaultCwd disableForceCwd allowUsers
              else linuxUserMode e cfg sshPort sshDefaultCwd disableForceCwd)
           else throw (SSHDError (''Unsupported platform: '' @ platform e))))"

text \<open>
  The mode selection as the specification words it: a function of the platform and the
  configured mode.
\<close>

datatype ssh_mode = UserMode | RootMode | WindowsMode

definition selectMode :: "string \<Rightarrow> string \<Rightarrow> ssh_mode option" where
  "selectMode plat configuredMode =
     (if plat = ''win32'' then Some WindowsMode
      else if plat = ''linux'' then (if configuredMode = ''root'' then Some RootMode else Some UserMode)
      else None)"

text \<open>The bring-up of each mode of the specification.\<close>

fun bringUp :: "env \<Rightarrow> config \<Rightarrow> ssh_mode \<Rightarrow> ssh_result io" where
  "bringUp e cfg UserMode =
     linuxUserMode e cfg (ssh_port (cfg_ssh cfg))
       (orElse (ssh_defaultCwd (cfg_ssh cfg)) (detectDefaultCwd e)) (ssh_disableForceCwd (cfg_ssh cfg))"
| "bringUp e cfg RootMode =
     linuxRootMode e cfg (ssh_port (cfg_ssh cfg))
       (orElse (ssh_defaultCwd (cfg_ssh cfg)) (detectDefaultCwd e)) (ssh_disableForceCwd (cfg_ssh cfg))
       (ssh_allowUsers (cfg_ssh cfg))"
| "bringUp e cfg WindowsMode =
     windowsSetup e cfg (ssh_port (cfg_ssh cfg)) (ssh_allowUsers (cfg_ssh cfg))"

fun modeName :: "ssh_mode \<Rightarrow> string" where
  "modeName UserMode = ''user''"
| "modeName RootMode = ''root''"
| "modeName WindowsMode = ''windows''"


section \<open>The orchestrator (lib/index.js)\<close>

subsection \<open>Validation (lib/config.js)\<close>

text \<open>\<^verbatim>\<open>parseInt(s, 10)\<close>; \<open>None\<close> is \<^verbatim>\<open>NaN\<close>.\<close>

definition digitValue :: "char \<Rightarrow> nat" where
  "digitValue c = length (takeWhile (\<lambda>d. d \<noteq> c) ''0123456789'')"

definition parseInt10 :: "string \<Rightarrow> int option" where
  "parseInt10 s =
     (let t = dropWhile isWhiteSpace s;
          negative = (take 1 t = ''-'');
          u = (if take 1 t = ''-'' \<or> take 1 t = ''+'' then drop 1 t else t);
          ds = takeWhile isDigit u;
          n = int (foldl (\<lambda>a c. 10 * a + digitValue c) 0 ds)
      in if ds = [] then None else Some (if negative then - n else n))"

definition validate :: "config \<Rightarrow> error + unit" where
  "validate cfg =
     (let errors =
            (if falsy (ssh_publicKey (cfg_ssh cfg)) then [''PIPELINE_SSH_PUBKEY is required''] else [])
          @ (if ssh_mode (cfg_ssh cfg) \<notin> set [''auto'', ''root'', ''user'']
             then [''SSH_MODE must be: auto, root, or user''] else [])
          @ (case parseInt10 (ssh_port (cfg_ssh cfg)) of
               None \<Rightarrow> [''SSH_PORT must be between 1-65535'']
             | Some p \<Rightarrow> if p < 1 \<or> p > 65535 then [''SSH_PORT must be between 1-65535''] else [])
          @ (if to_portWait (cfg_timeouts cfg) < 1000
             then [''SSH_PORT_TIMEOUT must be >= 1000ms''] else [])
          @ (if to_cfEndpoint (cfg_timeouts cfg) < 5000
             then [''CF_ENDPOINT_TIMEOUT must be >= 5000ms''] else [])
          @ (if cf_enabled (cfg_cloudflare cfg) \<and> falsy (cf_apiKey (cfg_cloudflare cfg))
             then [''CLOUDFLARED_APIKEY is required when CF_ENABLE=1''] else [])
          @ (if rtdb_enabled (cfg_rtdb cfg)
                \<and> (falsy (rtdb_url (cfg_rtdb cfg)) \<or> falsy (rtdb_id (cfg_rtdb cfg)))
             then [''Both ENV_SSH_URLS and ENV_SSH_URLS_ID are required for RTDB persistence'']
             else [])
      in if length errors > 0
         then Inl (ConfigError (''Configuration validation failed:'' @ [CHR 0x0A]
                     @ joinWith [CHR 0x0A] (map (\<lambda>m. ''  - '' @ m) errors)))
         else Inr ())"

subsection \<open>Starting the tunnels\<close>

text \<open>
  A plugin is an instance with the three methods that the orchestrator calls.  A method
  declared \<^verbatim>\<open>async\<close> may throw whatever it does.
\<close>

record plugin =
  p_type :: string
  p_instance :: tunnel
  p_isAvailable :: "tunnel \<Rightarrow> error + bool"
  p_start :: "string \<Rightarrow> string \<Rightarrow> start_result tunnel_method"
  p_getConnectCommand :: "tunnel \<Rightarrow> error + string option"

definition pinggyPlugin :: "env \<Rightarrow> config \<Rightarrow> plugin" where
  "pinggyPlugin e cfg =
     \<lparr>p_type = ''Pinggy'', p_instance = newTunnel ''Pinggy'',
      p_isAvailable = (\<lambda>t. Inr (pinggy_isAvailable cfg)),
      p_start = pinggy_start e cfg,
      p_getConnectCommand = (\<lambda>t. Inr (pinggy_getConnectCommand e t))\<rparr>"

definition sshjPlugin :: "env \<Rightarrow> config \<Rightarrow> plugin" where
  "sshjPlugin e cfg =
     \<lparr>p_type = ''SSH-J'', p_instance = newTunnel ''SSH-J'',
      p_isAvailable = (\<lambda>t. Inr (sshj_isAvailable cfg)),
      p_start = sshj_start e cfg,
      p_getConnectCommand = (\<lambda>t. Inr (sshj_getConnectCommand e cfg t))\<rparr>"

definition cloudflarePlugin :: "env \<Rightarrow> config \<Rightarrow> plugin" where
  "cloudflarePlugin e cfg =
     \<lparr>p_type = ''Cloudflare'', p_instance = newTunnel ''Cloudflare'',
      p_isAvailable = (\<lambda>t. Inr (cloudflare_isAvailable cfg)),
      p_start = cloudflare_start e cfg,
      p_getConnectCommand = (\<lambda>t. Inr (cloudflare_getConnectCommand e t))\<rparr>"

text \<open>
  What the function mapped over the plugins resolves to: \<^verbatim>\<open>null\<close>, the report of a
  started tunnel, or the type and the message of a failure.
\<close>

record tunnel_report =
  tr_tunnelType :: string
  tr_endpoint :: "string option"
  tr_connectCommand :: "string option"
  tr_pid :: "nat option"
  tr_logFile :: "string option"

datatype tunnel_value = NullValue | Started tunnel_report | Failed string string

definition taskFailed :: "string \<Rightarrow> error \<Rightarrow> world \<Rightarrow> tunnel_value \<times> world" where
  "taskFailed type err w =
     (Failed type (message err), say Err (type @ '' tunnel failed: '' @ message err) w)"

text \<open>
  The \<^verbatim>\<open>async\<close> function of \<^verbatim>\<open>tunnels.map\<close>, whose body is one \<^verbatim>\<open>try\<close> with a \<^verbatim>\<open>catch\<close>.
  The event \<open>TunnelStartInvoked\<close> marks the call of \<^verbatim>\<open>instance.start\<close>.
\<close>

definition tunnelTask :: "plugin \<Rightarrow> string \<Rightarrow> string \<Rightarrow> world \<Rightarrow> tunnel_value \<times> world" where
  "tunnelTask p sshPort logDir w =
     (case p_isAvailable p (p_instance p) of
        Inl err \<Rightarrow> taskFailed (p_type p) err w
      | Inr available \<Rightarrow>
          if available then
            (let w1 = say Info (''Starting '' @ p_type p @ '' tunnel...'') w;
                 w2 = w1\<lparr>events := events w1 @ [TunnelStartInvoked (p_type p)]\<rparr>
             in case p_start p sshPort logDir (p_instance p) w2 of
                  ((Inl err, t), w3) \<Rightarrow> taskFailed (p_type p) err w3
                | ((Inr result, t), w3) \<Rightarrow>
                    (case p_getConnectCommand p t of
                       Inl err \<Rightarrow> taskFailed (p_type p) err w3
                     | Inr connectCommand \<Rightarrow>
                         (Started \<lparr>tr_tunnelType = p_type p,
                                   tr_endpoint = (if falsy (sr_endpoint result) then None
                                                  else sr_endpoint result),
                                   tr_connectCommand = connectCommand,
                                   tr_pid = sr_pid result,
                                   tr_logFile = sr_logFile result\<rparr>, w3)))
          else (NullValue, say Debug (p_type p @ '' tunnel not configured'') w))"

text \<open>
  The tasks run interleaved on one thread and all begin at the same time \<open>t0\<close>.  The
  model runs them one after the other, each from the clock \<open>t0\<close>, and keeps the latest
  clock reached.
\<close>

fun runTasks :: "plugin list \<Rightarrow> string \<Rightarrow> string \<Rightarrow> int \<Rightarrow> world \<Rightarrow> tunnel_value list \<times> world" where
  "runTasks [] sshPort logDir t0 w = ([], w)"
| "runTasks (p # ps) sshPort logDir t0 w =
     (case tunnelTask p sshPort logDir (w\<lparr>clock := t0\<rparr>) of
        (v, w1) \<Rightarrow>
          (case runTasks ps sshPort logDir t0 (w1\<lparr>clock := max (clock w) (clock w1)\<rparr>) of
             (vs, w2) \<Rightarrow> (v # vs, w2)))"

text \<open>
  \<^verbatim>\<open>Promise.allSettled\<close>: one entry for each promise, in the order of the promises.
  \<open>allSettledBy\<close> is the way it gets there: whenever the promise at index \<open>i\<close> settles,
  entry \<open>i\<close> of the result is filled in.
\<close>

datatype 'a settled = Fulfilled 'a | Rejected error

definition settle :: "error + 'a \<Rightarrow> 'a settled" where
  "settle r = (case r of Inl err \<Rightarrow> Rejected err | Inr v \<Rightarrow> Fulfilled v)"

definition allSettled :: "(error + 'a) list \<Rightarrow> 'a settled list" where
  "allSettled outcomes = map settle outcomes"

definition allSettledBy :: "nat list \<Rightarrow> (error + 'a) list \<Rightarrow> 'a settled option list" where
  "allSettledBy order outcomes =
     foldl (\<lambda>res i. res[i := Some (settle (outcomes ! i))]) (replicate (length outcomes) None) order"

definition startTunnels ::
  "plugin list \<Rightarrow> string \<Rightarrow> string \<Rightarrow> world \<Rightarrow> tunnel_value settled list \<times> world" where
  "startTunnels ps sshPort logDir w =
     (case runTasks ps sshPort logDir (clock w) w of
        (vs, w') \<Rightarrow> (allSettled (map Inr vs), w'))"

subsection \<open>The run\<close>

record ssh_report =
  rep_success :: bool
  rep_error :: "string option"
  rep_mode :: "string option"
  rep_port :: "string option"
  rep_logPath :: "string option"
  rep_pid :: "nat option"

record results =
  res_ssh :: ssh_report
  res_tunnels :: "tunnel_value settled list"
  res_persistence :: "bool \<times> bool"

datatype run_outcome = Exited int | Returned results

record options =
  opt_sshPort :: "string option"
  opt_sshMode :: "string option"
  opt_publicKey :: "string option"

definition mergeOptions :: "options \<Rightarrow> config \<Rightarrow> config" where
  "mergeOptions opts cfg =
     cfg\<lparr>cfg_ssh :=
           \<lparr>ssh_port = orElse (opt_sshPort opts) (ssh_port (cfg_ssh cfg)),
            ssh_mode = orElse (opt_sshMode opts) (ssh_mode (cfg_ssh cfg)),
            ssh_allowUsers = ssh_allowUsers (cfg_ssh cfg),
            ssh_defaultCwd = ssh_defaultCwd (cfg_ssh cfg),
            ssh_disableForceCwd = ssh_disableForceCwd (cfg_ssh cfg),
            ssh_listenAddress = ssh_listenAddress (cfg_ssh cfg),
            ssh_publicKey = (if falsy (opt_publicKey opts) then ssh_publicKey (cfg_ssh cfg)
                             else opt_publicKey opts)\<rparr>\<rparr>"

text \<open>
  \<^verbatim>\<open>printSummary\<close>, without its pictographs and its closing block of debug information.
\<close>

fun summaryLines :: "tunnel_value settled \<Rightarrow> string list" where
  "summaryLines (Fulfilled NullValue) = []"
| "summaryLines (Fulfilled (Started r)) =
     [''   '' @ (if tr_tunnelType r = [] then ''Tunnel'' else tr_tunnelType r)]
     @ (if falsy (tr_endpoint r) then [] else [''      Endpoint: '' @ orElse (tr_endpoint r) []])
     @ (if falsy (tr_connectCommand r) then [] else [''      Connect: '' @ orElse (tr_connectCommand r) []])"
| "summaryLines (Fulfilled (Failed type msg)) = [''   '' @ (if type = [] then ''Tunnel'' else type)]"
| "summaryLines (Rejected err) =
     [''   Tunnel'', ''      Error: '' @ (if message err = [] then ''Unknown error'' else message err)]"

definition tunnelCount :: "tunnel_value settled list \<Rightarrow> nat" where
  "tunnelCount rs = length (filter (\<lambda>r. case r of Fulfilled NullValue \<Rightarrow> False
                                            | Fulfilled _ \<Rightarrow> True | Rejected _ \<Rightarrow> False) rs)"

definition printSummary :: "env \<Rightarrow> ssh_report \<Rightarrow> tunnel_value settled list \<Rightarrow> world \<Rightarrow> world" where
  "printSummary e sshResult tunnelResults w =
     foldl (\<lambda>v line. say Console line v) (say Section ''Setup Summary'' w)
       ([''SSH Server:'', ''   Status: '' @ (if rep_success sshResult then ''Running'' else ''Failed'')]
        @ (if rep_success sshResult then
             [''   Mode: '' @ orElse (rep_mode sshResult) ''undefined'',
              ''   Port: '' @ orElse (rep_port sshResult) ''undefined'',
              ''   User: '' @ username e]
             @ (if falsy (rep_logPath sshResult) then []
                else [''   Log: '' @ orElse (rep_logPath sshResult) []])
           else if falsy (rep_error sshResult) then []
           else [''   Error: '' @ orElse (rep_error sshResult) []])
        @ [''Tunnels:''] @ concat (map summaryLines tunnelResults)
        @ (if tunnelCount tunnelResults = 0 then [''   No tunnels configured''] else [])
        @ (if rep_success sshResult
           then [''Local Connection:'',
                 ''   ssh -p '' @ orElse (rep_port sshResult) ''undefined'' @ '' '' @ username e
                   @ ''@127.0.0.1 -i <your-private-key>'']
           else []))"

text \<open>\<^verbatim>\<open>process.exit(code)\<close> ends the run: nothing after it is executed.\<close>

definition processExit :: "int \<Rightarrow> world \<Rightarrow> run_outcome \<times> world" where
  "processExit code w = (Exited code, w\<lparr>events := events w @ [ProcessExit code]\<rparr>)"

text \<open>The world in which \<^verbatim>\<open>setup\<close> is called: banner shown, configuration validated.\<close>

definition preflight :: "world \<Rightarrow> world" where
  "preflight w =
     say Success ''Configuration valid''
       (say Info ''Validating configuration...'' (say Console ''SSH Tunnel Setup v2.0'' w))"

definition tunnelPhase ::
  "env \<Rightarrow> config \<Rightarrow> int \<Rightarrow> ssh_result \<Rightarrow> world \<Rightarrow> run_outcome \<times> world" where
  "tunnelPhase e cfg startTime sshResult w =
     (let sshRep = \<lparr>rep_success = True, rep_error = None, rep_mode = Some (sshr_mode sshResult),
                    rep_port = Some (sshr_port sshResult), rep_logPath = sshr_logPath sshResult,
                    rep_pid = sshr_pid sshResult\<rparr>;
          w1 = say Section ''Starting Tunnels'' w;
          logDir = (if falsy (sshr_logPath sshResult) then pathJoin (homedir e) ''.ssh''
                    else dirname (orElse (sshr_logPath sshResult) []));
          tunnels = [pinggyPlugin e cfg, sshjPlugin e cfg, cloudflarePlugin e cfg]
      in case startTunnels tunnels (sshr_port sshResult) logDir w1 of
           (tunnelResults, w2) \<Rightarrow>
             (let w3 = say Section ''Persisting Results'' w2;
                  w4 = printSummary e sshRep tunnelResults w3;
                  w5 = say Success (''Setup completed in '' @ showNat (nat (clock w4 - startTime))
                                      @ ''ms'') w4
              in (Returned \<lparr>res_ssh = sshRep, res_tunnels = tunnelResults,
                            res_persistence = persistResult e\<rparr>, w5)))"

text \<open>
  \<^verbatim>\<open>run(options)\<close>, without the summary of the configuration that \<^verbatim>\<open>DEBUG=1\<close> prints.
  The event \<open>SshSetupReturned\<close> marks the return of \<^verbatim>\<open>setup\<close>, when the result of the
  bring-up exists.
\<close>

definition run :: "env \<Rightarrow> config \<Rightarrow> options \<Rightarrow> world \<Rightarrow> run_outcome \<times> world" where
  "run e cfg0 opts w =
     (let cfg = mergeOptions opts cfg0
      in case validate cfg of
           Inl err \<Rightarrow>
             processExit 1
               (say Err (''Fatal error: '' @ message err)
                 (say Info ''Validating configuration...'' (say Console ''SSH Tunnel Setup v2.0'' w)))
         | Inr _ \<Rightarrow>
             (case setup_ssh e cfg (preflight w) of
                (Inl err, w1) \<Rightarrow>
                  processExit 1
                    (printSummary e
                       \<lparr>rep_success = False, rep_error = Some (message err), rep_mode = None,
                        rep_port = None, rep_logPath = None, rep_pid = None\<rparr> []
                       (say Err (''SSH setup failed: '' @ message err) w1))
              | (Inr sshResult, w1) \<Rightarrow>
                  tunnelPhase e cfg (clock w) sshResult
                    (w1\<lparr>events := events w1
                          @ [SshSetupReturned (sshr_mode sshResult) (sshr_port sshResult)]\<rparr>)))"


subsection \<open>A log that appears late\<close>

text \<open>
  An environment in which every log file appears 600 ms after time 0, with a Pinggy
  endpoint in it, and an instance of the Pinggy tunnel whose log file is set.
\<close>

definition late_log_env :: env where
  "late_log_env =
     demo_env\<lparr>logAt := (\<lambda>p t. if t < 600 then Missing
                               else Content ''Welcome tcp://abc.a.free.pinggy.link:40001 ok'')\<rparr>"

definition pinggy_probing :: tunnel where
  "pinggy_probing = (newTunnel ''Pinggy'')\<lparr>t_logFile := Some ''/home/ci/.ssh/pinggy.log''\<rparr>"


subsection \<open>Configurations with tunnels enabled\<close>

text \<open>SSH-J enabled, with namespace and device configured.\<close>

definition sshj_demo_config :: config where
  "sshj_demo_config =
     demo_config\<lparr>cfg_sshj := (cfg_sshj demo_config)
                    \<lparr>sj_enabled := True, sj_namespace := Some ''ns'', sj_device := Some ''device''\<rparr>\<rparr>"

text \<open>Pinggy enabled as well.\<close>

definition tunnels_demo_config :: config where
  "tunnels_demo_config =
     sshj_demo_config\<lparr>cfg_pinggy := (cfg_pinggy demo_config)\<lparr>pg_enabled := True\<rparr>\<rparr>"

text \<open>Cloudflare enabled, with an API key, on a machine that has \<^verbatim>\<open>cloudflared\<close> and the tunnel.\<close>

definition cloudflare_demo_config :: config where
  "cloudflare_demo_config =
     demo_config\<lparr>cfg_cloudflare := (cfg_cloudflare demo_config)
                    \<lparr>cf_enabled := True, cf_apiKey := Some ''token''\<rparr>\<rparr>"

definition cloudflare_demo_env :: env where
  "cloudflare_demo_env = demo_env\<lparr>cfExistingTunnel := (\<lambda>n. Some ''0a1b-2c3d'')\<rparr>"

definition no_options :: options where
  "no_options = \<lparr>opt_sshPort = None, opt_sshMode = None, opt_publicKey = None\<rparr>"


text \<open>A plugin that is available and whose \<^verbatim>\<open>start\<close> always throws.\<close>

definition brokenPlugin :: plugin where
  "brokenPlugin =
     \<lparr>p_type = ''Broken'', p_instance = newTunnel ''Broken'',
      p_isAvailable = (\<lambda>t. Inr True),
      p_start = (\<lambda>sshPort logDir t w. ((Inl (TunnelError ''Broken'' ''cannot start''), t), w)),
      p_getConnectCommand = (\<lambda>t. Inr None)\<rparr>"


text \<open>SSH-J configured, a plugin that fails, and Cloudflare not enabled.\<close>

definition demo_plugins :: "plugin list" where
  "demo_plugins =
     [sshjPlugin demo_env sshj_demo_config, brokenPlugin, cloudflarePlugin demo_env sshj_demo_config]"


subsection \<open>The milestones of a run\<close>

text \<open>
  The two events that mark the order of the phases: the return of the SSH bring-up and
  the calls of \<^verbatim>\<open>start\<close>.  A computation is silent when it adds neither.
\<close>

fun isMilestone :: "event \<Rightarrow> bool" where
  "isMilestone (SshSetupReturned m p) = True"
| "isMilestone (TunnelStartInvoked n) = True"
| "isMilestone ev = False"

definition milestones :: "event list \<Rightarrow> event list" where
  "milestones evs = filter isMilestone evs"

definition silent :: "'a io \<Rightarrow> bool" where
  "silent m = (\<forall>w. milestones (events (snd (m w))) = milestones (events w))"

definition available :: "plugin \<Rightarrow> bool" where
  "available p = (p_isAvailable p (p_instance p) = Inr True)"



subsection \<open>Key lines, in the words of the specification\<close>

text \<open>
  The specification keeps the lines that start with an SSH key-type prefix.  The key types
  of the \<^verbatim>\<open>authorized_keys\<close> format start with one of the prefixes below; the example
  \<^verbatim>\<open>Multiple SSH Keys\<close> of the README has keys of the types \<^verbatim>\<open>ssh-ed25519\<close>, \<^verbatim>\<open>ssh-rsa\<close> and
  \<^verbatim>\<open>ecdsa-sha2-nistp256\<close>.  \<open>keyLines\<close> follows the words of the specification, \<open>parseKeys\<close>
  the code.
\<close>

definition keyTypePrefixes :: "string list" where
  "keyTypePrefixes = [''ssh-'', ''ecdsa-sha2-'', ''sk-ssh-'', ''sk-ecdsa-sha2-'']"

definition hasKeyTypePrefix :: "string \<Rightarrow> bool" where
  "hasKeyTypePrefix k = list_ex (startsWith k) keyTypePrefixes"

definition keyLines :: "string \<Rightarrow> string list" where
  "keyLines blob =
     filter hasKeyTypePrefix
       (filter (\<lambda>k. k \<noteq> [] \<and> \<not> startsWith k ''#'') (map trim (splitLines blob)))"


section \<open>Properties of the retry loop\<close>

declare retry_loop.simps [simp del]

lemma sleeps_append: "sleeps (xs @ ys) = sleeps xs @ sleeps ys"
  by (induction xs rule: sleeps.induct) auto

lemma attempts_append: "attempts (xs @ ys) = attempts xs @ attempts ys"
  by (induction xs rule: attempts.induct) auto

lemma sleeps_notifyRetry [simp]: "sleeps (notifyRetry opts a d e # evs) = sleeps evs"
  by (simp add: notifyRetry_def)

lemma attempts_notifyRetry [simp]: "attempts (notifyRetry opts a d e # evs) = attempts evs"
  by (simp add: notifyRetry_def)

lemma retry_loop_fail_all:
  assumes "\<And>i. a \<le> i \<Longrightarrow> int i < maxRetries opts \<Longrightarrow> fn i = Inl (err i)"
    and "int a < maxRetries opts"
  shows "fst (retry_loop fn opts a le tr) = Inl (Some (err (nat (maxRetries opts - 1))))
       \<and> attempts (snd (retry_loop fn opts a le tr)) = attempts tr @ [a ..< nat (maxRetries opts)]
       \<and> sleeps (snd (retry_loop fn opts a le tr))
           = sleeps tr @ map (backoffDelay opts) [a ..< nat (maxRetries opts - 1)]"
  using assms
proof (induction fn opts a le tr rule: retry_loop.induct)
  case (1 fn opts attempt lastError tr)
  have f: "fn attempt = Inl (err attempt)" using 1 by simp
  show ?case
  proof (cases "int attempt = maxRetries opts - 1")
    case True
    then have n: "nat (maxRetries opts - 1) = attempt" "nat (maxRetries opts) = Suc attempt" by auto
    show ?thesis
      using True f "1.prems"(2)
      by (subst (1 2 3) retry_loop.simps) (simp add: n attempts_append sleeps_append)
  next
    case False
    then have lt: "int (Suc attempt) < maxRetries opts" using "1.prems"(2) by simp
    let ?tr = "tr @ [Attempt attempt, notifyRetry opts attempt (backoffDelay opts attempt) (err attempt),
                     Sleep (backoffDelay opts attempt)]"
    let ?r = "retry_loop fn opts (Suc attempt) (Some (err attempt)) ?tr"
    have ih: "fst ?r = Inl (Some (err (nat (maxRetries opts - 1))))
       \<and> attempts (snd ?r) = attempts ?tr @ [Suc attempt ..< nat (maxRetries opts)]
       \<and> sleeps (snd ?r) = sleeps ?tr @ map (backoffDelay opts) [Suc attempt ..< nat (maxRetries opts - 1)]"
      using "1.prems"(1) lt by (intro "1.IH"[OF "1.prems"(2) f False refl]) auto
    have r1: "[attempt ..< nat (maxRetries opts)] = attempt # [Suc attempt ..< nat (maxRetries opts)]"
      using lt by (simp add: upt_conv_Cons)
    have r2: "[attempt ..< nat (maxRetries opts - 1)] = attempt # [Suc attempt ..< nat (maxRetries opts - 1)]"
      using lt by (simp add: upt_conv_Cons)
    have unf: "retry_loop fn opts attempt lastError tr = ?r"
      using False f "1.prems"(2) by (subst retry_loop.simps) (simp add: Let_def)
    show ?thesis
      using ih by (simp add: unf attempts_append sleeps_append r1 r2)
  qed
qed

lemma retry_loop_first_success:
  assumes "\<And>i. a \<le> i \<Longrightarrow> i < k \<Longrightarrow> fn i = Inl (err i)"
    and "fn k = Inr v" and "a \<le> k" and "int k < maxRetries opts"
  shows "fst (retry_loop fn opts a le tr) = Inr v
       \<and> attempts (snd (retry_loop fn opts a le tr)) = attempts tr @ [a ..< Suc k]
       \<and> sleeps (snd (retry_loop fn opts a le tr)) = sleeps tr @ map (backoffDelay opts) [a ..< k]"
  using assms
proof (induction fn opts a le tr rule: retry_loop.induct)
  case (1 fn opts attempt lastError tr)
  have lt: "int attempt < maxRetries opts" using "1.prems" by simp
  show ?case
  proof (cases "attempt = k")
    case True
    then have "fn attempt = Inr v" "int attempt < maxRetries opts"
      using "1.prems"(2,4) by simp_all
    then have "retry_loop fn opts attempt lastError tr = (Inr v, tr @ [Attempt attempt])"
      by (subst retry_loop.simps) simp
    then show ?thesis
      using True by (simp add: attempts_append sleeps_append)
  next
    case False
    then have ak: "attempt < k" using "1.prems"(3) by simp
    then have f: "fn attempt = Inl (err attempt)" using "1.prems"(1) by simp
    have nl: "int attempt \<noteq> maxRetries opts - 1" using ak "1.prems"(4) by simp
    let ?tr = "tr @ [Attempt attempt, notifyRetry opts attempt (backoffDelay opts attempt) (err attempt),
                     Sleep (backoffDelay opts attempt)]"
    let ?r = "retry_loop fn opts (Suc attempt) (Some (err attempt)) ?tr"
    have ih: "fst ?r = Inr v
       \<and> attempts (snd ?r) = attempts ?tr @ [Suc attempt ..< Suc k]
       \<and> sleeps (snd ?r) = sleeps ?tr @ map (backoffDelay opts) [Suc attempt ..< k]"
      using "1.prems" ak by (intro "1.IH"[OF lt f nl refl]) auto
    have r1: "[attempt ..< Suc k] = attempt # [Suc attempt ..< Suc k]"
      using ak by (simp add: upt_conv_Cons)
    have r2: "[attempt ..< k] = attempt # [Suc attempt ..< k]"
      using ak by (simp add: upt_conv_Cons)
    have unf: "retry_loop fn opts attempt lastError tr = ?r"
      using nl f lt by (subst retry_loop.simps) (simp add: Let_def)
    show ?thesis
      using ih ak by (simp add: unf attempts_append sleeps_append r1 r2)
  qed
qed

lemma backoffDelay_le: "backoffDelay opts n \<le> maxDelay opts"
  by (simp add: backoffDelay_def)

lemma backoff_default_tail: "backoffDelay default_retry_options (n + 4) = 10000"
proof -
  have "(1::int) \<le> 2 ^ n" by simp
  then have "(10000::int) \<le> 16000 * 2 ^ n" by linarith
  then have "(10000::int) \<le> 1000 * 2 ^ (n + 4)" by (simp add: power_add)
  then show ?thesis by (simp add: backoffDelay_def default_retry_options_def min_def)
qed


lemma retry_loop_exhausted:
  "\<not> int a < maxRetries opts \<Longrightarrow> retry_loop fn opts a le tr = (Inl le, tr)"
  by (subst retry_loop.simps) simp

lemma retryWithBackoff_cases:
  fixes fn :: "nat \<Rightarrow> 'e + 'a" and opts :: retry_options
  defines "r \<equiv> retryWithBackoff fn opts"
  shows "(maxRetries opts \<le> 0 \<and> r = (Inl None, []))
       \<or> (\<exists>k v. int k < maxRetries opts \<and> fn k = Inr v \<and> (\<forall>i<k. isl (fn i))
              \<and> fst r = Inr v \<and> attempts (snd r) = [0..<Suc k]
              \<and> sleeps (snd r) = map (backoffDelay opts) [0..<k])
       \<or> (0 < maxRetries opts \<and> (\<forall>i. int i < maxRetries opts \<longrightarrow> isl (fn i))
              \<and> fst r = Inl (Some (projl (fn (nat (maxRetries opts - 1)))))
              \<and> attempts (snd r) = [0..<nat (maxRetries opts)]
              \<and> sleeps (snd r) = map (backoffDelay opts) [0..<nat (maxRetries opts - 1)])"
proof (cases "0 < maxRetries opts")
  case False
  then show ?thesis
    by (simp add: r_def retryWithBackoff_def retry_loop_exhausted)
next
  case pos: True
  show ?thesis
  proof (cases "\<exists>k. int k < maxRetries opts \<and> \<not> isl (fn k)")
    case True
    define k where "k = (LEAST k. int k < maxRetries opts \<and> \<not> isl (fn k))"
    have k: "int k < maxRetries opts \<and> \<not> isl (fn k)"
      unfolding k_def using True by (rule LeastI_ex)
    have before: "isl (fn i)" if "i < k" for i
    proof (rule ccontr)
      assume "\<not> isl (fn i)"
      moreover have "int i < maxRetries opts" using that k by simp
      ultimately have "k \<le> i" unfolding k_def by (intro Least_le) simp
      then show False using that by simp
    qed
    obtain v where v: "fn k = Inr v" using k by (cases "fn k") auto
    have "fst (retry_loop fn opts 0 None []) = Inr v
       \<and> attempts (snd (retry_loop fn opts 0 None [])) = attempts ([]::'e retry_event list) @ [0 ..< Suc k]
       \<and> sleeps (snd (retry_loop fn opts 0 None [])) = sleeps ([]::'e retry_event list) @ map (backoffDelay opts) [0 ..< k]"
      by (rule retry_loop_first_success[where err = "\<lambda>i. projl (fn i)"])
         (use before v k in auto)
    then show ?thesis
      using k v before unfolding r_def retryWithBackoff_def by auto
  next
    case False
    then have all: "\<forall>i. int i < maxRetries opts \<longrightarrow> isl (fn i)" by blast
    have "fst (retry_loop fn opts 0 None []) = Inl (Some (projl (fn (nat (maxRetries opts - 1)))))
       \<and> attempts (snd (retry_loop fn opts 0 None [])) = attempts ([]::'e retry_event list) @ [0 ..< nat (maxRetries opts)]
       \<and> sleeps (snd (retry_loop fn opts 0 None []))
           = sleeps ([]::'e retry_event list) @ map (backoffDelay opts) [0 ..< nat (maxRetries opts - 1)]"
      by (rule retry_loop_fail_all[where err = "\<lambda>i. projl (fn i)"])
         (use all pos in auto)
    then show ?thesis
      using all pos unfolding r_def retryWithBackoff_def by auto
  qed
qed

text \<open>
  Claim C7.  When attempts \<open>0, \<dots>, n - 1\<close> fail and retry \<open>n\<close> is still within the bound, the
  delays slept before retries \<open>1, \<dots>, n\<close> are \<open>min (initialDelay * factor ^ i) maxDelay\<close> for
  \<open>i = 0, \<dots>, n - 1\<close>; no delay ever slept exceeds \<open>maxDelay\<close>; and for
  \<open>(initialDelay, factor, maxDelay) = (1000, 2, 10000)\<close> the delays are
  \<open>1000, 2000, 4000, 8000, 10000, 10000, \<dots>\<close>.
\<close>

theorem retryWithBackoff_delay_sequence:
  "((\<forall>i<n. isl (fn i)) \<and> int n < maxRetries opts \<longrightarrow>
      take n (sleeps (snd (retryWithBackoff fn opts)))
        = map (\<lambda>i. min (initialDelay opts * factor opts ^ i) (maxDelay opts)) [0..<n])
   \<and> (\<forall>d \<in> set (sleeps (snd (retryWithBackoff fn opts))). d \<le> maxDelay opts)
   \<and> sleeps (snd (retryWithBackoff (\<lambda>i. Inl i) (default_retry_options\<lparr>maxRetries := 7\<rparr>)))
        = [1000, 2000, 4000, 8000, 10000, 10000]
   \<and> backoffDelay default_retry_options (k + 4) = 10000"
proof (intro conjI impI)
  assume h: "(\<forall>i<n. isl (fn i)) \<and> int n < maxRetries opts"
  have d: "map (\<lambda>i. min (initialDelay opts * factor opts ^ i) (maxDelay opts)) [0..<n]
             = map (backoffDelay opts) [0..<n]"
    by (simp add: backoffDelay_def)
  consider (none) "maxRetries opts \<le> 0"
    | (ok) j v where "int j < maxRetries opts" "fn j = Inr v"
        "sleeps (snd (retryWithBackoff fn opts)) = map (backoffDelay opts) [0..<j]"
    | (fail) "0 < maxRetries opts"
        "sleeps (snd (retryWithBackoff fn opts)) = map (backoffDelay opts) [0..<nat (maxRetries opts - 1)]"
    using retryWithBackoff_cases[of opts fn] by blast
  then show "take n (sleeps (snd (retryWithBackoff fn opts)))
        = map (\<lambda>i. min (initialDelay opts * factor opts ^ i) (maxDelay opts)) [0..<n]"
  proof cases
    case none
    then show ?thesis using h by simp
  next
    case ok
    have "n \<le> j"
    proof (rule ccontr)
      assume "\<not> n \<le> j"
      then have "isl (fn j)" using h by simp
      then show False using ok(2) by simp
    qed
    then show ?thesis unfolding d ok(3) by (simp add: take_map min_def)
  next
    case fail
    have "int n < maxRetries opts" using h by simp
    then have "n \<le> nat (maxRetries opts - 1)" by linarith
    then show ?thesis unfolding d fail(2) by (simp add: take_map min_def)
  qed
next
  show "\<forall>d \<in> set (sleeps (snd (retryWithBackoff fn opts))). d \<le> maxDelay opts"
    using retryWithBackoff_cases[of opts fn] by (auto simp: backoffDelay_le)
next
  show "sleeps (snd (retryWithBackoff (\<lambda>i. Inl i) (default_retry_options\<lparr>maxRetries := 7\<rparr>)))
        = [1000, 2000, 4000, 8000, 10000, 10000]"
    by (simp add: retryWithBackoff_def retry_loop.simps default_retry_options_def
        backoffDelay_def notifyRetry_def)
next
  show "backoffDelay default_retry_options (k + 4) = 10000"
    by (rule backoff_default_tail)
qed

theorem retryWithBackoff_delay_sequence_witness:
  "isl (Inl 0 :: nat + bool) \<and> isl (Inl 1 :: nat + bool) \<and> int 2 < maxRetries default_retry_options
   \<and> take 2 (sleeps (snd (retryWithBackoff (\<lambda>i. Inl i :: nat + bool) default_retry_options)))
       = [1000, 2000]
   \<and> sleeps (snd (retryWithBackoff (\<lambda>i. Inl i :: nat + bool) default_retry_options)) = [1000, 2000]"
  using retryWithBackoff_delay_sequence[of 2 "\<lambda>i. Inl i :: nat + bool" default_retry_options 0]
  by (simp add: default_retry_options_def numeral_2_eq_2 retryWithBackoff_def retry_loop.simps
        backoffDelay_def notifyRetry_def)

text \<open>
  Claim C8.  When every one of the \<open>maxRetries\<close> attempts throws, \<open>retryWithBackoff\<close> throws
  exactly the error of the last attempt, after exactly \<open>maxRetries\<close> attempts; when attempt
  \<open>k\<close> is the first to return, \<open>retryWithBackoff\<close> returns its value and attempts
  \<open>0, \<dots>, k\<close> are the only ones made.
\<close>

theorem retryWithBackoff_final_error_or_first_success:
  fixes fn :: "nat \<Rightarrow> 'e + 'a"
  shows
  "(0 < maxRetries opts \<and> (\<forall>i. int i < maxRetries opts \<longrightarrow> fn i = Inl (err i))
      \<longrightarrow> fst (retryWithBackoff fn opts) = Inl (Some (err (nat (maxRetries opts - 1))))
          \<and> attempts (snd (retryWithBackoff fn opts)) = [0..<nat (maxRetries opts)])
   \<and> (int k < maxRetries opts \<and> fn k = Inr v \<and> (\<forall>i<k. isl (fn i))
      \<longrightarrow> fst (retryWithBackoff fn opts) = Inr v
          \<and> attempts (snd (retryWithBackoff fn opts)) = [0..<Suc k])"
proof (intro conjI impI)
  assume h: "0 < maxRetries opts \<and> (\<forall>i. int i < maxRetries opts \<longrightarrow> fn i = Inl (err i))"
  have "fst (retry_loop fn opts 0 None []) = Inl (Some (err (nat (maxRetries opts - 1))))
       \<and> attempts (snd (retry_loop fn opts 0 None [])) = attempts ([]::'e retry_event list) @ [0 ..< nat (maxRetries opts)]
       \<and> sleeps (snd (retry_loop fn opts 0 None []))
           = sleeps ([]::'e retry_event list) @ map (backoffDelay opts) [0 ..< nat (maxRetries opts - 1)]"
    by (rule retry_loop_fail_all) (use h in auto)
  then show "fst (retryWithBackoff fn opts) = Inl (Some (err (nat (maxRetries opts - 1))))"
    and "attempts (snd (retryWithBackoff fn opts)) = [0..<nat (maxRetries opts)]"
    by (simp_all add: retryWithBackoff_def)
next
  assume h: "int k < maxRetries opts \<and> fn k = Inr v \<and> (\<forall>i<k. isl (fn i))"
  have "fst (retry_loop fn opts 0 None []) = Inr v
       \<and> attempts (snd (retry_loop fn opts 0 None [])) = attempts ([]::'e retry_event list) @ [0 ..< Suc k]
       \<and> sleeps (snd (retry_loop fn opts 0 None [])) = sleeps ([]::'e retry_event list) @ map (backoffDelay opts) [0 ..< k]"
    by (rule retry_loop_first_success[where err = "\<lambda>i. projl (fn i)"]) (use h in auto)
  then show "fst (retryWithBackoff fn opts) = Inr v"
    and "attempts (snd (retryWithBackoff fn opts)) = [0..<Suc k]"
    by (simp_all add: retryWithBackoff_def)
qed

theorem retryWithBackoff_final_error_or_first_success_witness:
  "0 < maxRetries default_retry_options
   \<and> fst (retryWithBackoff (\<lambda>i. Inl (''attempt'', i) :: (string \<times> nat) + bool) default_retry_options)
       = Inl (Some (''attempt'', 2))
   \<and> attempts (snd (retryWithBackoff (\<lambda>i. Inl (''attempt'', i) :: (string \<times> nat) + bool)
        default_retry_options)) = [0, 1, 2]
   \<and> fst (retryWithBackoff (\<lambda>i. if i = 1 then Inr True else Inl i) default_retry_options) = Inr True
   \<and> attempts (snd (retryWithBackoff (\<lambda>i. if i = 1 then Inr True else Inl i) default_retry_options))
       = [0, 1]"
  using retryWithBackoff_final_error_or_first_success
          [of default_retry_options "\<lambda>i. Inl (''attempt'', i) :: (string \<times> nat) + bool"
              "\<lambda>i. (''attempt'', i)" 0 True]
        retryWithBackoff_final_error_or_first_success
          [of default_retry_options "\<lambda>i. if i = 1 then Inr True else Inl i" "\<lambda>i. i" 1 True]
  by (simp add: default_retry_options_def upt_rec)


section \<open>Properties of writeAuthorizedKeys\<close>

lemma trim_Nil_iff: "trim s = [] \<longleftrightarrow> (\<forall>c\<in>set s. isWhiteSpace c)"
proof -
  have "trim s = [] \<longleftrightarrow> (\<forall>c\<in>set (dropWhile isWhiteSpace s). isWhiteSpace c)"
    by (simp add: trim_def)
  also have "\<dots> \<longleftrightarrow> dropWhile isWhiteSpace s = []"
  proof
    assume a: "\<forall>c\<in>set (dropWhile isWhiteSpace s). isWhiteSpace c"
    show "dropWhile isWhiteSpace s = []"
    proof (rule ccontr)
      assume n: "dropWhile isWhiteSpace s \<noteq> []"
      then have "\<not> isWhiteSpace (hd (dropWhile isWhiteSpace s))" by (rule hd_dropWhile)
      moreover have "hd (dropWhile isWhiteSpace s) \<in> set (dropWhile isWhiteSpace s)"
        using n by simp
      ultimately show False using a by blast
    qed
  next
    assume e: "dropWhile isWhiteSpace s = []"
    show "\<forall>c\<in>set (dropWhile isWhiteSpace s). isWhiteSpace c"
      unfolding e by simp
  qed
  also have "\<dots> \<longleftrightarrow> (\<forall>c\<in>set s. isWhiteSpace c)"
    by simp
  finally show ?thesis .
qed

lemma splitLines_not_Nil: "splitLines s \<noteq> []"
  by (induction s) (auto split: list.splits)

lemma splitLines_chars: "l \<in> set (splitLines s) \<Longrightarrow> set l \<subseteq> set s"
proof (induction s arbitrary: l)
  case Nil
  then show ?case by simp
next
  case (Cons c cs)
  show ?case
  proof (cases "c = CHR 0x0A")
    case True
    then show ?thesis using Cons by auto
  next
    case False
    obtain x xs where sp: "splitLines cs = x # xs"
      using splitLines_not_Nil[of cs] by (cases "splitLines cs") auto
    then have "l = c # x \<or> l \<in> set xs" using Cons.prems False by simp
    then show ?thesis
    proof
      assume "l = c # x"
      moreover have "set x \<subseteq> set cs" using Cons.IH[of x] sp by simp
      ultimately show ?thesis by auto
    next
      assume "l \<in> set xs"
      then have "set l \<subseteq> set cs" using Cons.IH[of l] sp by simp
      then show ?thesis by auto
    qed
  qed
qed

text \<open>A blob with a key line has a character that is not white space.\<close>

lemma parseKeys_nonempty_trim:
  assumes "parseKeys pk \<noteq> []"
  shows "trim pk \<noteq> []" and "pk \<noteq> []"
proof -
  from assms obtain k where "k \<in> set (parseKeys pk)" by (cases "parseKeys pk") auto
  then obtain l where l: "l \<in> set (splitLines pk)" and k: "trim l \<noteq> []"
    by (auto simp: parseKeys_def)
  from k obtain c where "c \<in> set l" "\<not> isWhiteSpace c" by (auto simp: trim_Nil_iff)
  then have "c \<in> set pk" "\<not> isWhiteSpace c" using splitLines_chars[OF l] by auto
  then show "trim pk \<noteq> []" by (auto simp: trim_Nil_iff)
  then show "pk \<noteq> []" by (auto simp: trim_def)
qed

lemma joinWith_lines: "xs \<noteq> [] \<Longrightarrow> joinWith sep xs @ sep = concat (map (\<lambda>x. x @ sep) xs)"
  by (induction sep xs rule: joinWith.induct) auto

lemma keysContent_lines:
  "keys \<noteq> [] \<Longrightarrow>
     keysContent ts keys = concat (map (\<lambda>k. k @ '' # Added by setup-ssh at '' @ ts @ [CHR 0x0A]) keys)"
  using joinWith_lines[of "map (\<lambda>k. k @ '' # Added by setup-ssh at '' @ ts) keys" "[CHR 0x0A]"]
  by (simp add: keysContent_def comp_def)

lemma writeAuthorizedKeys_ok:
  assumes "parseKeys pk \<noteq> []"
  shows "fst (writeAuthorizedKeys e (Some pk) w) = Inr ()"
    and "files (snd (writeAuthorizedKeys e (Some pk) w)) (authorized_keys e)
           = Some (keysContent (isoTimestamp e) (parseKeys pk))"
  using parseKeys_nonempty_trim[OF assms] assms
  by (simp_all add: writeAuthorizedKeys_def andThen_def emit_def ensureDir_def throw_def ret_def
      Let_def writeFileSafe_def writeFileSync_def run_cmd_def split: prod.splits sum.splits)

lemma writeAuthorizedKeys_none:
  assumes "parseKeys pk = []"
  shows "fst (writeAuthorizedKeys e (Some pk) w) = Inl (SSHDError ''PIPELINE_SSH_PUBKEY is required'')
       \<or> fst (writeAuthorizedKeys e (Some pk) w)
           = Inl (SSHDError ''No valid SSH keys found in PIPELINE_SSH_PUBKEY'')"
    and "files (snd (writeAuthorizedKeys e (Some pk) w)) = files w"
  using assms
  by (simp_all add: writeAuthorizedKeys_def andThen_def emit_def ensureDir_def throw_def ret_def
      Let_def split: prod.splits sum.splits)

text \<open>
  The code keeps the lines that start with \<open>ssh-\<close>.  On a blob whose key lines all start
  with \<open>ssh-\<close>, these are the key lines.
\<close>

lemma parseKeys_keyLines:
  assumes "\<forall>k \<in> set (keyLines pk). startsWith k ''ssh-''"
  shows "parseKeys pk = keyLines pk"
proof -
  have "startsWith k ''ssh-'' = hasKeyTypePrefix k"
    if "k \<in> set (filter (\<lambda>k. k \<noteq> [] \<and> \<not> startsWith k ''#'') (map trim (splitLines pk)))" for k
  proof
    assume "startsWith k ''ssh-''"
    then show "hasKeyTypePrefix k" by (simp add: hasKeyTypePrefix_def keyTypePrefixes_def)
  next
    assume "hasKeyTypePrefix k"
    then have "k \<in> set (keyLines pk)" using that by (simp add: keyLines_def)
    then show "startsWith k ''ssh-''" using assms by blast
  qed
  then show ?thesis
    unfolding parseKeys_def keyLines_def by (intro filter_cong refl)
qed

text \<open>
  Claim C1, as the code has it, for the blobs whose key lines all have a type \<open>ssh-\<dots>\<close>.
  The key lines of a blob are its lines, trimmed, that are not blank, do not start with
  \<open>#\<close> and start with an SSH key-type prefix.  When there is at least one,
  \<open>writeAuthorizedKeys\<close> returns, and the \<open>authorized_keys\<close> file holds exactly the key
  lines, in order, each followed by the comment \<open># Added by setup-ssh at <timestamp>\<close> and
  a newline.  When there is none, or no blob at all, it throws an \<open>SSHDError\<close> and
  writes no file.  Nothing is said here about a blob with a key line of another type, such
  as \<open>ecdsa-sha2-nistp256\<close>.
\<close>

theorem writeAuthorizedKeys_annotated_keys:
  assumes "\<forall>k \<in> set (keyLines pk). startsWith k ''ssh-''"
  shows
    "(keyLines pk \<noteq> [] \<longrightarrow>
        fst (writeAuthorizedKeys e (Some pk) w) = Inr ()
        \<and> files (snd (writeAuthorizedKeys e (Some pk) w)) (authorized_keys e)
            = Some (concat (map (\<lambda>k. k @ '' # Added by setup-ssh at '' @ isoTimestamp e @ [CHR 0x0A])
                              (keyLines pk))))
     \<and> (keyLines pk = [] \<longrightarrow>
        (fst (writeAuthorizedKeys e (Some pk) w) = Inl (SSHDError ''PIPELINE_SSH_PUBKEY is required'')
         \<or> fst (writeAuthorizedKeys e (Some pk) w)
             = Inl (SSHDError ''No valid SSH keys found in PIPELINE_SSH_PUBKEY''))
        \<and> files (snd (writeAuthorizedKeys e (Some pk) w)) = files w)
     \<and> writeAuthorizedKeys e None w = (Inl (SSHDError ''PIPELINE_SSH_PUBKEY is required''), w)"
proof (intro conjI impI)
  assume "keyLines pk \<noteq> []"
  then have k: "parseKeys pk \<noteq> []" using parseKeys_keyLines[OF assms] by simp
  show "fst (writeAuthorizedKeys e (Some pk) w) = Inr ()"
    by (rule writeAuthorizedKeys_ok(1)[OF k])
  show "files (snd (writeAuthorizedKeys e (Some pk) w)) (authorized_keys e)
            = Some (concat (map (\<lambda>k. k @ '' # Added by setup-ssh at '' @ isoTimestamp e @ [CHR 0x0A])
                              (keyLines pk)))"
    using writeAuthorizedKeys_ok(2)[OF k] keysContent_lines[OF k] parseKeys_keyLines[OF assms]
    by simp
next
  assume "keyLines pk = []"
  then have k: "parseKeys pk = []" using parseKeys_keyLines[OF assms] by simp
  show "fst (writeAuthorizedKeys e (Some pk) w) = Inl (SSHDError ''PIPELINE_SSH_PUBKEY is required'')
         \<or> fst (writeAuthorizedKeys e (Some pk) w)
             = Inl (SSHDError ''No valid SSH keys found in PIPELINE_SSH_PUBKEY'')"
    by (rule writeAuthorizedKeys_none(1)[OF k])
  show "files (snd (writeAuthorizedKeys e (Some pk) w)) = files w"
    by (rule writeAuthorizedKeys_none(2)[OF k])
next
  show "writeAuthorizedKeys e None w = (Inl (SSHDError ''PIPELINE_SSH_PUBKEY is required''), w)"
    by (simp add: writeAuthorizedKeys_def throw_def)
qed

lemma demo_keyLines:
  "keyLines (''# deploy keys'' @ [CHR 0x0A] @ ''  ssh-rsa AAAA ci@host '' @ [CHR 0x0A, CHR 0x0A]
              @ ''not a key'' @ [CHR 0x0A] @ ''ssh-ed25519 CCCC'')
     = [''ssh-rsa AAAA ci@host'', ''ssh-ed25519 CCCC'']"
  "keyLines (''# only a comment'' @ [CHR 0x0A]) = []"
  by (simp_all add: keyLines_def hasKeyTypePrefix_def keyTypePrefixes_def trim_def isWhiteSpace_def
      startsWith_def)

text \<open>
  A blob with a comment, a blank line, a line that is no key and two keys of a type
  \<open>ssh-\<dots>\<close>: the file holds the two keys, annotated.  A blob that is only a comment is
  rejected and no file is written.
\<close>

theorem writeAuthorizedKeys_annotated_keys_witness:
  "files (snd (writeAuthorizedKeys demo_env
       (Some (''# deploy keys'' @ [CHR 0x0A] @ ''  ssh-rsa AAAA ci@host '' @ [CHR 0x0A, CHR 0x0A]
              @ ''not a key'' @ [CHR 0x0A] @ ''ssh-ed25519 CCCC''))
       demo_world)) ''/home/ci/.ssh/authorized_keys''
     = Some (''ssh-rsa AAAA ci@host # Added by setup-ssh at 2024-01-28T00:00:00.000Z'' @ [CHR 0x0A]
             @ ''ssh-ed25519 CCCC # Added by setup-ssh at 2024-01-28T00:00:00.000Z'' @ [CHR 0x0A])
   \<and> fst (writeAuthorizedKeys demo_env (Some (''# only a comment'' @ [CHR 0x0A])) demo_world)
       = Inl (SSHDError ''No valid SSH keys found in PIPELINE_SSH_PUBKEY'')
   \<and> files (snd (writeAuthorizedKeys demo_env (Some (''# only a comment'' @ [CHR 0x0A])) demo_world))
       ''/home/ci/.ssh/authorized_keys'' = None"
proof -
  have k0: "parseKeys (''# only a comment'' @ [CHR 0x0A]) = []"
    by (simp add: parseKeys_def trim_def isWhiteSpace_def startsWith_def)
  have t0: "trim (''# only a comment'' @ [CHR 0x0A]) \<noteq> []"
    by (simp add: trim_def isWhiteSpace_def)
  have e0: "fst (writeAuthorizedKeys demo_env (Some (''# only a comment'' @ [CHR 0x0A])) demo_world)
              \<noteq> Inl (SSHDError ''PIPELINE_SSH_PUBKEY is required'')"
    using t0 k0
    by (simp add: writeAuthorizedKeys_def andThen_def emit_def ensureDir_def throw_def Let_def
        del: append.simps split: prod.splits)
  have h1: "\<forall>k \<in> set (keyLines (''# deploy keys'' @ [CHR 0x0A] @ ''  ssh-rsa AAAA ci@host ''
              @ [CHR 0x0A, CHR 0x0A] @ ''not a key'' @ [CHR 0x0A] @ ''ssh-ed25519 CCCC'')).
              startsWith k ''ssh-''"
    unfolding demo_keyLines by (simp add: startsWith_def)
  have h2: "\<forall>k \<in> set (keyLines (''# only a comment'' @ [CHR 0x0A])). startsWith k ''ssh-''"
    unfolding demo_keyLines by simp
  show ?thesis
    using writeAuthorizedKeys_annotated_keys[OF h1, of demo_env demo_world]
          writeAuthorizedKeys_annotated_keys[OF h2, of demo_env demo_world]
          demo_keyLines e0
    by (simp add: authorized_keys_def pathJoin_def demo_env_def demo_world_def del: append.simps)
       (simp add: demo_env_def)
qed

text \<open>
  The claim as stated fails twice.  The file written for the blob \<open>ssh-rsa AAAA\<close> holds the
  key line followed by a timestamp comment, not the key line itself; and a blob without
  key lines is rejected with an \<open>SSHDError\<close>, not a configuration error.
\<close>

theorem writeAuthorizedKeys_counterexample:
  "parseKeys ''ssh-rsa AAAA'' = [''ssh-rsa AAAA'']
   \<and> files (snd (writeAuthorizedKeys demo_env (Some ''ssh-rsa AAAA'') demo_world))
        ''/home/ci/.ssh/authorized_keys''
       = Some (''ssh-rsa AAAA # Added by setup-ssh at 2024-01-28T00:00:00.000Z'' @ [CHR 0x0A])
   \<and> files (snd (writeAuthorizedKeys demo_env (Some ''ssh-rsa AAAA'') demo_world))
        ''/home/ci/.ssh/authorized_keys''
       \<noteq> Some (''ssh-rsa AAAA'' @ [CHR 0x0A])
   \<and> fst (writeAuthorizedKeys demo_env (Some ''# no keys here'') demo_world)
       = Inl (SSHDError ''No valid SSH keys found in PIPELINE_SSH_PUBKEY'')"
  by (simp add: writeAuthorizedKeys_def parseKeys_def trim_def isWhiteSpace_def startsWith_def
      andThen_def emit_def ensureDir_def throw_def ret_def Let_def writeFileSafe_def
      writeFileSync_def run_cmd_def keysContent_def authorized_keys_def ssh_dir_def pathJoin_def
      dirname_def demo_env_def demo_world_def isLinux_def quoted_def)


section \<open>Properties of the log probe\<close>

declare probe_loop.simps [simp del]

lemma pollTime_shift: "pollTime e (pollTime e t 1) k = pollTime e t (Suc k)"
  by (induction k) simp_all

lemma clock_sleep: "clock (sleep e 250 w) = pollTime e (clock w) 1"
  by (simp add: sleep_def)

lemma clock_sleep_events: "clock (sleep e 250 (w\<lparr>events := evs\<rparr>)) = pollTime e (clock w) 1"
  by (simp add: sleep_def)

lemma pollTime_mono: "pollTime e t k \<le> pollTime e t (k + j)"
  by (induction j) simp_all

text \<open>One turn of the loop in which the pattern finds nothing.\<close>

lemma probe_loop_step:
  assumes "clock w - start < timeoutMs" and "matchAt e lf pat (clock w) = None"
  shows "\<exists>w'. probe_loop e lf pat timeoutMs start w = probe_loop e lf pat timeoutMs start w'
            \<and> clock w' = pollTime e (clock w) 1"
proof (cases "logAt e lf (clock w)")
  case Missing
  then show ?thesis
    using assms by (subst probe_loop.simps) (auto simp: clock_sleep simp del: pollTime.simps)
next
  case (Unreadable msg)
  then show ?thesis
    using assms by (subst probe_loop.simps) (auto simp: clock_sleep_events simp del: pollTime.simps)
next
  case (Content c)
  then have "pat c = None" using assms(2) by (simp add: matchAt_def)
  then show ?thesis
    using assms Content by (subst probe_loop.simps) (auto simp: clock_sleep simp del: pollTime.simps)
qed

lemma probe_loop_found:
  assumes "pollTime e (clock w) k - start < timeoutMs"
    and "matchAt e lf pat (pollTime e (clock w) k) = Some m"
    and "\<And>j. j < k \<Longrightarrow> matchAt e lf pat (pollTime e (clock w) j) = None"
  shows "fst (probe_loop e lf pat timeoutMs start w) = Some m
       \<and> clock (snd (probe_loop e lf pat timeoutMs start w)) = pollTime e (clock w) k"
  using assms
proof (induction k arbitrary: w)
  case 0
  then obtain c where "logAt e lf (clock w) = Content c" "pat c = Some m"
    by (auto simp: matchAt_def split: log_view.splits)
  then show ?case using 0 by (subst (1 2) probe_loop.simps) simp
next
  case (Suc k)
  have lt: "clock w - start < timeoutMs"
    using Suc.prems(1) pollTime_mono[of e "clock w" 0 "Suc k"] by simp
  have none: "matchAt e lf pat (clock w) = None" using Suc.prems(3)[of 0] by simp
  obtain w' where w': "probe_loop e lf pat timeoutMs start w = probe_loop e lf pat timeoutMs start w'"
    "clock w' = pollTime e (clock w) 1"
    using probe_loop_step[OF lt none] by blast
  have "fst (probe_loop e lf pat timeoutMs start w') = Some m
       \<and> clock (snd (probe_loop e lf pat timeoutMs start w')) = pollTime e (clock w') k"
  proof (rule Suc.IH)
    show "pollTime e (clock w') k - start < timeoutMs"
      using Suc.prems(1) unfolding w'(2) pollTime_shift .
    show "matchAt e lf pat (pollTime e (clock w') k) = Some m"
      using Suc.prems(2) unfolding w'(2) pollTime_shift .
    show "matchAt e lf pat (pollTime e (clock w') j) = None" if "j < k" for j
      using Suc.prems(3)[of "Suc j"] that unfolding w'(2) pollTime_shift by simp
  qed
  then show ?case unfolding w'(1) w'(2) pollTime_shift .
qed

lemma probe_loop_never:
  assumes "\<And>k. pollTime e (clock w) k - start < timeoutMs
             \<Longrightarrow> matchAt e lf pat (pollTime e (clock w) k) = None"
  shows "fst (probe_loop e lf pat timeoutMs start w) = None
       \<and> start + timeoutMs \<le> clock (snd (probe_loop e lf pat timeoutMs start w))"
  using assms
proof (induction "nat (start + timeoutMs - clock w)" arbitrary: w rule: less_induct)
  case less
  show ?case
  proof (cases "clock w - start < timeoutMs")
    case False
    then show ?thesis by (subst (1 2) probe_loop.simps) simp
  next
    case True
    have none: "matchAt e lf pat (clock w) = None" using less.prems[of 0] True by simp
    obtain w' where w': "probe_loop e lf pat timeoutMs start w = probe_loop e lf pat timeoutMs start w'"
      "clock w' = pollTime e (clock w) 1"
      using probe_loop_step[OF True none] by blast
    have "fst (probe_loop e lf pat timeoutMs start w') = None
       \<and> start + timeoutMs \<le> clock (snd (probe_loop e lf pat timeoutMs start w'))"
    proof (rule less.hyps)
      show "nat (start + timeoutMs - clock w') < nat (start + timeoutMs - clock w)"
        using True unfolding w'(2) by simp
      show "matchAt e lf pat (pollTime e (clock w') k) = None"
        if "pollTime e (clock w') k - start < timeoutMs" for k
        using less.prems[of "Suc k"] that unfolding w'(2) pollTime_shift by simp
    qed
    then show ?thesis unfolding w'(1) .
  qed
qed

lemma parseEndpointFromLog_found:
  assumes "t_logFile t = Some lf" and "lf \<noteq> []"
    and "pollTime e (clock w) k - clock w < timeoutMs"
    and "matchAt e lf pat (pollTime e (clock w) k) = Some m"
    and "\<And>j. j < k \<Longrightarrow> matchAt e lf pat (pollTime e (clock w) j) = None"
  shows "fst (parseEndpointFromLog e t pat timeoutMs w) = Inr (Some m)"
    and "clock (snd (parseEndpointFromLog e t pat timeoutMs w)) = pollTime e (clock w) k"
  using probe_loop_found[of e w k "clock w" timeoutMs lf pat m] assms
  by (simp_all add: parseEndpointFromLog_def case_prod_beta)

lemma parseEndpointFromLog_never:
  assumes "t_logFile t = Some lf" and "lf \<noteq> []"
    and "\<And>k. pollTime e (clock w) k - clock w < timeoutMs
             \<Longrightarrow> matchAt e lf pat (pollTime e (clock w) k) = None"
  shows "fst (parseEndpointFromLog e t pat timeoutMs w) = Inr None"
    and "clock w + timeoutMs \<le> clock (snd (parseEndpointFromLog e t pat timeoutMs w))"
  using probe_loop_never[of e w "clock w" timeoutMs lf pat] assms
  by (simp_all add: parseEndpointFromLog_def case_prod_beta)

text \<open>
  Claim C6, as the code has it.  The probe tests the log at the times \<open>pollTime e t0 0\<close>, \<open>pollTime e t0 1\<close>, \<dots>,
  each at least 250 ms after the one before, as long as less than \<open>timeoutMs\<close> has passed
  since its start \<open>t0\<close>; at each of them it reads the whole file again, and a file that is
  missing or cannot be read counts as no match.  If a test made before the timeout finds
  a match, the probe returns the matched substring of the first such test, at the time
  of that test; if none does, it returns \<^verbatim>\<open>null\<close>, not before the timeout has passed.
\<close>

theorem parseEndpointFromLog_first_match_or_null:
  assumes "t_logFile t = Some lf" and "lf \<noteq> []"
  shows
    "(pollTime e (clock w) k - clock w < timeoutMs
        \<and> matchAt e lf pattern (pollTime e (clock w) k) = Some m
        \<and> (\<forall>j<k. matchAt e lf pattern (pollTime e (clock w) j) = None)
      \<longrightarrow> fst (parseEndpointFromLog e t pattern timeoutMs w) = Inr (Some m)
          \<and> clock (snd (parseEndpointFromLog e t pattern timeoutMs w)) = pollTime e (clock w) k)
     \<and> ((\<forall>k. pollTime e (clock w) k - clock w < timeoutMs
               \<longrightarrow> matchAt e lf pattern (pollTime e (clock w) k) = None)
      \<longrightarrow> fst (parseEndpointFromLog e t pattern timeoutMs w) = Inr None
          \<and> clock w + timeoutMs \<le> clock (snd (parseEndpointFromLog e t pattern timeoutMs w)))
     \<and> (logAt e lf (pollTime e (clock w) k) = Missing
      \<longrightarrow> matchAt e lf pattern (pollTime e (clock w) k) = None)
     \<and> (logAt e lf (pollTime e (clock w) k) = Content content
      \<longrightarrow> matchAt e lf pattern (pollTime e (clock w) k) = pattern content)"
proof (intro conjI impI)
  assume h: "pollTime e (clock w) k - clock w < timeoutMs
        \<and> matchAt e lf pattern (pollTime e (clock w) k) = Some m
        \<and> (\<forall>j<k. matchAt e lf pattern (pollTime e (clock w) j) = None)"
  show "fst (parseEndpointFromLog e t pattern timeoutMs w) = Inr (Some m)"
    by (rule parseEndpointFromLog_found(1)[OF assms, of e w k]) (use h in auto)
  show "clock (snd (parseEndpointFromLog e t pattern timeoutMs w)) = pollTime e (clock w) k"
    by (rule parseEndpointFromLog_found(2)[OF assms, of e w k _ _ m]) (use h in auto)
next
  assume h: "\<forall>k. pollTime e (clock w) k - clock w < timeoutMs
               \<longrightarrow> matchAt e lf pattern (pollTime e (clock w) k) = None"
  show "fst (parseEndpointFromLog e t pattern timeoutMs w) = Inr None"
    by (rule parseEndpointFromLog_never(1)[OF assms]) (use h in auto)
  show "clock w + timeoutMs \<le> clock (snd (parseEndpointFromLog e t pattern timeoutMs w))"
    by (rule parseEndpointFromLog_never(2)[OF assms]) (use h in auto)
next
  assume "logAt e lf (pollTime e (clock w) k) = Missing"
  then show "matchAt e lf pattern (pollTime e (clock w) k) = None"
    by (simp add: matchAt_def)
next
  assume "logAt e lf (pollTime e (clock w) k) = Content content"
  then show "matchAt e lf pattern (pollTime e (clock w) k) = pattern content"
    by (simp add: matchAt_def)
qed

text \<open>
  With the log that appears after 600 ms, the tests at 0, 250 and 500 ms find no file and
  the test at 750 ms returns the endpoint.  With a log that never appears the probe
  returns \<^verbatim>\<open>null\<close>, once the second of timeout is over.
\<close>

theorem parseEndpointFromLog_first_match_or_null_witness:
  "fst (parseEndpointFromLog late_log_env pinggy_probing pinggyPattern 10000 demo_world)
     = Inr (Some ''tcp://abc.a.free.pinggy.link:40001'')
   \<and> clock (snd (parseEndpointFromLog late_log_env pinggy_probing pinggyPattern 10000 demo_world)) = 750
   \<and> fst (parseEndpointFromLog demo_env pinggy_probing pinggyPattern 1000 demo_world) = Inr None
   \<and> 1000 \<le> clock (snd (parseEndpointFromLog demo_env pinggy_probing pinggyPattern 1000 demo_world))"
proof -
  have lf: "t_logFile pinggy_probing = Some ''/home/ci/.ssh/pinggy.log''"
    "''/home/ci/.ssh/pinggy.log'' \<noteq> []"
    by (simp_all add: pinggy_probing_def newTunnel_def)
  have p: "pollTime late_log_env 0 (Suc (Suc (Suc 0))) = 750"
    "pollTime late_log_env 0 (Suc (Suc 0)) = 500" "pollTime late_log_env 0 (Suc 0) = 250"
    by (simp_all add: late_log_env_def demo_env_def)
  have m: "pinggyPattern ''Welcome tcp://abc.a.free.pinggy.link:40001 ok''
             = Some ''tcp://abc.a.free.pinggy.link:40001''"
    by (simp add: pinggyPattern_def tcpUrlHere_def startsWith_def isWhiteSpace_def)
  have early: "\<forall>j<Suc (Suc (Suc 0)).
      matchAt late_log_env ''/home/ci/.ssh/pinggy.log'' pinggyPattern (pollTime late_log_env 0 j) = None"
    using p by (auto simp: less_Suc_eq matchAt_def late_log_env_def demo_env_def)
  have hit: "matchAt late_log_env ''/home/ci/.ssh/pinggy.log'' pinggyPattern 750
               = Some ''tcp://abc.a.free.pinggy.link:40001''"
    using m by (simp add: matchAt_def late_log_env_def demo_env_def)
  have never: "matchAt demo_env ''/home/ci/.ssh/pinggy.log'' pinggyPattern \<tau> = None" for \<tau>
    by (simp add: matchAt_def demo_env_def)
  have c0: "clock demo_world = 0" by (simp add: demo_world_def)
  have found: "fst (parseEndpointFromLog late_log_env pinggy_probing pinggyPattern 10000 demo_world)
        = Inr (Some ''tcp://abc.a.free.pinggy.link:40001'')
      \<and> clock (snd (parseEndpointFromLog late_log_env pinggy_probing pinggyPattern 10000 demo_world))
        = pollTime late_log_env (clock demo_world) (Suc (Suc (Suc 0)))"
    by (rule parseEndpointFromLog_first_match_or_null
               [OF lf, of late_log_env demo_world "Suc (Suc (Suc 0))" 10000 pinggyPattern
                  "''tcp://abc.a.free.pinggy.link:40001''", THEN conjunct1, THEN mp])
       (use early hit in \<open>simp add: c0 p del: pollTime.simps\<close>)
  have null: "fst (parseEndpointFromLog demo_env pinggy_probing pinggyPattern 1000 demo_world) = Inr None
      \<and> clock demo_world + 1000
          \<le> clock (snd (parseEndpointFromLog demo_env pinggy_probing pinggyPattern 1000 demo_world))"
    by (rule parseEndpointFromLog_first_match_or_null
               [OF lf, of demo_env demo_world 0 1000 pinggyPattern, THEN conjunct2, THEN conjunct1,
                THEN mp])
       (simp add: never)
  show ?thesis
    using found null by (simp add: c0 p del: pollTime.simps)
qed

lemma pollTime_late_log_env: "pollTime late_log_env 0 k = 250 * int k"
  by (induction k) (simp_all add: late_log_env_def demo_env_def)

text \<open>
  The claim as stated fails.  The log gets its matching line 600 ms after the start and
  the timeout is 700 ms: the match appears before the timeout.  The probe reads the log
  at 0, 250 and 500 ms, sleeps until 750 ms, finds the timeout passed and returns
  \<^verbatim>\<open>null\<close> without reading the log again.
\<close>

theorem parseEndpointFromLog_counterexample:
  "logAt late_log_env ''/home/ci/.ssh/pinggy.log'' 600
     = Content ''Welcome tcp://abc.a.free.pinggy.link:40001 ok''
   \<and> pinggyPattern ''Welcome tcp://abc.a.free.pinggy.link:40001 ok''
       = Some ''tcp://abc.a.free.pinggy.link:40001''
   \<and> fst (parseEndpointFromLog late_log_env pinggy_probing pinggyPattern 700 demo_world) = Inr None
   \<and> clock (snd (parseEndpointFromLog late_log_env pinggy_probing pinggyPattern 700 demo_world)) = 750"
proof -
  have lf: "t_logFile pinggy_probing = Some ''/home/ci/.ssh/pinggy.log''"
    "''/home/ci/.ssh/pinggy.log'' \<noteq> []"
    by (simp_all add: pinggy_probing_def newTunnel_def)
  have c0: "clock demo_world = 0" by (simp add: demo_world_def)
  have early: "matchAt late_log_env ''/home/ci/.ssh/pinggy.log'' pinggyPattern
                 (pollTime late_log_env (clock demo_world) k) = None"
    if "pollTime late_log_env (clock demo_world) k - clock demo_world < 700" for k
  proof -
    have "250 * int k < 700" using that by (simp add: c0 pollTime_late_log_env)
    then have "250 * int k < 600" by presburger
    then have "logAt late_log_env ''/home/ci/.ssh/pinggy.log'' (250 * int k) = Missing"
      by (simp add: late_log_env_def)
    then show ?thesis
      by (simp add: c0 pollTime_late_log_env matchAt_def)
  qed
  have a: "logAt late_log_env ''/home/ci/.ssh/pinggy.log'' 600
     = Content ''Welcome tcp://abc.a.free.pinggy.link:40001 ok''"
    by (simp add: late_log_env_def)
  have b: "pinggyPattern ''Welcome tcp://abc.a.free.pinggy.link:40001 ok''
       = Some ''tcp://abc.a.free.pinggy.link:40001''"
    by (simp add: pinggyPattern_def tcpUrlHere_def startsWith_def isWhiteSpace_def)
  have c: "fst (parseEndpointFromLog late_log_env pinggy_probing pinggyPattern 700 demo_world)
             = Inr None"
    by (rule parseEndpointFromLog_never(1)[OF lf]) (rule early)
  have d: "clock (snd (parseEndpointFromLog late_log_env pinggy_probing pinggyPattern 700 demo_world))
             = 750"
    by (simp add: parseEndpointFromLog_def lf pinggy_probing_def newTunnel_def probe_loop.simps
        demo_world_def late_log_env_def demo_env_def sleep_def tlog_def case_prod_beta)
  show ?thesis using a b c d by simp
qed

text \<open>
  Claim C10.  While no log file is configured on the instance, \<open>parseEndpointFromLog\<close>
  throws a \<open>TunnelError\<close> named after the tunnel, whatever the pattern and the timeout, and
  does nothing else.
\<close>

theorem parseEndpointFromLog_without_logFile:
  "t_logFile t = None \<Longrightarrow>
     parseEndpointFromLog e t pattern timeoutMs w
       = (Inl (TunnelError (t_name t) ''No log file configured''), w)"
  by (simp add: parseEndpointFromLog_def)

theorem parseEndpointFromLog_without_logFile_witness:
  "t_logFile (newTunnel ''Pinggy'') = None
   \<and> parseEndpointFromLog demo_env (newTunnel ''Pinggy'') pinggyPattern 10000 demo_world
       = (Inl (TunnelError ''Pinggy'' ''No log file configured''), demo_world)
   \<and> message (TunnelError ''Pinggy'' ''No log file configured'')
       = ''Pinggy tunnel error: No log file configured''"
  using parseEndpointFromLog_without_logFile
          [of "newTunnel ''Pinggy''" demo_env pinggyPattern 10000 demo_world]
  by (simp add: newTunnel_def)


section \<open>Properties of the tunnel plugins\<close>

text \<open>
  Claim C9, as the code has it.  The connect command of Pinggy, of Cloudflare and of the
  base class is \<^verbatim>\<open>null\<close> while the instance has no endpoint.  With an endpoint, the
  command of Pinggy is built from the host and the port of the first \<open>tcp://host:port\<close> in
  it and from the current user (and is \<^verbatim>\<open>null\<close> when there is none), and the command of
  Cloudflare from the endpoint and the current user.  The command of SSH-J does not look
  at the endpoint: with a namespace and a device configured it is
  \<open>ssh -J namespace@host user@device\<close>.
\<close>

theorem getConnectCommand_derivation:
  "(falsy (t_endpoint t) \<longrightarrow>
      pinggy_getConnectCommand e t = None \<and> cloudflare_getConnectCommand e t = None)
   \<and> base_getConnectCommand t = None
   \<and> (t_endpoint t = Some endpoint \<and> endpoint \<noteq> [] \<longrightarrow>
        pinggy_getConnectCommand e t
          = (case firstMatch hostPortHere endpoint of
               None \<Rightarrow> None
             | Some (host, port) \<Rightarrow>
                 Some (''ssh -p '' @ port @ '' '' @ username e @ ''@'' @ host @ '' -i <your-private-key>''))
        \<and> cloudflare_getConnectCommand e t
          = Some (''ssh -o ProxyCommand='' @ [CHR 0x22] @ ''cloudflared access tcp --hostname ''
                    @ endpoint @ [CHR 0x22] @ '' '' @ username e @ ''@'' @ endpoint))
   \<and> (sj_namespace (cfg_sshj cfg) = Some namespace \<and> sj_device (cfg_sshj cfg) = Some device
        \<and> namespace \<noteq> [] \<and> device \<noteq> [] \<longrightarrow>
        sshj_getConnectCommand e cfg t
          = Some (''ssh -J '' @ namespace @ ''@'' @ sj_host (cfg_sshj cfg) @ '' '' @ username e
                    @ ''@'' @ device))"
  by (auto simp: falsy_def pinggy_getConnectCommand_def cloudflare_getConnectCommand_def
      base_getConnectCommand_def sshj_getConnectCommand_def quoted_def Let_def
      split: option.splits)

theorem getConnectCommand_derivation_witness:
  "pinggy_getConnectCommand demo_env (newTunnel ''Pinggy'') = None
   \<and> cloudflare_getConnectCommand demo_env (newTunnel ''Cloudflare'') = None
   \<and> pinggy_getConnectCommand demo_env
        ((newTunnel ''Pinggy'')\<lparr>t_endpoint := Some ''tcp://abc.a.free.pinggy.link:40001''\<rparr>)
       = Some ''ssh -p 40001 ci@abc.a.free.pinggy.link -i <your-private-key>''
   \<and> sshj_getConnectCommand demo_env sshj_demo_config (newTunnel ''SSH-J'')
       = Some ''ssh -J ns@ssh-j.com ci@device''"
proof -
  have hp: "firstMatch hostPortHere ''tcp://abc.a.free.pinggy.link:40001''
              = Some (''abc.a.free.pinggy.link'', ''40001'')"
    by (simp add: hostPortHere_def startsWith_def isDigit_def)
  show ?thesis
    using getConnectCommand_derivation
            [of "newTunnel ''Pinggy''" demo_env "[]" sshj_demo_config "''ns''" "''device''"]
          getConnectCommand_derivation
            [of "newTunnel ''Cloudflare''" demo_env "[]" sshj_demo_config "''ns''" "''device''"]
          getConnectCommand_derivation
            [of "(newTunnel ''Pinggy'')\<lparr>t_endpoint := Some ''tcp://abc.a.free.pinggy.link:40001''\<rparr>"
                demo_env "''tcp://abc.a.free.pinggy.link:40001''" sshj_demo_config "''ns''" "''device''"]
          getConnectCommand_derivation
            [of "newTunnel ''SSH-J''" demo_env "[]" sshj_demo_config "''ns''" "''device''"]
          hp
    by (simp add: newTunnel_def falsy_def sshj_demo_config_def demo_config_def demo_env_def)
qed

text \<open>
  The claim as stated fails for SSH-J: after \<open>start\<close> the instance has no endpoint, as
  before it, and \<open>getConnectCommand\<close> returns a command all the same.
\<close>

theorem getConnectCommand_counterexample:
  "t_endpoint (snd (fst (sshj_start demo_env sshj_demo_config ''2222'' ''/home/ci/.ssh''
                           (newTunnel ''SSH-J'') demo_world))) = None
   \<and> sshj_getConnectCommand demo_env sshj_demo_config
        (snd (fst (sshj_start demo_env sshj_demo_config ''2222'' ''/home/ci/.ssh''
                     (newTunnel ''SSH-J'') demo_world)))
       = Some ''ssh -J ns@ssh-j.com ci@device''"
  by (simp add: sshj_start_def sshj_getConnectCommand_def sshj_demo_config_def demo_config_def
      demo_env_def newTunnel_def Let_def spawnDetached_def split: prod.splits)


section \<open>Properties of a start that finds no endpoint\<close>

lemma clock_say [simp]: "clock (say l m w) = clock w"
  by (simp add: say_def)

lemma clock_tlog [simp]: "clock (tlog l t m w) = clock w"
  by (simp add: tlog_def)

lemma clock_spawnDetached [simp]: "clock (snd (spawnDetached e c a lf w)) = clock w"
  by (simp add: spawnDetached_def Let_def ensureDir_def)

lemma clock_writeFileSync [simp]: "clock (snd (writeFileSync p c w)) = clock w"
  by (simp add: writeFileSync_def)

lemma clock_ensureDir [simp]: "clock (snd (ensureDir p w)) = clock w"
  by (simp add: ensureDir_def)

lemma clock_writeFileSafe [simp]: "clock (snd (writeFileSafe p c w)) = clock w"
  by (simp add: writeFileSafe_def andThen_def ensureDir_def writeFileSync_def emit_def)

lemma clock_setPipelineVar [simp]: "clock (setPipelineVar n v w) = clock w"
  by (simp add: setPipelineVar_def)

lemma events_tlog: "events (tlog l t m w) = events w @ [Log l (''['' @ t_name t @ ''] '' @ m)]"
  by (simp add: tlog_def)

lemma pathJoin_not_Nil [simp]: "pathJoin d f \<noteq> []"
  by (simp add: pathJoin_def)

text \<open>
  In the background, \<open>pinggy_start\<close> probes the log of the instance from a world whose
  clock is still the one it started with.
\<close>

lemma pinggy_start_background:
  assumes "\<not> pg_foreground (cfg_pinggy cfg)"
  shows "\<exists>pid t2 w7.
           pinggy_start e cfg sshPort logDir t w
             = pinggy_finish (pathJoin logDir ''pinggy.log'') pid t2
                 (parseEndpointFromLog e t2 pinggyPattern (to_tunnelStartup (cfg_timeouts cfg)) w7)
           \<and> clock w7 = clock w
           \<and> t_logFile t2 = Some (pathJoin logDir ''pinggy.log'')
           \<and> t_name t2 = t_name t"
  unfolding pinggy_start_def pinggy_finish_def Let_def
  apply (simp only: assms if_False case_prod_beta)
  apply (intro exI conjI)
     apply (rule refl)
    apply simp_all
  done

lemma pinggy_start_no_endpoint:
  assumes bg: "\<not> pg_foreground (cfg_pinggy cfg)"
    and never: "\<And>k. pollTime e (clock w) k - clock w < to_tunnelStartup (cfg_timeouts cfg)
       \<Longrightarrow> matchAt e (pathJoin logDir ''pinggy.log'') pinggyPattern (pollTime e (clock w) k) = None"
  shows "\<exists>r. fst (fst (pinggy_start e cfg sshPort logDir t w)) = Inr r
            \<and> sr_started r \<and> \<not> sr_foreground r \<and> sr_endpoint r = None"
    and "t_endpoint (snd (fst (pinggy_start e cfg sshPort logDir t w))) = None"
    and "last (events (snd (pinggy_start e cfg sshPort logDir t w)))
           = Log Warn (''['' @ t_name t
                         @ ''] Endpoint not detected yet. Check pinggy.log for the tcp:// URL'')"
proof -
  obtain pid t2 w7 where st: "pinggy_start e cfg sshPort logDir t w
             = pinggy_finish (pathJoin logDir ''pinggy.log'') pid t2
                 (parseEndpointFromLog e t2 pinggyPattern (to_tunnelStartup (cfg_timeouts cfg)) w7)"
    and c7: "clock w7 = clock w"
    and lf: "t_logFile t2 = Some (pathJoin logDir ''pinggy.log'')"
    and nm: "t_name t2 = t_name t"
    using pinggy_start_background[OF bg] by blast
  have "fst (parseEndpointFromLog e t2 pinggyPattern (to_tunnelStartup (cfg_timeouts cfg)) w7) = Inr None"
    by (rule parseEndpointFromLog_never(1)[OF lf]) (use never in \<open>simp_all add: c7\<close>)
  then obtain w8 where pr: "parseEndpointFromLog e t2 pinggyPattern (to_tunnelStartup (cfg_timeouts cfg)) w7
      = (Inr None, w8)"
    by (cases "parseEndpointFromLog e t2 pinggyPattern (to_tunnelStartup (cfg_timeouts cfg)) w7") auto
  show "\<exists>r. fst (fst (pinggy_start e cfg sshPort logDir t w)) = Inr r
            \<and> sr_started r \<and> \<not> sr_foreground r \<and> sr_endpoint r = None"
    by (simp add: st pr pinggy_finish_def Let_def)
  show "t_endpoint (snd (fst (pinggy_start e cfg sshPort logDir t w))) = None"
    by (simp add: st pr pinggy_finish_def Let_def)
  show "last (events (snd (pinggy_start e cfg sshPort logDir t w)))
           = Log Warn (''['' @ t_name t
                         @ ''] Endpoint not detected yet. Check pinggy.log for the tcp:// URL'')"
    by (simp add: st pr pinggy_finish_def Let_def events_tlog nm)
qed

lemma cloudflare_discover_no_endpoint:
  assumes lf: "t_logFile t = Some lf" "lf \<noteq> []"
    and never: "\<And>k. pollTime e (clock w) k - clock w < to_cfEndpoint (cfg_timeouts cfg)
       \<Longrightarrow> matchAt e lf cloudflarePattern (pollTime e (clock w) k) = None"
  shows "\<exists>r. fst (fst (cloudflare_discover e cfg logFile tunnelId pid t w)) = Inr r
            \<and> sr_started r \<and> \<not> sr_foreground r \<and> sr_endpoint r = None"
    and "last (events (snd (cloudflare_discover e cfg logFile tunnelId pid t w)))
           = Log Warn (''['' @ t_name t @ ''] Endpoint not detected yet. Check cloudflared.log'')"
proof -
  have "fst (parseEndpointFromLog e t cloudflarePattern (to_cfEndpoint (cfg_timeouts cfg)) w) = Inr None"
    by (rule parseEndpointFromLog_never(1)[OF lf]) (use never in simp_all)
  then obtain w1 where pr: "parseEndpointFromLog e t cloudflarePattern (to_cfEndpoint (cfg_timeouts cfg)) w
      = (Inr None, w1)"
    by (cases "parseEndpointFromLog e t cloudflarePattern (to_cfEndpoint (cfg_timeouts cfg)) w") auto
  show "\<exists>r. fst (fst (cloudflare_discover e cfg logFile tunnelId pid t w)) = Inr r
            \<and> sr_started r \<and> \<not> sr_foreground r \<and> sr_endpoint r = None"
    by (simp add: cloudflare_discover_def pr Let_def)
  show "last (events (snd (cloudflare_discover e cfg logFile tunnelId pid t w)))
           = Log Warn (''['' @ t_name t @ ''] Endpoint not detected yet. Check cloudflared.log'')"
    by (simp add: cloudflare_discover_def pr Let_def events_tlog)
qed

lemma cloudflare_launch_background:
  assumes "cf_apiKey (cfg_cloudflare cfg) = Some apiKey" and "\<not> cf_foreground (cfg_cloudflare cfg)"
  shows "\<exists>pid t1 w8.
           cloudflare_launch e cfg sshPort logDir tunnelId t w
             = cloudflare_discover e cfg (pathJoin logDir ''cloudflared.log'') tunnelId pid t1 w8
           \<and> clock w8 = clock w \<and> t_logFile t1 = t_logFile t \<and> t_name t1 = t_name t"
  unfolding cloudflare_launch_def Let_def
  apply (simp only: assms if_False case_prod_beta option.case)
  apply (intro exI conjI)
     apply (rule refl)
    apply simp_all
  done

lemma cloudflare_start_installed:
  assumes ex: "commandExists e ''cloudflared''"
    and key: "cf_apiKey (cfg_cloudflare cfg) = Some apiKey"
    and found: "cfExistingTunnel e (orElse (cf_tunnelName (cfg_cloudflare cfg)) (cfDefaultTunnelName e))
           = Some tunnelId"
    and tid: "tunnelId \<noteq> []"
  shows "\<exists>t1 w4.
           cloudflare_start e cfg sshPort logDir t w = cloudflare_launch e cfg sshPort logDir tunnelId t1 w4
           \<and> clock w4 = clock w
           \<and> t_logFile t1 = Some (pathJoin logDir ''cloudflared.log'')
           \<and> t_name t1 = t_name t"
proof -
  define tunnelName where
    "tunnelName = orElse (cf_tunnelName (cfg_cloudflare cfg)) (cfDefaultTunnelName e)"
  define t1 where "t1 = t\<lparr>t_logFile := Some (pathJoin logDir ''cloudflared.log'')\<rparr>"
  define w2 where "w2 = snd (ensureDir (pathJoin (homedir e) ''.cloudflared'')
                               (tlog Info t ''cloudflared already installed'' w))"
  define certPath where "certPath = pathJoin (pathJoin (homedir e) ''.cloudflared'') ''cert.pem''"
  have inst: "cloudflare_install e cfg t w = (Inr True, tlog Info t ''cloudflared already installed'' w)"
    by (simp add: cloudflare_install_def ex)
  have getid: "cloudflare_tunnelId e t1 tunnelName v
                 = (Inr tunnelId, tlog Info t1 (''Checking tunnel: '' @ tunnelName) v)" for v
    using found tid by (simp add: cloudflare_tunnelId_def Let_def falsy_def orElse_def tunnelName_def)
  have c2: "clock w2 = clock w" by (simp add: w2_def)
  show ?thesis
  proof (cases "files w2 certPath = None")
    case True
    have "cloudflare_start e cfg sshPort logDir t w
            = cloudflare_launch e cfg sshPort logDir tunnelId t1
                (tlog Info t1 (''Checking tunnel: '' @ tunnelName)
                   (snd (writeFileSync certPath apiKey (tlog Info t1 ''Setting up authentication...'' w2))))"
      using True
      by (simp add: cloudflare_start_def inst Let_def key getid writeFileSync_def
          tunnelName_def[symmetric] t1_def[symmetric] w2_def[symmetric] certPath_def[symmetric])
    then show ?thesis
      by (intro exI conjI, assumption) (simp_all add: c2 t1_def)
  next
    case False
    then obtain cert where "files w2 certPath = Some cert" by auto
    then have "cloudflare_start e cfg sshPort logDir t w
            = cloudflare_launch e cfg sshPort logDir tunnelId t1
                (tlog Info t1 (''Checking tunnel: '' @ tunnelName) w2)"
      by (simp add: cloudflare_start_def inst Let_def key getid
          tunnelName_def[symmetric] t1_def[symmetric] w2_def[symmetric] certPath_def[symmetric])
    then show ?thesis
      by (intro exI conjI, assumption) (simp_all add: c2 t1_def)
  qed
qed

text \<open>
  Claim C5.  A Pinggy tunnel started in the background whose log shows no \<open>tcp://\<close> URL at
  any test made within \<open>timeouts.tunnelStartup\<close> still returns
  \<open>{started: true, foreground: false, endpoint: null}\<close>, and the last thing it does is to log
  the warning.  So does a Cloudflare tunnel whose log shows no \<open>cfargotunnel.com\<close> URL at
  any test made within \<open>timeouts.cfEndpoint\<close>: from the probe on in every case, and for
  the whole of \<open>start\<close> where \<open>cloudflared\<close> is installed and the tunnel exists.
\<close>

theorem background_start_without_endpoint:
  "(\<not> pg_foreground (cfg_pinggy cfg)
      \<and> (\<forall>k. pollTime e (clock w) k - clock w < to_tunnelStartup (cfg_timeouts cfg)
              \<longrightarrow> matchAt e (pathJoin logDir ''pinggy.log'') pinggyPattern (pollTime e (clock w) k)
                    = None)
     \<longrightarrow> (\<exists>r. fst (fst (pinggy_start e cfg sshPort logDir t w)) = Inr r
              \<and> sr_started r \<and> \<not> sr_foreground r \<and> sr_endpoint r = None)
        \<and> last (events (snd (pinggy_start e cfg sshPort logDir t w)))
            = Log Warn (''['' @ t_name t
                          @ ''] Endpoint not detected yet. Check pinggy.log for the tcp:// URL''))
   \<and> (t_logFile t = Some lf \<and> lf \<noteq> []
      \<and> (\<forall>k. pollTime e (clock w) k - clock w < to_cfEndpoint (cfg_timeouts cfg)
              \<longrightarrow> matchAt e lf cloudflarePattern (pollTime e (clock w) k) = None)
     \<longrightarrow> (\<exists>r. fst (fst (cloudflare_discover e cfg logFile tunnelId pid t w)) = Inr r
              \<and> sr_started r \<and> \<not> sr_foreground r \<and> sr_endpoint r = None)
        \<and> last (events (snd (cloudflare_discover e cfg logFile tunnelId pid t w)))
            = Log Warn (''['' @ t_name t @ ''] Endpoint not detected yet. Check cloudflared.log''))
   \<and> (commandExists e ''cloudflared'' \<and> cf_apiKey (cfg_cloudflare cfg) = Some apiKey
      \<and> cfExistingTunnel e (orElse (cf_tunnelName (cfg_cloudflare cfg)) (cfDefaultTunnelName e))
          = Some tunnelId
      \<and> tunnelId \<noteq> [] \<and> \<not> cf_foreground (cfg_cloudflare cfg)
      \<and> (\<forall>k. pollTime e (clock w) k - clock w < to_cfEndpoint (cfg_timeouts cfg)
              \<longrightarrow> matchAt e (pathJoin logDir ''cloudflared.log'') cloudflarePattern
                      (pollTime e (clock w) k) = None)
     \<longrightarrow> (\<exists>r. fst (fst (cloudflare_start e cfg sshPort logDir t w)) = Inr r
              \<and> sr_started r \<and> \<not> sr_foreground r \<and> sr_endpoint r = None)
        \<and> last (events (snd (cloudflare_start e cfg sshPort logDir t w)))
            = Log Warn (''['' @ t_name t @ ''] Endpoint not detected yet. Check cloudflared.log''))"
proof (intro conjI impI)
  assume h: "\<not> pg_foreground (cfg_pinggy cfg)
      \<and> (\<forall>k. pollTime e (clock w) k - clock w < to_tunnelStartup (cfg_timeouts cfg)
              \<longrightarrow> matchAt e (pathJoin logDir ''pinggy.log'') pinggyPattern (pollTime e (clock w) k)
                    = None)"
  show "\<exists>r. fst (fst (pinggy_start e cfg sshPort logDir t w)) = Inr r
              \<and> sr_started r \<and> \<not> sr_foreground r \<and> sr_endpoint r = None"
    by (rule pinggy_start_no_endpoint(1)) (use h in auto)
  show "last (events (snd (pinggy_start e cfg sshPort logDir t w)))
            = Log Warn (''['' @ t_name t
                          @ ''] Endpoint not detected yet. Check pinggy.log for the tcp:// URL'')"
    by (rule pinggy_start_no_endpoint(3)) (use h in auto)
next
  assume h: "t_logFile t = Some lf \<and> lf \<noteq> []
      \<and> (\<forall>k. pollTime e (clock w) k - clock w < to_cfEndpoint (cfg_timeouts cfg)
              \<longrightarrow> matchAt e lf cloudflarePattern (pollTime e (clock w) k) = None)"
  show "\<exists>r. fst (fst (cloudflare_discover e cfg logFile tunnelId pid t w)) = Inr r
              \<and> sr_started r \<and> \<not> sr_foreground r \<and> sr_endpoint r = None"
    by (rule cloudflare_discover_no_endpoint(1)[of t lf]) (use h in auto)
  show "last (events (snd (cloudflare_discover e cfg logFile tunnelId pid t w)))
            = Log Warn (''['' @ t_name t @ ''] Endpoint not detected yet. Check cloudflared.log'')"
    by (rule cloudflare_discover_no_endpoint(2)[of t lf]) (use h in auto)
next
  assume h: "commandExists e ''cloudflared'' \<and> cf_apiKey (cfg_cloudflare cfg) = Some apiKey
      \<and> cfExistingTunnel e (orElse (cf_tunnelName (cfg_cloudflare cfg)) (cfDefaultTunnelName e))
          = Some tunnelId
      \<and> tunnelId \<noteq> [] \<and> \<not> cf_foreground (cfg_cloudflare cfg)
      \<and> (\<forall>k. pollTime e (clock w) k - clock w < to_cfEndpoint (cfg_timeouts cfg)
              \<longrightarrow> matchAt e (pathJoin logDir ''cloudflared.log'') cloudflarePattern
                      (pollTime e (clock w) k) = None)"
  obtain t1 w4 where st: "cloudflare_start e cfg sshPort logDir t w
        = cloudflare_launch e cfg sshPort logDir tunnelId t1 w4"
    and c4: "clock w4 = clock w"
    and lf1: "t_logFile t1 = Some (pathJoin logDir ''cloudflared.log'')"
    and n1: "t_name t1 = t_name t"
    using cloudflare_start_installed[of e cfg apiKey tunnelId sshPort logDir t w] h by blast
  obtain p t2 w8 where la: "cloudflare_launch e cfg sshPort logDir tunnelId t1 w4
        = cloudflare_discover e cfg (pathJoin logDir ''cloudflared.log'') tunnelId p t2 w8"
    and c8: "clock w8 = clock w4"
    and lf2: "t_logFile t2 = t_logFile t1"
    and n2: "t_name t2 = t_name t1"
    using cloudflare_launch_background[of cfg apiKey e sshPort logDir tunnelId t1 w4] h by blast
  have lf3: "t_logFile t2 = Some (pathJoin logDir ''cloudflared.log'')"
    "pathJoin logDir ''cloudflared.log'' \<noteq> []"
    using lf1 lf2 by simp_all
  have never: "matchAt e (pathJoin logDir ''cloudflared.log'') cloudflarePattern (pollTime e (clock w8) k)
                 = None"
    if "pollTime e (clock w8) k - clock w8 < to_cfEndpoint (cfg_timeouts cfg)" for k
    using h that by (simp add: c8 c4)
  show "\<exists>r. fst (fst (cloudflare_start e cfg sshPort logDir t w)) = Inr r
              \<and> sr_started r \<and> \<not> sr_foreground r \<and> sr_endpoint r = None"
    unfolding st la by (rule cloudflare_discover_no_endpoint(1)[OF lf3 never])
  show "last (events (snd (cloudflare_start e cfg sshPort logDir t w)))
            = Log Warn (''['' @ t_name t @ ''] Endpoint not detected yet. Check cloudflared.log'')"
    unfolding st la using cloudflare_discover_no_endpoint(2)[OF lf3 never] by (simp add: n1 n2)
qed

text \<open>
  With no log file ever appearing: Pinggy in the background, and Cloudflare on a machine
  that has \<open>cloudflared\<close> and the tunnel.
\<close>

theorem background_start_without_endpoint_witness:
  "(\<exists>r. fst (fst (pinggy_start demo_env tunnels_demo_config ''2222'' ''/home/ci/.ssh/ci-sshd''
                      (newTunnel ''Pinggy'') demo_world)) = Inr r
        \<and> sr_started r \<and> \<not> sr_foreground r \<and> sr_endpoint r = None)
   \<and> last (events (snd (pinggy_start demo_env tunnels_demo_config ''2222'' ''/home/ci/.ssh/ci-sshd''
                          (newTunnel ''Pinggy'') demo_world)))
       = Log Warn ''[Pinggy] Endpoint not detected yet. Check pinggy.log for the tcp:// URL''
   \<and> (\<exists>r. fst (fst (cloudflare_start cloudflare_demo_env cloudflare_demo_config ''2222''
                       ''/home/ci/.ssh/ci-sshd'' (newTunnel ''Cloudflare'') demo_world)) = Inr r
        \<and> sr_started r \<and> \<not> sr_foreground r \<and> sr_endpoint r = None)
   \<and> last (events (snd (cloudflare_start cloudflare_demo_env cloudflare_demo_config ''2222''
                          ''/home/ci/.ssh/ci-sshd'' (newTunnel ''Cloudflare'') demo_world)))
       = Log Warn ''[Cloudflare] Endpoint not detected yet. Check cloudflared.log''"
proof -
  have never: "matchAt demo_env lf pat \<tau> = None" "matchAt cloudflare_demo_env lf pat \<tau> = None"
    for lf pat \<tau>
    by (simp_all add: matchAt_def demo_env_def cloudflare_demo_env_def)
  have pg: "\<not> pg_foreground (cfg_pinggy tunnels_demo_config)"
    by (simp add: tunnels_demo_config_def sshj_demo_config_def demo_config_def)
  have cf: "commandExists cloudflare_demo_env ''cloudflared''"
    "cf_apiKey (cfg_cloudflare cloudflare_demo_config) = Some ''token''"
    "cfExistingTunnel cloudflare_demo_env
       (orElse (cf_tunnelName (cfg_cloudflare cloudflare_demo_config))
               (cfDefaultTunnelName cloudflare_demo_env)) = Some ''0a1b-2c3d''"
    "\<not> cf_foreground (cfg_cloudflare cloudflare_demo_config)"
    by (simp_all add: cloudflare_demo_env_def cloudflare_demo_config_def demo_env_def demo_config_def)
  show ?thesis
    using background_start_without_endpoint
            [where cfg = tunnels_demo_config and e = demo_env and w = demo_world
               and logDir = "''/home/ci/.ssh/ci-sshd''" and sshPort = "''2222''"
               and t = "newTunnel ''Pinggy''", THEN conjunct1]
          background_start_without_endpoint
            [where cfg = cloudflare_demo_config and e = cloudflare_demo_env and w = demo_world
               and logDir = "''/home/ci/.ssh/ci-sshd''" and sshPort = "''2222''"
               and t = "newTunnel ''Cloudflare''" and apiKey = "''token''"
               and tunnelId = "''0a1b-2c3d''", THEN conjunct2, THEN conjunct2]
          never pg cf
    by (simp add: newTunnel_def)
qed


section \<open>Properties of the tunnel phase\<close>

lemma length_runTasks: "length (fst (runTasks ps sshPort logDir t0 w)) = length ps"
  by (induction ps arbitrary: w) (simp_all add: case_prod_beta)

text \<open>
  Entry \<open>i\<close> is the result of the task of plugin \<open>i\<close>, run at the starting time in the
  world that the tasks before it left.
\<close>

lemma runTasks_nth:
  "i < length ps \<Longrightarrow>
     fst (runTasks ps sshPort logDir t0 w) ! i
       = fst (tunnelTask (ps ! i) sshPort logDir
                ((snd (runTasks (take i ps) sshPort logDir t0 w))\<lparr>clock := t0\<rparr>))"
proof (induction ps arbitrary: i w)
  case Nil
  then show ?case by simp
next
  case (Cons p ps)
  show ?case
  proof (cases i)
    case 0
    then show ?thesis by (simp add: case_prod_beta)
  next
    case (Suc j)
    then have j: "j < length ps" using Cons.prems by simp
    obtain v w1 where t: "tunnelTask p sshPort logDir (w\<lparr>clock := t0\<rparr>) = (v, w1)"
      by (cases "tunnelTask p sshPort logDir (w\<lparr>clock := t0\<rparr>)")
    show ?thesis
      using Cons.IH[OF j, of "w1\<lparr>clock := max (clock w) (clock w1)\<rparr>"]
      by (simp add: Suc t case_prod_beta)
  qed
qed

lemma tunnelTask_unavailable:
  "p_isAvailable p (p_instance p) = Inr False \<Longrightarrow>
     tunnelTask p sshPort logDir v = (NullValue, say Debug (p_type p @ '' tunnel not configured'') v)"
  by (simp add: tunnelTask_def)

lemma tunnelTask_start_throws:
  assumes "p_isAvailable p (p_instance p) = Inr True"
    and "fst (fst (p_start p sshPort logDir (p_instance p)
           (v\<lparr>events := events v @ [Log Info (''Starting '' @ p_type p @ '' tunnel...''),
                                     TunnelStartInvoked (p_type p)]\<rparr>))) = Inl err"
  shows "fst (tunnelTask p sshPort logDir v) = Failed (p_type p) (message err)"
  using assms
  by (auto simp: tunnelTask_def Let_def say_def taskFailed_def split: prod.splits sum.splits)

lemma tunnelTask_isAvailable_throws:
  "p_isAvailable p (p_instance p) = Inl err \<Longrightarrow>
     fst (tunnelTask p sshPort logDir v) = Failed (p_type p) (message err)"
  by (simp add: tunnelTask_def taskFailed_def)

text \<open>Filling the entries in by index gives the same list whatever the order of completion.\<close>

lemma fill_length:
  "length (foldl (\<lambda>res i. res[i := f i]) res0 order) = length res0"
  by (induction order arbitrary: res0) simp_all

lemma fill_nth:
  "j < length res0 \<Longrightarrow>
     foldl (\<lambda>res i. res[i := f i]) res0 order ! j = (if j \<in> set order then f j else res0 ! j)"
proof (induction order arbitrary: res0)
  case Nil
  then show ?case by simp
next
  case (Cons i order)
  then show ?case by (auto simp: nth_list_update)
qed

lemma allSettledBy_any_order:
  assumes "set order = {..<length outcomes}"
  shows "allSettledBy order outcomes = map Some (allSettled outcomes)"
proof (rule nth_equalityI)
  show "length (allSettledBy order outcomes) = length (map Some (allSettled outcomes))"
    by (simp add: allSettledBy_def allSettled_def fill_length)
next
  fix j assume "j < length (allSettledBy order outcomes)"
  then have j: "j < length outcomes" by (simp add: allSettledBy_def fill_length)
  then have "j \<in> set order" using assms by simp
  then show "allSettledBy order outcomes ! j = map Some (allSettled outcomes) ! j"
    using j by (simp add: allSettledBy_def allSettled_def fill_nth)
qed

text \<open>
  Claim C3, as the code has it.  The result of the tunnel phase has one entry for each
  plugin of the list, attempted or not, in the order of the list.  Each entry is
  fulfilled with what the task of its own plugin resolved to, which is: \<^verbatim>\<open>null\<close> for a
  plugin that is not available, whose \<open>start\<close> is then not called; and the type of the
  plugin with the message of the error for a plugin whose \<open>isAvailable\<close> or \<open>start\<close>
  throws.  An error thrown by one plugin therefore ends up in the entry of that plugin,
  and the plugins after it are run all the same.  The entries are filled in by index, so
  the order in which the tasks complete does not change the list.
\<close>

theorem startTunnels_one_entry_per_plugin:
  "length (fst (startTunnels ps sshPort logDir w)) = length ps
   \<and> (i < length ps \<longrightarrow>
        fst (startTunnels ps sshPort logDir w) ! i
          = Fulfilled (fst (tunnelTask (ps ! i) sshPort logDir
                              ((snd (runTasks (take i ps) sshPort logDir (clock w) w))
                                 \<lparr>clock := clock w\<rparr>))))
   \<and> (p_isAvailable p (p_instance p) = Inr False \<longrightarrow>
        tunnelTask p sshPort logDir v
          = (NullValue, v\<lparr>events := events v @ [Log Debug (p_type p @ '' tunnel not configured'')]\<rparr>))
   \<and> (p_isAvailable p (p_instance p) = Inr True
        \<and> fst (fst (p_start p sshPort logDir (p_instance p)
             (v\<lparr>events := events v @ [Log Info (''Starting '' @ p_type p @ '' tunnel...''),
                                       TunnelStartInvoked (p_type p)]\<rparr>))) = Inl err
      \<longrightarrow> fst (tunnelTask p sshPort logDir v) = Failed (p_type p) (message err))
   \<and> (p_isAvailable p (p_instance p) = Inl err
      \<longrightarrow> fst (tunnelTask p sshPort logDir v) = Failed (p_type p) (message err))
   \<and> (set order = {..<length outcomes}
      \<longrightarrow> allSettledBy order outcomes = map Some (allSettled outcomes))"
proof (intro conjI impI)
  show "length (fst (startTunnels ps sshPort logDir w)) = length ps"
    using length_runTasks[of ps sshPort logDir "clock w" w]
    by (simp add: startTunnels_def allSettled_def case_prod_beta)
next
  assume i: "i < length ps"
  then have "i < length (fst (runTasks ps sshPort logDir (clock w) w))"
    by (simp add: length_runTasks)
  then show "fst (startTunnels ps sshPort logDir w) ! i
          = Fulfilled (fst (tunnelTask (ps ! i) sshPort logDir
                              ((snd (runTasks (take i ps) sshPort logDir (clock w) w))
                                 \<lparr>clock := clock w\<rparr>)))"
    using runTasks_nth[OF i, of sshPort logDir "clock w" w]
    by (simp add: startTunnels_def allSettled_def settle_def case_prod_beta)
next
  assume "p_isAvailable p (p_instance p) = Inr False"
  then show "tunnelTask p sshPort logDir v
          = (NullValue, v\<lparr>events := events v @ [Log Debug (p_type p @ '' tunnel not configured'')]\<rparr>)"
    by (simp add: tunnelTask_unavailable say_def)
next
  assume "p_isAvailable p (p_instance p) = Inr True
        \<and> fst (fst (p_start p sshPort logDir (p_instance p)
             (v\<lparr>events := events v @ [Log Info (''Starting '' @ p_type p @ '' tunnel...''),
                                       TunnelStartInvoked (p_type p)]\<rparr>))) = Inl err"
  then show "fst (tunnelTask p sshPort logDir v) = Failed (p_type p) (message err)"
    using tunnelTask_start_throws[of p sshPort logDir v err] by blast
next
  assume "p_isAvailable p (p_instance p) = Inl err"
  then show "fst (tunnelTask p sshPort logDir v) = Failed (p_type p) (message err)"
    by (rule tunnelTask_isAvailable_throws)
next
  assume "set order = {..<length outcomes}"
  then show "allSettledBy order outcomes = map Some (allSettled outcomes)"
    by (rule allSettledBy_any_order)
qed

text \<open>
  Three plugins of which the second fails and the third is not enabled: three entries,
  the second with the failure, the third \<^verbatim>\<open>null\<close>; and a list filled in the order 2, 0, 1.
\<close>

theorem startTunnels_one_entry_per_plugin_witness:
  "length (fst (startTunnels demo_plugins ''2222'' ''/home/ci/.ssh'' demo_world)) = 3
   \<and> fst (startTunnels demo_plugins ''2222'' ''/home/ci/.ssh'' demo_world) ! 1
       = Fulfilled (Failed ''Broken'' ''Broken tunnel error: cannot start'')
   \<and> fst (startTunnels demo_plugins ''2222'' ''/home/ci/.ssh'' demo_world) ! 2 = Fulfilled NullValue
   \<and> allSettledBy [2, 0, 1] [Inr NullValue, Inl (JsError ''rejected''), Inr (Failed ''a'' ''b'')]
       = [Some (Fulfilled NullValue), Some (Rejected (JsError ''rejected'')),
          Some (Fulfilled (Failed ''a'' ''b''))]"
proof -
  have len: "length demo_plugins = 3" "(1::nat) < 3" "(2::nat) < 3"
    by (simp_all add: demo_plugins_def)
  have nth: "demo_plugins ! Suc 0 = brokenPlugin"
    "demo_plugins ! 2 = cloudflarePlugin demo_env sshj_demo_config"
    by (simp_all add: demo_plugins_def)
  have broken: "fst (tunnelTask brokenPlugin sshPort logDir v)
                  = Failed ''Broken'' ''Broken tunnel error: cannot start''" for sshPort logDir v
    using startTunnels_one_entry_per_plugin
            [where p = brokenPlugin and sshPort = sshPort and logDir = logDir and v = v
               and err = "TunnelError ''Broken'' ''cannot start''",
             THEN conjunct2, THEN conjunct2, THEN conjunct2, THEN conjunct1]
    by (simp add: brokenPlugin_def)
  have off: "fst (tunnelTask (cloudflarePlugin demo_env sshj_demo_config) sshPort logDir v) = NullValue"
    for sshPort logDir v
    using startTunnels_one_entry_per_plugin
            [where p = "cloudflarePlugin demo_env sshj_demo_config" and sshPort = sshPort
               and logDir = logDir and v = v, THEN conjunct2, THEN conjunct2, THEN conjunct1]
    by (simp add: cloudflarePlugin_def cloudflare_isAvailable_def sshj_demo_config_def demo_config_def)
  have order: "set [2, 0, 1::nat]
      = {..<length [Inr NullValue, Inl (JsError ''rejected''), Inr (Failed ''a'' ''b'')]}"
    by auto
  show ?thesis
    using startTunnels_one_entry_per_plugin
            [where ps = demo_plugins and sshPort = "''2222''" and logDir = "''/home/ci/.ssh''"
               and w = demo_world, THEN conjunct1]
          startTunnels_one_entry_per_plugin
            [where ps = demo_plugins and sshPort = "''2222''" and logDir = "''/home/ci/.ssh''"
               and w = demo_world and i = 1, THEN conjunct2, THEN conjunct1]
          startTunnels_one_entry_per_plugin
            [where ps = demo_plugins and sshPort = "''2222''" and logDir = "''/home/ci/.ssh''"
               and w = demo_world and i = 2, THEN conjunct2, THEN conjunct1]
          startTunnels_one_entry_per_plugin
            [where order = "[2, 0, 1]"
               and outcomes = "[Inr NullValue, Inl (JsError ''rejected''), Inr (Failed ''a'' ''b'')]",
             THEN conjunct2, THEN conjunct2, THEN conjunct2, THEN conjunct2, THEN conjunct2]
          order
    by (simp add: len nth broken off allSettled_def settle_def)
qed

text \<open>
  The claim as stated fails where it has the plugin that is not available absent from the
  list: Cloudflare, not enabled, has its entry, fulfilled with \<^verbatim>\<open>null\<close>.
\<close>

theorem startTunnels_counterexample:
  "p_isAvailable (cloudflarePlugin demo_env demo_config)
       (p_instance (cloudflarePlugin demo_env demo_config)) = Inr False
   \<and> fst (startTunnels [cloudflarePlugin demo_env demo_config] ''2222'' ''/home/ci/.ssh'' demo_world)
       = [Fulfilled NullValue]"
  by (simp add: startTunnels_def allSettled_def settle_def tunnelTask_def cloudflarePlugin_def
      cloudflare_isAvailable_def demo_config_def)


section \<open>Properties of the bring-up and of the run\<close>

lemma milestones_append [simp]: "milestones (xs @ ys) = milestones xs @ milestones ys"
  by (simp add: milestones_def)

lemma milestones_Nil [simp]: "milestones [] = []"
  by (simp add: milestones_def)

lemma milestones_Cons_Log [simp]: "milestones (Log l m # evs) = milestones evs"
  and milestones_Cons_Command [simp]: "milestones (Command c # evs) = milestones evs"
  and milestones_Cons_Spawned [simp]: "milestones (Spawned c a lf # evs) = milestones evs"
  and milestones_Cons_PipelineVar [simp]: "milestones (PipelineVar n v # evs) = milestones evs"
  and milestones_Cons_ProcessExit [simp]: "milestones (ProcessExit code # evs) = milestones evs"
  and milestones_Cons_Ssh [simp]:
    "milestones (SshSetupReturned md p # evs) = SshSetupReturned md p # milestones evs"
  and milestones_Cons_Start [simp]:
    "milestones (TunnelStartInvoked n # evs) = TunnelStartInvoked n # milestones evs"
  by (simp_all add: milestones_def)

subsection \<open>Silent computations\<close>

lemma silentD: "silent m \<Longrightarrow> milestones (events (snd (m w))) = milestones (events w)"
  by (simp add: silent_def)

lemma silent_andThen: "silent m \<Longrightarrow> (\<And>v. silent (f v)) \<Longrightarrow> silent (andThen m f)"
  unfolding silent_def andThen_def
proof
  fix w
  assume m: "\<forall>w. milestones (events (snd (m w))) = milestones (events w)"
    and f: "\<And>v. \<forall>w. milestones (events (snd (f v w))) = milestones (events w)"
  obtain r w' where mw: "m w = (r, w')" by (cases "m w")
  have w': "milestones (events w') = milestones (events w)" using m[rule_format, of w] mw by simp
  show "milestones (events (snd (case m w of (Inl err, w') \<Rightarrow> (Inl err, w') | (Inr v, w') \<Rightarrow> f v w')))
          = milestones (events w)"
    using w' f by (cases r) (simp_all add: mw)
qed

lemma silent_ret: "silent (ret v)"
  by (simp add: silent_def ret_def)

lemma silent_throw: "silent (throw err)"
  by (simp add: silent_def throw_def)

lemma silent_emit_Log: "silent (emit (Log l m))"
  by (simp add: silent_def emit_def)

lemma silent_if: "silent a \<Longrightarrow> silent b \<Longrightarrow> silent (if c then a else b)"
  by simp

lemma silent_run_cmd: "silent (run_cmd e cmd ignoreError)"
  by (simp add: silent_def run_cmd_def andThen_def emit_def throw_def ret_def)

lemma silent_ensureDir: "silent (ensureDir d)"
  by (simp add: silent_def ensureDir_def)

lemma silent_writeFileSync: "silent (writeFileSync p c)"
  by (simp add: silent_def writeFileSync_def)

lemma silent_writeFileSafe: "silent (writeFileSafe p c)"
  unfolding writeFileSafe_def
  by (intro silent_andThen silent_ensureDir silent_writeFileSync silent_emit_Log)

lemma silent_forEach: "(\<And>x. silent (f x)) \<Longrightarrow> silent (forEach f xs)"
  by (induction xs) (auto intro: silent_ret silent_andThen)

lemma milestones_say [simp]: "milestones (events (say l m w)) = milestones (events w)"
  by (simp add: say_def)

lemma milestones_tlog [simp]: "milestones (events (tlog l t m w)) = milestones (events w)"
  by (simp add: tlog_def)

lemma milestones_sleep [simp]: "milestones (events (sleep e ms w)) = milestones (events w)"
  by (simp add: sleep_def)

lemma milestones_setPipelineVar [simp]:
  "milestones (events (setPipelineVar n v w)) = milestones (events w)"
  by (simp add: setPipelineVar_def)

lemma milestones_spawnForeground [simp]:
  "milestones (events (spawnForeground c a w)) = milestones (events w)"
  by (simp add: spawnForeground_def)

lemma milestones_spawnDetached [simp]:
  "milestones (events (snd (spawnDetached e c a lf w))) = milestones (events w)"
  by (simp add: spawnDetached_def Let_def ensureDir_def)

lemma milestones_writeFileSync [simp]:
  "milestones (events (snd (writeFileSync p c w))) = milestones (events w)"
  by (simp add: writeFileSync_def)

lemma milestones_ensureDir [simp]:
  "milestones (events (snd (ensureDir d w))) = milestones (events w)"
  by (simp add: ensureDir_def)

lemma milestones_writeFileSafe [simp]:
  "milestones (events (snd (writeFileSafe p c w))) = milestones (events w)"
  using silent_writeFileSafe by (simp add: silent_def)

declare waitPort_loop.simps [simp del]

lemma milestones_waitPort_loop [simp]:
  "milestones (events (snd (waitPort_loop e port timeoutMs start w))) = milestones (events w)"
proof (induction e port timeoutMs start w rule: waitPort_loop.induct)
  case (1 e port timeoutMs start w)
  show ?case
  proof (cases "clock w - start < timeoutMs \<and> \<not> portCheck e port (clock w)")
    case True
    then show ?thesis using 1 by (subst waitPort_loop.simps) simp
  next
    case False
    then show ?thesis by (subst waitPort_loop.simps) auto
  qed
qed

lemma silent_waitReady: "silent (waitReady e cfg sshPort failure)"
  by (simp add: silent_def waitReady_def waitPortLocalhost_def case_prod_beta)

lemma silent_generateHostKey: "silent (generateHostKey e label keygen hostKey)"
  unfolding silent_def
proof
  fix w
  have s: "silent (andThen (emit (Log Info (''Generating '' @ label @ '' host key...''))) (\<lambda>_.
             run_cmd e (keygen @ quoted hostKey @ '' -N '' @ quoted []) False))"
    by (intro silent_andThen silent_emit_Log silent_run_cmd)
  show "milestones (events (snd (generateHostKey e label keygen hostKey w))) = milestones (events w)"
    using silentD[OF s, of w] by (simp add: generateHostKey_def)
qed

lemma silent_spawn_then:
  "(\<And>pid. silent (g pid)) \<Longrightarrow>
     silent (\<lambda>w. case spawnDetached e c a lf w of (pid, w1) \<Rightarrow> g pid w1)"
  by (simp add: silent_def case_prod_beta)

lemma silent_writeAuthorizedKeys: "silent (writeAuthorizedKeys e pubkey)"
proof (cases pubkey)
  case None
  then show ?thesis by (simp add: writeAuthorizedKeys_def silent_throw)
next
  case (Some pk)
  show ?thesis
    unfolding writeAuthorizedKeys_def Some option.case Let_def
    by (intro silent_andThen silent_if silent_throw silent_emit_Log silent_ensureDir
        silent_writeFileSafe silent_run_cmd silent_ret)
qed

lemma silent_linuxUserMode: "silent (linuxUserMode e cfg sshPort cwd dis)"
  unfolding linuxUserMode_def Let_def
  by (intro silent_andThen silent_if silent_throw silent_emit_Log silent_ensureDir
      silent_writeFileSafe silent_writeFileSync silent_run_cmd silent_ret silent_generateHostKey
      silent_waitReady silent_spawn_then)

lemma silent_linuxRootMode: "silent (linuxRootMode e cfg sshPort cwd dis allowUsers)"
proof -
  have backup: "silent (\<lambda>w.
           if files w (sshd_config_path e) \<noteq> None
           then andThen (run_cmd e (''sudo cp '' @ quoted (sshd_config_path e) @ '' ''
                           @ quoted (sshd_config_path e @ ''.backup-'' @ showNat (nat (clock w)))) True)
                  (\<lambda>_. emit (Log Info (''Backed up config to: '' @ sshd_config_path e @ ''.backup-''
                                          @ showNat (nat (clock w))))) w
           else (Inr (), w))"
    unfolding silent_def
  proof
    fix w
    have s: "silent (andThen (run_cmd e c True) (\<lambda>_. emit (Log Info m)))" for c m
      by (intro silent_andThen silent_emit_Log silent_run_cmd)
    show "milestones (events (snd (
           if files w (sshd_config_path e) \<noteq> None
           then andThen (run_cmd e (''sudo cp '' @ quoted (sshd_config_path e) @ '' ''
                           @ quoted (sshd_config_path e @ ''.backup-'' @ showNat (nat (clock w)))) True)
                  (\<lambda>_. emit (Log Info (''Backed up config to: '' @ sshd_config_path e @ ''.backup-''
                                          @ showNat (nat (clock w))))) w
           else (Inr (), w)))) = milestones (events w)"
      using silentD[OF s, of _ _ w] by simp
  qed
  show ?thesis
    unfolding linuxRootMode_def Let_def
    by (intro silent_andThen silent_if silent_throw silent_emit_Log silent_run_cmd silent_ret
        silent_waitReady silent_forEach backup)
qed

lemma silent_windowsSetup: "silent (windowsSetup e cfg sshPort allowUsers)"
  unfolding windowsSetup_def
  by (intro silent_andThen silent_if silent_throw silent_emit_Log silent_run_cmd silent_ret
      silent_waitReady silent_forEach)

lemma silent_setup_ssh: "silent (setup_ssh e cfg)"
  unfolding setup_ssh_def Let_def
  by (intro silent_andThen silent_if silent_throw silent_writeAuthorizedKeys silent_linuxUserMode
      silent_linuxRootMode silent_windowsSetup)

subsection \<open>The plugins add no milestone of their own\<close>

lemma milestones_probe_loop [simp]:
  "milestones (events (snd (probe_loop e lf pat timeoutMs start w))) = milestones (events w)"
proof (induction e lf pat timeoutMs start w rule: probe_loop.induct)
  case (1 e logFile pattern timeoutMs start w)
  show ?case
  proof (cases "clock w - start < timeoutMs")
    case False
    then show ?thesis by (subst probe_loop.simps) simp
  next
    case True
    show ?thesis
    proof (cases "logAt e logFile (clock w)")
      case Missing
      then show ?thesis using True 1 by (subst probe_loop.simps) simp
    next
      case (Unreadable msg)
      then show ?thesis using True 1 by (subst probe_loop.simps) simp
    next
      case (Content c)
      then show ?thesis using True 1 by (subst probe_loop.simps) (simp split: option.splits)
    qed
  qed
qed

lemma milestones_parseEndpointFromLog [simp]:
  "milestones (events (snd (parseEndpointFromLog e t pat timeoutMs w))) = milestones (events w)"
  by (simp add: parseEndpointFromLog_def case_prod_beta split: option.splits)

lemma milestones_pinggy_finish [simp]:
  "milestones (events (snd (pinggy_finish lf pid t probed))) = milestones (events (snd probed))"
  by (cases probed) (simp add: pinggy_finish_def Let_def split: sum.splits option.splits)

lemma milestones_pinggy_start [simp]:
  "milestones (events (snd (pinggy_start e cfg sshPort logDir t w))) = milestones (events w)"
proof (cases "pg_foreground (cfg_pinggy cfg)")
  case True
  then show ?thesis by (simp add: pinggy_start_def Let_def)
next
  case False
  have "\<exists>pid t2 w7.
           pinggy_start e cfg sshPort logDir t w
             = pinggy_finish (pathJoin logDir ''pinggy.log'') pid t2
                 (parseEndpointFromLog e t2 pinggyPattern (to_tunnelStartup (cfg_timeouts cfg)) w7)
           \<and> milestones (events w7) = milestones (events w)"
    unfolding pinggy_start_def pinggy_finish_def Let_def
    apply (simp only: False if_False case_prod_beta)
    apply (intro exI conjI)
     apply (rule refl)
    apply simp
    done
  then show ?thesis by auto
qed

lemma milestones_sshj_start [simp]:
  "milestones (events (snd (sshj_start e cfg sshPort logDir t w))) = milestones (events w)"
proof (cases "sj_foreground (cfg_sshj cfg)")
  case True
  then show ?thesis by (simp add: sshj_start_def Let_def)
next
  case False
  then show ?thesis
    unfolding sshj_start_def Let_def
    by (simp only: False if_False case_prod_beta snd_conv)
       simp
qed

lemma milestones_cloudflare_discover [simp]:
  "milestones (events (snd (cloudflare_discover e cfg logFile tunnelId pid t w)))
     = milestones (events w)"
proof -
  obtain r w1 where pr:
    "parseEndpointFromLog e t cloudflarePattern (to_cfEndpoint (cfg_timeouts cfg)) w = (r, w1)"
    by (cases "parseEndpointFromLog e t cloudflarePattern (to_cfEndpoint (cfg_timeouts cfg)) w")
  have w1: "milestones (events w1) = milestones (events w)"
    using milestones_parseEndpointFromLog[of e t cloudflarePattern "to_cfEndpoint (cfg_timeouts cfg)" w]
    by (simp add: pr)
  show ?thesis
    by (simp add: cloudflare_discover_def pr Let_def w1 split: sum.splits option.splits)
qed

lemma milestones_cloudflare_launch [simp]:
  "milestones (events (snd (cloudflare_launch e cfg sshPort logDir tunnelId t w)))
     = milestones (events w)"
proof (cases "cf_apiKey (cfg_cloudflare cfg)")
  case None
  then show ?thesis by (simp add: cloudflare_launch_def Let_def)
next
  case (Some apiKey)
  show ?thesis
  proof (cases "cf_foreground (cfg_cloudflare cfg)")
    case True
    then show ?thesis using Some by (simp add: cloudflare_launch_def Let_def)
  next
    case False
    have "\<exists>pid t1 w8.
           cloudflare_launch e cfg sshPort logDir tunnelId t w
             = cloudflare_discover e cfg (pathJoin logDir ''cloudflared.log'') tunnelId pid t1 w8
           \<and> milestones (events w8) = milestones (events w)"
      unfolding cloudflare_launch_def Let_def
      apply (simp only: Some False if_False case_prod_beta option.case)
      apply (intro exI conjI)
       apply (rule refl)
      apply simp
      done
    then show ?thesis by auto
  qed
qed

lemma milestones_foldl_sleep [simp]:
  "milestones (events (foldl (\<lambda>v d. sleep e d v) w ds)) = milestones (events w)"
  by (induction ds arbitrary: w) simp_all

lemma silent_downloadBinary: "silent (downloadBinary e)"
  by (simp add: silent_def downloadBinary_def case_prod_beta Let_def split: sum.splits option.splits)

lemma milestones_cloudflare_install [simp]:
  "milestones (events (snd (cloudflare_install e cfg t w))) = milestones (events w)"
proof -
  have s: "silent (andThen (downloadBinary e) (\<lambda>_.
              andThen (run_cmd e (''sudo install -m 755 /tmp/cloudflared '' @ cfg_cloudflaredPath cfg) False) (\<lambda>_.
              andThen (run_cmd e ''rm -f /tmp/cloudflared'' True) (\<lambda>_ v.
                (Inr True, tlog Success t ''cloudflared installed successfully'' v)))))"
    by (intro silent_andThen silent_downloadBinary silent_run_cmd) (simp add: silent_def)
  show ?thesis
    using silentD[OF s, of "tlog Info t ''Installing cloudflared...'' w"]
    by (simp add: cloudflare_install_def Let_def)
qed

lemma milestones_cloudflare_tunnelId [simp]:
  "milestones (events (snd (cloudflare_tunnelId e t n w))) = milestones (events w)"
  by (simp add: cloudflare_tunnelId_def Let_def split: sum.splits)

lemma milestones_cloudflare_start [simp]:
  "milestones (events (snd (cloudflare_start e cfg sshPort logDir t w))) = milestones (events w)"
proof -
  obtain r w1 where inst: "cloudflare_install e cfg t w = (r, w1)"
    by (cases "cloudflare_install e cfg t w")
  have w1: "milestones (events w1) = milestones (events w)"
    using milestones_cloudflare_install[of e cfg t w] by (simp add: inst)
  show ?thesis
  proof (cases r)
    case (Inl err)
    then show ?thesis by (simp add: cloudflare_start_def inst w1)
  next
    case (Inr installed)
    define t1 where "t1 = t\<lparr>t_logFile := Some (pathJoin logDir ''cloudflared.log'')\<rparr>"
    define w2 where "w2 = snd (ensureDir (pathJoin (homedir e) ''.cloudflared'') w1)"
    define certPath where "certPath = pathJoin (pathJoin (homedir e) ''.cloudflared'') ''cert.pem''"
    define tunnelName where
      "tunnelName = orElse (cf_tunnelName (cfg_cloudflare cfg)) (cfDefaultTunnelName e)"
    define cert where "cert =
       (if files w2 certPath = None
        then (case cf_apiKey (cfg_cloudflare cfg) of
                None \<Rightarrow> (Inl (JsError ''TypeError [ERR_INVALID_ARG_TYPE]''),
                          tlog Info t1 ''Setting up authentication...'' w2)
              | Some apiKey \<Rightarrow>
                  writeFileSync certPath apiKey (tlog Info t1 ''Setting up authentication...'' w2))
        else (Inr (), w2))"
    have w2: "milestones (events w2) = milestones (events w)" by (simp add: w2_def w1)
    have cert: "milestones (events (snd cert)) = milestones (events w)"
      by (simp add: cert_def w2 split: option.splits)
    have st: "cloudflare_start e cfg sshPort logDir t w
          = (if \<not> installed then ((Inl (TunnelError (t_name t) ''Installation failed''), t), w1)
             else (case cert of
                    (Inl err, w3) \<Rightarrow> ((Inl err, t1), w3)
                  | (Inr _, w3) \<Rightarrow>
                      (case cloudflare_tunnelId e t1 tunnelName w3 of
                         (Inl err, w4) \<Rightarrow> ((Inl err, t1), w4)
                       | (Inr tunnelId, w4) \<Rightarrow> cloudflare_launch e cfg sshPort logDir tunnelId t1 w4)))"
      unfolding cloudflare_start_def Let_def inst Inr cert_def t1_def w2_def certPath_def tunnelName_def
      by (simp only: prod.case sum.case)
    obtain c w3 where cw: "cert = (c, w3)" by (cases cert)
    have w3: "milestones (events w3) = milestones (events w)" using cert by (simp add: cw)
    obtain i w4 where iw: "cloudflare_tunnelId e t1 tunnelName w3 = (i, w4)"
      by (cases "cloudflare_tunnelId e t1 tunnelName w3")
    have w4: "milestones (events w4) = milestones (events w)"
      using milestones_cloudflare_tunnelId[of e t1 tunnelName w3] by (simp add: iw w3)
    show ?thesis
      by (simp add: st cw iw w1 w3 w4 split: sum.splits)
  qed
qed

subsection \<open>The milestones of the tunnel phase\<close>

lemma milestones_tunnelTask:
  assumes "\<And>t v. milestones (events (snd (p_start p sshPort logDir t v))) = milestones (events v)"
  shows "milestones (events (snd (tunnelTask p sshPort logDir w)))
           = milestones (events w) @ (if available p then [TunnelStartInvoked (p_type p)] else [])"
  using assms
  by (simp add: tunnelTask_def available_def taskFailed_def Let_def case_prod_beta
      split: sum.splits)

lemma milestones_runTasks:
  assumes "\<And>p t v. p \<in> set ps \<Longrightarrow>
             milestones (events (snd (p_start p sshPort logDir t v))) = milestones (events v)"
  shows "milestones (events (snd (runTasks ps sshPort logDir t0 w)))
           = milestones (events w) @ map TunnelStartInvoked (map p_type (filter available ps))"
  using assms
proof (induction ps arbitrary: w)
  case Nil
  then show ?case by simp
next
  case (Cons p ps)
  have p: "milestones (events (snd (tunnelTask p sshPort logDir (w\<lparr>clock := t0\<rparr>))))
             = milestones (events w) @ (if available p then [TunnelStartInvoked (p_type p)] else [])"
    using milestones_tunnelTask[of p sshPort logDir "w\<lparr>clock := t0\<rparr>"] Cons.prems by simp
  have ih: "milestones (events (snd (runTasks ps sshPort logDir t0 v)))
           = milestones (events v) @ map TunnelStartInvoked (map p_type (filter available ps))" for v
    using Cons.IH[of v] Cons.prems by simp
  show ?case
    by (simp add: case_prod_beta ih p)
qed

lemma milestones_printSummary [simp]:
  "milestones (events (printSummary e rep rs w)) = milestones (events w)"
proof -
  have "milestones (events (foldl (\<lambda>v line. say Console line v) v ls)) = milestones (events v)"
    for v ls
    by (induction ls arbitrary: v) simp_all
  then show ?thesis by (simp add: printSummary_def)
qed

lemma milestones_tunnelPhase:
  "milestones (events (snd (tunnelPhase e cfg startTime r w)))
     = milestones (events w)
       @ map TunnelStartInvoked
           (map p_type (filter available [pinggyPlugin e cfg, sshjPlugin e cfg, cloudflarePlugin e cfg]))"
proof -
  define ps where "ps = [pinggyPlugin e cfg, sshjPlugin e cfg, cloudflarePlugin e cfg]"
  have quiet: "milestones (events (snd (p_start p sshPort logDir t v))) = milestones (events v)"
    if "p \<in> set ps" for p sshPort logDir t v
    using that by (auto simp: ps_def pinggyPlugin_def sshjPlugin_def cloudflarePlugin_def)
  have tasks: "milestones (events (snd (runTasks ps sshPort logDir t0 v)))
           = milestones (events v) @ map TunnelStartInvoked (map p_type (filter available ps))"
    for sshPort logDir t0 v
    by (rule milestones_runTasks[OF quiet])
  have "milestones (events (snd (tunnelPhase e cfg startTime r w)))
     = milestones (events w) @ map TunnelStartInvoked (map p_type (filter available ps))"
    unfolding tunnelPhase_def startTunnels_def ps_def[symmetric]
    by (simp add: Let_def case_prod_beta tasks)
  then show ?thesis by (simp only: ps_def)
qed

lemma tunnelPhase_returns:
  "\<exists>res. fst (tunnelPhase e cfg startTime r w) = Returned res \<and> rep_success (res_ssh res)
        \<and> rep_mode (res_ssh res) = Some (sshr_mode r) \<and> rep_port (res_ssh res) = Some (sshr_port r)"
  by (simp add: tunnelPhase_def Let_def case_prod_beta)


subsection \<open>The mode that setup selects\<close>

lemma andThen_returns:
  assumes "fst (andThen m f w) = Inr r"
    and "\<And>v w1. fst (f v w1) = Inr r \<Longrightarrow> P"
  shows P
proof -
  obtain x w1 where mw: "m w = (x, w1)" by (cases "m w")
  show P
  proof (cases x)
    case (Inl err)
    then show ?thesis using assms(1) mw by (simp add: andThen_def)
  next
    case (Inr v)
    then have "fst (f v w1) = Inr r" using assms(1) mw by (simp add: andThen_def)
    then show ?thesis by (rule assms(2))
  qed
qed

lemma linuxUserMode_mode:
  "fst (linuxUserMode e cfg sshPort cwd dis w) = Inr r \<Longrightarrow> sshr_mode r = ''user''"
  unfolding linuxUserMode_def Let_def
  apply (erule andThen_returns)+
  apply (simp only: case_prod_beta)
  apply (erule andThen_returns)+
  apply (auto simp: ret_def)
  done

lemma linuxRootMode_mode:
  "fst (linuxRootMode e cfg sshPort cwd dis allowUsers w) = Inr r \<Longrightarrow> sshr_mode r = ''root''"
  unfolding linuxRootMode_def Let_def
  apply (erule andThen_returns)
  apply (cases "\<not> isRootOnLinux e \<and> \<not> hasSudoNoPass e")
   apply (simp add: throw_def)
  apply (simp only: if_False)
  apply (erule andThen_returns)+
  apply (auto simp: ret_def)
  done

lemma windowsSetup_mode:
  "fst (windowsSetup e cfg sshPort allowUsers w) = Inr r \<Longrightarrow> sshr_mode r = ''windows''"
  unfolding windowsSetup_def
  apply (erule andThen_returns)+
  apply (auto simp: ret_def)
  done

lemma demo_keys: "parseKeys ''ssh-ed25519 AAAA ci'' \<noteq> []"
  by (simp add: parseKeys_def trim_def isWhiteSpace_def startsWith_def)

lemma windows_mode_returns:
  "\<exists>r. fst (bringUp (demo_env\<lparr>platform := ''win32''\<rparr>) demo_config WindowsMode w) = Inr r"
  by (simp add: windowsSetup_def andThen_def emit_def run_cmd_def ret_def waitReady_def
      waitPortLocalhost_def waitPort_loop.simps portCheck_def demo_env_def
      demo_config_def say_def)

text \<open>
  Claim C2.  After the keys are written, \<open>setup\<close> does what the table of the
  specification says, and nothing but the platform and the configured mode decides which
  bring-up runs: Windows mode on \<open>win32\<close>; on \<open>linux\<close>, root mode for the configured mode
  \<open>root\<close> and user mode for any other; an \<open>SSHDError\<close> naming the platform anywhere else.
  A bring-up that returns tags its result with its mode.
\<close>

theorem setup_selects_mode:
  "setup_ssh e cfg w
     = andThen (writeAuthorizedKeys e (ssh_publicKey (cfg_ssh cfg)))
         (\<lambda>_. case selectMode (platform e) (ssh_mode (cfg_ssh cfg)) of
                 Some m \<Rightarrow> bringUp e cfg m
               | None \<Rightarrow> throw (SSHDError (''Unsupported platform: '' @ platform e))) w
   \<and> (fst (bringUp e cfg m v) = Inr r \<longrightarrow> sshr_mode r = modeName m)
   \<and> selectMode ''win32'' configuredMode = Some WindowsMode
   \<and> selectMode ''linux'' ''root'' = Some RootMode
   \<and> (configuredMode \<noteq> ''root'' \<longrightarrow> selectMode ''linux'' configuredMode = Some UserMode)
   \<and> (plat \<noteq> ''win32'' \<and> plat \<noteq> ''linux'' \<longrightarrow> selectMode plat configuredMode = None)"
proof (intro conjI impI)
  have "(if isWindows e then windowsSetup e cfg (ssh_port (cfg_ssh cfg)) (ssh_allowUsers (cfg_ssh cfg))
         else if isLinux e then
           (if ssh_mode (cfg_ssh cfg) = ''root''
            then linuxRootMode e cfg (ssh_port (cfg_ssh cfg))
                   (orElse (ssh_defaultCwd (cfg_ssh cfg)) (detectDefaultCwd e))
                   (ssh_disableForceCwd (cfg_ssh cfg)) (ssh_allowUsers (cfg_ssh cfg))
            else linuxUserMode e cfg (ssh_port (cfg_ssh cfg))
                   (orElse (ssh_defaultCwd (cfg_ssh cfg)) (detectDefaultCwd e))
                   (ssh_disableForceCwd (cfg_ssh cfg)))
         else throw (SSHDError (''Unsupported platform: '' @ platform e)))
      = (case selectMode (platform e) (ssh_mode (cfg_ssh cfg)) of
           Some m \<Rightarrow> bringUp e cfg m
         | None \<Rightarrow> throw (SSHDError (''Unsupported platform: '' @ platform e)))"
    by (simp add: selectMode_def isWindows_def isLinux_def)
  then show "setup_ssh e cfg w
     = andThen (writeAuthorizedKeys e (ssh_publicKey (cfg_ssh cfg)))
         (\<lambda>_. case selectMode (platform e) (ssh_mode (cfg_ssh cfg)) of
                 Some m \<Rightarrow> bringUp e cfg m
               | None \<Rightarrow> throw (SSHDError (''Unsupported platform: '' @ platform e))) w"
    unfolding setup_ssh_def Let_def by (simp only:)
next
  assume "fst (bringUp e cfg m v) = Inr r"
  then show "sshr_mode r = modeName m"
    by (cases m) (auto dest: linuxUserMode_mode linuxRootMode_mode windowsSetup_mode)
qed (simp_all add: selectMode_def)

text \<open>
  On a Windows runner the bring-up is that of Windows and returns a result of mode
  \<open>windows\<close>; on \<open>darwin\<close> it is refused.
\<close>

theorem setup_selects_mode_witness:
  "selectMode (platform demo_env) (ssh_mode (cfg_ssh demo_config)) = Some UserMode
   \<and> (\<exists>r. fst (setup_ssh (demo_env\<lparr>platform := ''win32''\<rparr>) demo_config demo_world) = Inr r
            \<and> sshr_mode r = ''windows'')
   \<and> fst (setup_ssh (demo_env\<lparr>platform := ''darwin''\<rparr>) demo_config demo_world)
       = Inl (SSHDError ''Unsupported platform: darwin'')"
proof -
  have sel: "selectMode (platform demo_env) (ssh_mode (cfg_ssh demo_config)) = Some UserMode"
    "selectMode ''darwin'' (ssh_mode (cfg_ssh demo_config)) = None"
    "selectMode ''win32'' (ssh_mode (cfg_ssh demo_config)) = Some WindowsMode"
    by (simp_all add: selectMode_def demo_env_def demo_config_def)
  obtain w1 where k: "writeAuthorizedKeys (demo_env\<lparr>platform := ''win32''\<rparr>)
                          (Some ''ssh-ed25519 AAAA ci'') demo_world = (Inr (), w1)"
    using writeAuthorizedKeys_ok(1)[OF demo_keys, of "demo_env\<lparr>platform := ''win32''\<rparr>" demo_world]
    by (cases "writeAuthorizedKeys (demo_env\<lparr>platform := ''win32''\<rparr>)
                 (Some ''ssh-ed25519 AAAA ci'') demo_world") auto
  obtain w2 where k2: "writeAuthorizedKeys (demo_env\<lparr>platform := ''darwin''\<rparr>)
                          (Some ''ssh-ed25519 AAAA ci'') demo_world = (Inr (), w2)"
    using writeAuthorizedKeys_ok(1)[OF demo_keys, of "demo_env\<lparr>platform := ''darwin''\<rparr>" demo_world]
    by (cases "writeAuthorizedKeys (demo_env\<lparr>platform := ''darwin''\<rparr>)
                 (Some ''ssh-ed25519 AAAA ci'') demo_world") auto
  have pk: "ssh_publicKey (cfg_ssh demo_config) = Some ''ssh-ed25519 AAAA ci''"
    by (simp add: demo_config_def)
  obtain r where r: "fst (bringUp (demo_env\<lparr>platform := ''win32''\<rparr>) demo_config WindowsMode w1) = Inr r"
    using windows_mode_returns by blast
  have md: "sshr_mode r = ''windows''"
    using setup_selects_mode[where e = "demo_env\<lparr>platform := ''win32''\<rparr>" and cfg = demo_config
                               and m = WindowsMode and v = w1 and r = r,
                             THEN conjunct2, THEN conjunct1] r
    by simp
  have s1: "fst (setup_ssh (demo_env\<lparr>platform := ''win32''\<rparr>) demo_config demo_world) = Inr r"
    using setup_selects_mode[where e = "demo_env\<lparr>platform := ''win32''\<rparr>" and cfg = demo_config
                               and w = demo_world, THEN conjunct1] r
    by (simp add: sel pk andThen_def k)
  have s2: "fst (setup_ssh (demo_env\<lparr>platform := ''darwin''\<rparr>) demo_config demo_world)
       = Inl (SSHDError ''Unsupported platform: darwin'')"
    using setup_selects_mode[where e = "demo_env\<lparr>platform := ''darwin''\<rparr>" and cfg = demo_config
                               and w = demo_world, THEN conjunct1]
    by (simp add: sel pk andThen_def k2 throw_def)
  show ?thesis using sel(1) s1 s2 md by auto
qed


subsection \<open>Runs on a Windows runner and on an unsupported platform\<close>

lemma windowsSetup_demo:
  assumes "0 < to_portWait (cfg_timeouts cfg)"
  shows "fst (windowsSetup (demo_env\<lparr>platform := ''win32''\<rparr>) cfg p us w)
           = Inr \<lparr>sshr_mode = ''windows'', sshr_port = p, sshr_baseDir = None,
                  sshr_logPath = None, sshr_pid = None\<rparr>"
  using assms
  by (simp add: windowsSetup_def andThen_def emit_def run_cmd_def ret_def waitReady_def
      waitPortLocalhost_def waitPort_loop.simps portCheck_def demo_env_def say_def)

lemma setup_ssh_windows_demo:
  assumes "ssh_publicKey (cfg_ssh cfg) = Some pk" and "parseKeys pk \<noteq> []"
    and "0 < to_portWait (cfg_timeouts cfg)"
  shows "fst (setup_ssh (demo_env\<lparr>platform := ''win32''\<rparr>) cfg w)
           = Inr \<lparr>sshr_mode = ''windows'', sshr_port = ssh_port (cfg_ssh cfg), sshr_baseDir = None,
                  sshr_logPath = None, sshr_pid = None\<rparr>"
proof -
  obtain w1 where k: "writeAuthorizedKeys (demo_env\<lparr>platform := ''win32''\<rparr>) (Some pk) w = (Inr (), w1)"
    using writeAuthorizedKeys_ok(1)[OF assms(2), of "demo_env\<lparr>platform := ''win32''\<rparr>" w]
    by (cases "writeAuthorizedKeys (demo_env\<lparr>platform := ''win32''\<rparr>) (Some pk) w") auto
  show ?thesis
    unfolding setup_ssh_def Let_def
    by (simp add: andThen_def assms(1) k isWindows_def windowsSetup_demo[OF assms(3)])
qed

lemma setup_ssh_unsupported:
  assumes "ssh_publicKey (cfg_ssh cfg) = Some pk" and "parseKeys pk \<noteq> []"
    and "platform e \<noteq> ''win32''" and "platform e \<noteq> ''linux''"
  shows "fst (setup_ssh e cfg w) = Inl (SSHDError (''Unsupported platform: '' @ platform e))"
proof -
  obtain w1 where k: "writeAuthorizedKeys e (Some pk) w = (Inr (), w1)"
    using writeAuthorizedKeys_ok(1)[OF assms(2), of e w]
    by (cases "writeAuthorizedKeys e (Some pk) w") auto
  show ?thesis
    unfolding setup_ssh_def Let_def
    by (simp add: andThen_def assms k isWindows_def isLinux_def throw_def)
qed

lemma mergeOptions_none: "mergeOptions no_options cfg = cfg"
  by (simp add: mergeOptions_def no_options_def orElse_def falsy_def)

lemma validate_demo:
  "validate demo_config = Inr ()" "validate tunnels_demo_config = Inr ()"
  by (simp_all add: validate_def Let_def demo_config_def tunnels_demo_config_def sshj_demo_config_def
      falsy_def parseInt10_def digitValue_def isDigit_def isWhiteSpace_def)

text \<open>
  Claim C4.  The milestones of a run are the return of the SSH bring-up and the calls of
  \<open>start\<close>, in the order in which they happen.  A run whose configuration is invalid, or
  whose bring-up throws, exits with status 1 and has no milestone at all: no \<open>start\<close> was
  called.  A run whose bring-up returns has the return of the bring-up as its first
  milestone, followed by one call of \<open>start\<close> for each plugin that is available: every
  call of \<open>start\<close> comes after the result of the bring-up exists.
\<close>

theorem run_ssh_before_tunnels:
  assumes "milestones (events w) = []"
  shows
    "(validate (mergeOptions opts cfg) = Inl err \<longrightarrow>
        fst (run e cfg opts w) = Exited 1 \<and> milestones (events (snd (run e cfg opts w))) = [])
     \<and> (validate (mergeOptions opts cfg) = Inr ()
          \<and> fst (setup_ssh e (mergeOptions opts cfg) (preflight w)) = Inl err \<longrightarrow>
        fst (run e cfg opts w) = Exited 1
        \<and> milestones (events (snd (run e cfg opts w))) = []
        \<and> last (events (snd (run e cfg opts w))) = ProcessExit 1)
     \<and> (validate (mergeOptions opts cfg) = Inr ()
          \<and> fst (setup_ssh e (mergeOptions opts cfg) (preflight w)) = Inr r \<longrightarrow>
        (\<exists>res. fst (run e cfg opts w) = Returned res \<and> rep_success (res_ssh res)
               \<and> rep_port (res_ssh res) = Some (sshr_port r))
        \<and> milestones (events (snd (run e cfg opts w)))
            = SshSetupReturned (sshr_mode r) (sshr_port r)
              # map TunnelStartInvoked
                  (map p_type (filter available
                     [pinggyPlugin e (mergeOptions opts cfg), sshjPlugin e (mergeOptions opts cfg),
                      cloudflarePlugin e (mergeOptions opts cfg)])))"
proof (intro conjI impI)
  assume "validate (mergeOptions opts cfg) = Inl err"
  then show "fst (run e cfg opts w) = Exited 1"
    and "milestones (events (snd (run e cfg opts w))) = []"
    using assms by (simp_all add: run_def Let_def processExit_def)
next
  assume h: "validate (mergeOptions opts cfg) = Inr ()
          \<and> fst (setup_ssh e (mergeOptions opts cfg) (preflight w)) = Inl err"
  obtain w1 where s: "setup_ssh e (mergeOptions opts cfg) (preflight w) = (Inl err, w1)"
    using h by (cases "setup_ssh e (mergeOptions opts cfg) (preflight w)") auto
  have "milestones (events (preflight w)) = []"
    using assms by (simp add: preflight_def)
  then have w1: "milestones (events w1) = []"
    using silentD[OF silent_setup_ssh, of e "mergeOptions opts cfg" "preflight w"]
    by (simp add: s)
  show "fst (run e cfg opts w) = Exited 1"
    and "milestones (events (snd (run e cfg opts w))) = []"
    and "last (events (snd (run e cfg opts w))) = ProcessExit 1"
    using h w1 by (simp_all add: run_def Let_def s processExit_def)
next
  assume h: "validate (mergeOptions opts cfg) = Inr ()
          \<and> fst (setup_ssh e (mergeOptions opts cfg) (preflight w)) = Inr r"
  obtain w1 where s: "setup_ssh e (mergeOptions opts cfg) (preflight w) = (Inr r, w1)"
    using h by (cases "setup_ssh e (mergeOptions opts cfg) (preflight w)") auto
  have "milestones (events (preflight w)) = []"
    using assms by (simp add: preflight_def)
  then have w1: "milestones (events w1) = []"
    using silentD[OF silent_setup_ssh, of e "mergeOptions opts cfg" "preflight w"]
    by (simp add: s)
  have rn: "run e cfg opts w
      = tunnelPhase e (mergeOptions opts cfg) (clock w) r
          (w1\<lparr>events := events w1 @ [SshSetupReturned (sshr_mode r) (sshr_port r)]\<rparr>)"
    using h by (simp add: run_def Let_def s)
  show "\<exists>res. fst (run e cfg opts w) = Returned res \<and> rep_success (res_ssh res)
               \<and> rep_port (res_ssh res) = Some (sshr_port r)"
    unfolding rn using tunnelPhase_returns by blast
  show "milestones (events (snd (run e cfg opts w)))
            = SshSetupReturned (sshr_mode r) (sshr_port r)
              # map TunnelStartInvoked
                  (map p_type (filter available
                     [pinggyPlugin e (mergeOptions opts cfg), sshjPlugin e (mergeOptions opts cfg),
                      cloudflarePlugin e (mergeOptions opts cfg)]))"
    unfolding rn milestones_tunnelPhase by (simp add: w1 del: filter.simps list.map)
qed


text \<open>
  On \<open>darwin\<close> the bring-up throws and the run exits with status 1 without a milestone.
  On a Windows runner with Pinggy and SSH-J enabled, the bring-up returns first and the two
  calls of \<open>start\<close> follow.
\<close>

theorem run_ssh_before_tunnels_witness:
  "fst (run (demo_env\<lparr>platform := ''darwin''\<rparr>) demo_config no_options demo_world) = Exited 1
   \<and> milestones (events (snd (run (demo_env\<lparr>platform := ''darwin''\<rparr>) demo_config no_options
                                demo_world))) = []
   \<and> milestones (events (snd (run (demo_env\<lparr>platform := ''win32''\<rparr>) tunnels_demo_config
                                no_options demo_world)))
       = [SshSetupReturned ''windows'' ''2222'', TunnelStartInvoked ''Pinggy'',
          TunnelStartInvoked ''SSH-J'']"
proof -
  have m0: "milestones (events demo_world) = []"
    by (simp add: demo_world_def milestones_def)
  have pk: "ssh_publicKey (cfg_ssh demo_config) = Some ''ssh-ed25519 AAAA ci''"
    "ssh_publicKey (cfg_ssh tunnels_demo_config) = Some ''ssh-ed25519 AAAA ci''"
    "0 < to_portWait (cfg_timeouts tunnels_demo_config)"
    "ssh_port (cfg_ssh tunnels_demo_config) = ''2222''"
    by (simp_all add: demo_config_def tunnels_demo_config_def sshj_demo_config_def)
  have d: "fst (setup_ssh (demo_env\<lparr>platform := ''darwin''\<rparr>) demo_config (preflight demo_world))
             = Inl (SSHDError ''Unsupported platform: darwin'')"
    using setup_ssh_unsupported[OF pk(1) demo_keys, of "demo_env\<lparr>platform := ''darwin''\<rparr>"]
    by simp
  have u: "fst (setup_ssh (demo_env\<lparr>platform := ''win32''\<rparr>) tunnels_demo_config (preflight demo_world))
             = Inr \<lparr>sshr_mode = ''windows'', sshr_port = ''2222'', sshr_baseDir = None,
                    sshr_logPath = None, sshr_pid = None\<rparr>"
    using setup_ssh_windows_demo[OF pk(2) demo_keys pk(3)] by (simp add: pk(4))
  have av: "map p_type (filter available
              [pinggyPlugin (demo_env\<lparr>platform := ''win32''\<rparr>) tunnels_demo_config,
               sshjPlugin (demo_env\<lparr>platform := ''win32''\<rparr>) tunnels_demo_config,
               cloudflarePlugin (demo_env\<lparr>platform := ''win32''\<rparr>) tunnels_demo_config])
            = [''Pinggy'', ''SSH-J'']"
    by (simp add: available_def pinggyPlugin_def sshjPlugin_def cloudflarePlugin_def
        pinggy_isAvailable_def sshj_isAvailable_def cloudflare_isAvailable_def
        tunnels_demo_config_def sshj_demo_config_def demo_config_def)
  have a: "fst (run (demo_env\<lparr>platform := ''darwin''\<rparr>) demo_config no_options demo_world) = Exited 1
     \<and> milestones (events (snd (run (demo_env\<lparr>platform := ''darwin''\<rparr>) demo_config no_options
                                  demo_world))) = []"
    using run_ssh_before_tunnels[OF m0, where e = "demo_env\<lparr>platform := ''darwin''\<rparr>"
            and cfg = demo_config and opts = no_options
            and err = "SSHDError ''Unsupported platform: darwin''",
            THEN conjunct2, THEN conjunct1] d
    by (simp add: mergeOptions_none validate_demo)
  have b: "milestones (events (snd (run (demo_env\<lparr>platform := ''win32''\<rparr>) tunnels_demo_config
                                no_options demo_world)))
       = [SshSetupReturned ''windows'' ''2222'', TunnelStartInvoked ''Pinggy'',
          TunnelStartInvoked ''SSH-J'']"
    using run_ssh_before_tunnels[OF m0, where e = "demo_env\<lparr>platform := ''win32''\<rparr>"
            and cfg = tunnels_demo_config and opts = no_options
            and r = "\<lparr>sshr_mode = ''windows'', sshr_port = ''2222'', sshr_baseDir = None,
                    sshr_logPath = None, sshr_pid = None\<rparr>",
            THEN conjunct2, THEN conjunct2] u
    by (simp add: mergeOptions_none validate_demo av del: filter.simps)
  show ?thesis using a b by simp
qed


end
